theory Spec2Isabelle
  imports Main "HOL-Library.Word"
begin

unbundle bit_operations_syntax

section \<open>Data model of the sample library server\<close>

text \<open>
  Objects of the server live in arenas and are handed around by pointer. A pointer is
  an address (\<open>addr\<close>); every kind of object has its own memory, a total function from
  addresses to objects, and every arena list is the list of the addresses of its nodes,
  front first. Atomic fields are plain fields: every function below is one thread's
  uninterrupted run, except in the section on the loading state machine, where the
  atomic accesses of the threads are interleaved one by one.
\<close>

type_synonym u32 = "32 word"
type_synonym u64 = "64 word"
type_synonym addr = nat
type_synonym AudioData = "nat list"

datatype ErrorCode =
  CommonError_NotFound
| FilesystemError_PathDoesNotExist
| OtherError nat

datatype LoadingState =
  PendingLoad
| PendingCancel
| Loading
| CompletedSucessfully
| CompletedWithError
| CompletedCancelled

record ListedAudioData =
  a_library_name :: string
  a_path :: string
  a_audio_data :: AudioData
  a_refs :: u32
  a_state :: LoadingState
  a_error :: "ErrorCode option"

record Region =
  file_path :: string

record Instrument =
  i_name :: string
  audio_file_path_for_waveform :: string
  regions :: "Region list"

text \<open>
  \<open>li_audio_datas\<close> is \<open>inst.audio_datas\<close>, parallel to the regions; each element
  points into a \<open>ListedAudioData\<close> and is kept as the address of that entry.
  \<open>library_refs\<close> is a reference to the \<open>reader_uses\<close> counter of the library node.
\<close>

record ListedInstrument =
  li_instrument :: Instrument
  li_audio_datas :: "addr list"
  file_for_gui_waveform :: "addr option"
  li_refs :: u32
  library_refs :: addr
  audio_data_set :: "addr list"

record ImpulseResponse =
  ir_name :: string
  ir_path :: string

record Library =
  l_name :: string
  l_path :: string
  file_hash :: u64
  insts_by_name :: "(string \<times> Instrument) list"
  irs_by_name :: "(string \<times> ImpulseResponse) list"

text \<open>A node of \<open>LibrariesList\<close>: the \<open>ListedLibrary\<close> value and the node's reader count.\<close>

record LibraryNode =
  lib :: Library
  instruments :: "addr list"
  reader_uses :: u32

datatype RefUnion = RU_Instrument addr | RU_Ir addr

datatype LoadResult_Result = Success RefUnion | Error ErrorCode | Cancelled

record LoadResult =
  r_id :: u64
  r_result :: LoadResult_Result

record Item =
  title :: string
  message :: string
  error_code :: "ErrorCode option"
  item_id :: u64

text \<open>
  A channel. \<open>results\<close> is the queue: \<open>Push\<close> appends, \<open>TryPop\<close> takes the head.
  \<open>callback_calls\<close> counts the invocations of \<open>result_added_callback\<close>.
  \<open>c_error_notifications\<close> refers to the sink the channel was opened with.
\<close>

record AsyncCommsChannel =
  c_error_notifications :: addr
  callback_calls :: nat
  used :: bool
  results :: "LoadResult list"
  instrument_loading_percents :: "int list"
  desired_inst :: "addr option list"

datatype LoadRequest =
  Request_Instrument string string nat
| Request_Ir string string

record QueuedRequest =
  q_id :: u64
  q_request :: LoadRequest
  async_comms_channel :: addr

datatype LoadingAsset = Asset_Instrument addr | Asset_Ir addr

datatype PendingState =
  AwaitingLibrary
| AwaitingAudio LoadingAsset
| State_Cancelled
| Failed ErrorCode
| CompletedSuccessfully RefUnion

record PendingResult =
  p_state :: PendingState
  p_request :: QueuedRequest
  debug_id :: nat

datatype ScanFolder_State = NotScanned | RescanRequested | Scanning | ScannedSuccessfully | ScanFailed

datatype ScanFolder_Source = AlwaysScannedFolder | ExtraFolder

record ScanFolder =
  sf_path :: string
  sf_source :: ScanFolder_Source
  sf_state :: ScanFolder_State

datatype FileFormat = Mdata | Lua

datatype PathOrMemory = Path string | Memory "nat list"

record ReadLibrary_Args =
  path_or_memory :: PathOrMemory
  format :: FileFormat

text \<open>
  A job of \<open>LibrariesAsyncContext\<close>: its arguments and its result. The result of a
  library read is empty (\<open>nullopt\<close>), an error with its message, or the library; a scan
  names its folder by its place in \<open>scan_folders\<close> and ends with an error or with success.
\<close>

datatype Job_Data =
  ReadLibrary ReadLibrary_Args "(ErrorCode \<times> string + Library) option"
| ScanFolder_Job nat "ErrorCode option"

record Job =
  job_data :: Job_Data
  completed :: bool
  handled :: bool

text \<open>
  The state the loading thread works on: the server's lists and the locals of
  \<open>LoadingThreadLoop\<close> (\<open>audio_datas\<close>, \<open>pending_results\<close>, \<open>debug_result_id\<close>, the
  decode jobs given to the thread pool, the count of unfinished library jobs).
  \<open>libraries\<close> is the live list of \<open>server.libraries\<close>, \<open>dead_list\<close> the removed nodes that
  are not yet deleted.
  \<open>work_signals\<close> counts the calls of \<open>work_signaller.Signal\<close>. \<open>notifications\<close> is the
  memory of the \<open>ThreadsafeErrorNotifications\<close> sinks, each the list of its items.
\<close>

record sys =
  audio :: "addr \<Rightarrow> ListedAudioData"
  audio_datas :: "addr list"
  thread_pool_jobs :: "addr list"
  insts :: "addr \<Rightarrow> ListedInstrument"
  nodes :: "addr \<Rightarrow> LibraryNode"
  libraries :: "addr list"
  dead_list :: "addr list"
  libraries_by_name :: "(string \<times> addr) list"
  chans :: "addr \<Rightarrow> AsyncCommsChannel"
  channels :: "addr list"
  request_queue :: "QueuedRequest list"
  request_id_counter :: u64
  scan_folders :: "ScanFolder list"
  notifications :: "addr \<Rightarrow> Item list"
  server_error_notifications :: addr
  pending_results :: "PendingResult list"
  debug_result_id :: nat
  jobs :: "Job list"
  num_uncompleted_jobs :: u32
  work_signals :: nat

text \<open>An arena hands out an address that no live node of the list has.\<close>

definition fresh :: "addr list \<Rightarrow> addr" where
  "fresh xs = Suc (fold max xs 0)"

section \<open>Reference counts of results\<close>

datatype RefCountChange = Retain | Release

text \<open>
  Modelled from the spec: \<open>RefCounted<T>\<close> is declared in a header that is not part of
  the sources at hand. It is a non-owning view of a shared object and its atomic counter,
  with a wake signaller invoked on release. \<open>Retain\<close> adds one to the counter, \<open>Release\<close>
  takes one off and signals. The results of the server are always built with the server's
  \<open>work_signaller\<close>.
\<close>

definition Instrument_ChangeRefCount :: "RefCountChange \<Rightarrow> addr \<Rightarrow> sys \<Rightarrow> sys" where
  "Instrument_ChangeRefCount t i s =
     (case t of
        Retain \<Rightarrow> s\<lparr>insts := (insts s)(i := (insts s i)\<lparr>li_refs := li_refs (insts s i) + 1\<rparr>)\<rparr>
      | Release \<Rightarrow> s\<lparr>insts := (insts s)(i := (insts s i)\<lparr>li_refs := li_refs (insts s i) - 1\<rparr>),
                     work_signals := Suc (work_signals s)\<rparr>)"

definition Audio_ChangeRefCount :: "RefCountChange \<Rightarrow> addr \<Rightarrow> sys \<Rightarrow> sys" where
  "Audio_ChangeRefCount t a s =
     (case t of
        Retain \<Rightarrow> s\<lparr>audio := (audio s)(a := (audio s a)\<lparr>a_refs := a_refs (audio s a) + 1\<rparr>)\<rparr>
      | Release \<Rightarrow> s\<lparr>audio := (audio s)(a := (audio s a)\<lparr>a_refs := a_refs (audio s a) - 1\<rparr>),
                     work_signals := Suc (work_signals s)\<rparr>)"

text \<open>
  \<open>LoadResult::ChangeRefCount\<close>. In the \<open>Ir\<close> case the \<open>break\<close> stands before the call
  of \<open>RefCounted<AudioData>::ChangeRefCount\<close>, so the call is never reached.
\<close>

definition ChangeRefCount :: "RefCountChange \<Rightarrow> LoadResult \<Rightarrow> sys \<Rightarrow> sys" where
  "ChangeRefCount t r s =
     (case r_result r of
        Success asset_union \<Rightarrow>
          (case asset_union of
             RU_Instrument i \<Rightarrow> Instrument_ChangeRefCount t i s
           | RU_Ir a \<Rightarrow> s)
      | Error e \<Rightarrow> s
      | Cancelled \<Rightarrow> s)"

definition LoadResult_Retain :: "LoadResult \<Rightarrow> sys \<Rightarrow> sys" where
  "LoadResult_Retain r s = ChangeRefCount Retain r s"

definition LoadResult_Release :: "LoadResult \<Rightarrow> sys \<Rightarrow> sys" where
  "LoadResult_Release r s = ChangeRefCount Release r s"



section \<open>The audio data store\<close>

datatype failure = PanicIfReached | AssertionFailed | OutOfBounds

text \<open>
  \<open>Atomic::CompareExchangeStrong\<close> on the value \<open>current\<close>: whether it exchanged, the
  new value of \<open>expected\<close>, and the new value of the atomic.
\<close>

definition CompareExchange ::
  "LoadingState \<Rightarrow> LoadingState \<Rightarrow> LoadingState \<Rightarrow> bool \<times> LoadingState \<times> LoadingState" where
  "CompareExchange current expected desired =
     (if current = expected then (True, expected, desired) else (False, current, current))"

definition set_state :: "addr \<Rightarrow> LoadingState \<Rightarrow> sys \<Rightarrow> sys" where
  "set_state a st s = s\<lparr>audio := (audio s)(a := (audio s a)\<lparr>a_state := st\<rparr>)\<rparr>"

text \<open>
  \<open>LoadAudioAsync\<close>, the caller's side: the job is added to the thread pool. The job is
  named by the entry it decodes.
\<close>

definition LoadAudioAsync :: "addr \<Rightarrow> sys \<Rightarrow> sys" where
  "LoadAudioAsync audio_data s = s\<lparr>thread_pool_jobs := thread_pool_jobs s @ [audio_data]\<rparr>"

text \<open>
  The job's side. Its compare-exchange loop, seen at the exchange that succeeds: from
  \<open>PendingLoad\<close> to \<open>Loading\<close>, from \<open>PendingCancel\<close> to \<open>CompletedCancelled\<close> (and the
  job returns), anything else panics. After decoding, the result is stored.
\<close>

definition job_begin :: "LoadingState \<Rightarrow> failure + LoadingState" where
  "job_begin state =
     (if state = PendingLoad then Inr Loading
      else if state = PendingCancel then Inr CompletedCancelled
      else Inl PanicIfReached)"

definition job_result :: "ErrorCode + AudioData \<Rightarrow> LoadingState" where
  "job_result outcome =
     (case outcome of Inr data \<Rightarrow> CompletedSucessfully | Inl e \<Rightarrow> CompletedWithError)"

definition job_store :: "ErrorCode + AudioData \<Rightarrow> ListedAudioData \<Rightarrow> ListedAudioData" where
  "job_store outcome d =
     (case outcome of
        Inr data \<Rightarrow> d\<lparr>a_audio_data := data, a_state := CompletedSucessfully\<rparr>
      | Inl e \<Rightarrow> d\<lparr>a_error := Some e, a_state := CompletedWithError\<rparr>)"

text \<open>
  The job in an uninterrupted run; \<open>outcome\<close> is what reading and decoding the file
  gives. On every way out that is no panic the count of thread pool jobs goes down and
  the work signaller is signalled.
\<close>

definition decode_job :: "ErrorCode + AudioData \<Rightarrow> addr \<Rightarrow> sys \<Rightarrow> failure + sys" where
  "decode_job outcome audio_data s =
     (case job_begin (a_state (audio s audio_data)) of
        Inl f \<Rightarrow> Inl f
      | Inr new_state \<Rightarrow>
          let s1 = s\<lparr>thread_pool_jobs := remove1 audio_data (thread_pool_jobs s),
                     work_signals := Suc (work_signals s)\<rparr>
          in if new_state = CompletedCancelled then Inr (set_state audio_data new_state s1)
             else Inr (s1\<lparr>audio := (audio s1)(audio_data := job_store outcome (audio s1 audio_data))\<rparr>))"

text \<open>
  \<open>TriggerReloadIfAudioIsCancelled\<close>. The assertion at its end cannot fail in an
  uninterrupted run (lemma \<open>TriggerReload_assertion\<close>), so it is not a branch here.
\<close>

definition TriggerReloadIfAudioIsCancelled :: "addr \<Rightarrow> sys \<Rightarrow> sys" where
  "TriggerReloadIfAudioIsCancelled audio_data s =
     (case CompareExchange (a_state (audio s audio_data)) PendingCancel PendingLoad of
        (exchanged, expected, new) \<Rightarrow>
          if \<not> exchanged then
            (if expected = CompletedCancelled
             then LoadAudioAsync audio_data (set_state audio_data PendingLoad s)
             else s)
          else set_state audio_data new s)"

text \<open>The search loop of \<open>FetchOrCreateAudioData\<close>: the first entry of the list that matches.\<close>

definition find_audio_data :: "Library \<Rightarrow> string \<Rightarrow> sys \<Rightarrow> addr option" where
  "find_audio_data lb path s =
     find (\<lambda>d. l_name lb = a_library_name (audio s d) \<and> a_path (audio s d) = path)
       (audio_datas s)"

definition FetchOrCreateAudioData :: "Library \<Rightarrow> string \<Rightarrow> sys \<Rightarrow> addr \<times> sys" where
  "FetchOrCreateAudioData lb path s =
     (case find_audio_data lb path s of
        Some d \<Rightarrow> (d, TriggerReloadIfAudioIsCancelled d s)
      | None \<Rightarrow>
          let audio_data = fresh (audio_datas s);
              s1 = s\<lparr>audio_datas := audio_data # audio_datas s,
                     audio := (audio s)(audio_data :=
                       \<lparr>a_library_name = l_name lb, a_path = path, a_audio_data = [],
                        a_refs = 0, a_state = PendingLoad, a_error = None\<rparr>)\<rparr>
          in (audio_data, LoadAudioAsync audio_data s1))"

text \<open>
  Modelled from the spec: \<open>dyn::AppendIfNotAlreadyThere\<close> is not part of the sources at
  hand; it deduplicates, appending the element only when the array does not hold it.
\<close>

definition AppendIfNotAlreadyThere :: "'a list \<Rightarrow> 'a \<Rightarrow> 'a list" where
  "AppendIfNotAlreadyThere xs x = (if x \<in> set xs then xs else xs @ [x])"

text \<open>
  The loop of \<open>FetchOrCreateInstrument\<close> over the regions. The accumulator is
  \<open>inst.audio_datas\<close> as filled so far, \<open>audio_data_set\<close>, \<open>file_for_gui_waveform\<close> and the
  state.
\<close>

fun regions_loop ::
  "Library \<Rightarrow> Instrument \<Rightarrow> Region list \<Rightarrow> addr list \<times> addr list \<times> addr option \<times> sys \<Rightarrow>
   addr list \<times> addr list \<times> addr option \<times> sys" where
  "regions_loop lb inst [] acc = acc"
| "regions_loop lb inst (region_info # rest) (arr, aset, waveform, s) =
     (case FetchOrCreateAudioData lb (file_path region_info) s of
        (ref_audio_data, s1) \<Rightarrow>
          regions_loop lb inst rest
            (arr @ [ref_audio_data],
             AppendIfNotAlreadyThere aset ref_audio_data,
             (if audio_file_path_for_waveform inst = file_path region_info
              then Some ref_audio_data else waveform),
             s1))"

definition refs_FetchAdd :: "addr \<Rightarrow> sys \<Rightarrow> sys" where
  "refs_FetchAdd d s = s\<lparr>audio := (audio s)(d := (audio s d)\<lparr>a_refs := a_refs (audio s d) + 1\<rparr>)\<rparr>"

definition all_instruments :: "sys \<Rightarrow> addr list" where
  "all_instruments s = concat (map (\<lambda>n. instruments (nodes s n)) (libraries s @ dead_list s))"

text \<open>
  \<open>FetchOrCreateInstrument\<close> for the library node \<open>lib_node\<close>. The tracing ids are left
  out. The first assertion (\<open>&inst.library == lib.lib\<close>) is the caller's duty; the second
  (\<open>audio_data_set.size\<close>) is a branch.
\<close>

definition FetchOrCreateInstrument :: "addr \<Rightarrow> Instrument \<Rightarrow> sys \<Rightarrow> failure + addr \<times> sys" where
  "FetchOrCreateInstrument lib_node inst s =
     (case find (\<lambda>i. i_name (li_instrument (insts s i)) = i_name inst)
             (instruments (nodes s lib_node)) of
        Some i \<Rightarrow> Inr (i, fold TriggerReloadIfAudioIsCancelled (audio_data_set (insts s i)) s)
      | None \<Rightarrow>
          let new_inst = fresh (all_instruments s);
              s1 = s\<lparr>insts := (insts s)(new_inst :=
                        \<lparr>li_instrument = inst, li_audio_datas = [], file_for_gui_waveform = None,
                         li_refs = 0, library_refs = lib_node, audio_data_set = []\<rparr>),
                     nodes := (nodes s)(lib_node := (nodes s lib_node)
                        \<lparr>instruments := new_inst # instruments (nodes s lib_node),
                         reader_uses := reader_uses (nodes s lib_node) + 1\<rparr>)\<rparr>
          in (case regions_loop (lib (nodes s1 lib_node)) inst (regions inst) ([], [], None, s1) of
                (arr, aset, waveform, s2) \<Rightarrow>
                  let s3 = fold refs_FetchAdd aset s2 in
                  if aset = [] then Inl AssertionFailed
                  else Inr (new_inst,
                         s3\<lparr>insts := (insts s3)(new_inst := (insts s3 new_inst)
                              \<lparr>li_audio_datas := arr, file_for_gui_waveform := waveform,
                               audio_data_set := aset\<rparr>)\<rparr>)))"

text \<open>
  \<open>CancelLoadingAudioForInstrumentIfPossible\<close>: the loop over \<open>audio_data_set\<close>.
\<close>

fun cancel_loop :: "addr list \<Rightarrow> sys \<Rightarrow> failure + sys" where
  "cancel_loop [] s = Inr s"
| "cancel_loop (audio_data # rest) s =
     (if a_refs (audio s audio_data) = 0 then Inl AssertionFailed
      else if a_refs (audio s audio_data) = 1 then
        (case CompareExchange (a_state (audio s audio_data)) PendingLoad PendingCancel of
           (exchanged, expected, new) \<Rightarrow> cancel_loop rest (set_state audio_data new s))
      else cancel_loop rest s)"

definition CancelLoadingAudioForInstrumentIfPossible :: "addr \<Rightarrow> sys \<Rightarrow> failure + sys" where
  "CancelLoadingAudioForInstrumentIfPossible i s = cancel_loop (audio_data_set (insts s i)) s"

section \<open>Channels\<close>

text \<open>
  \<open>OpenAsyncCommsChannel\<close>. The number of layers \<open>k_num_layers\<close> is a constant of a header
  that is not part of the sources at hand, so it is a parameter. The designated
  initialisers give the sink, the callback and \<open>used\<close>; the other members are
  value-initialised; the loop then stores -1 in every loading percent.
\<close>

definition OpenAsyncCommsChannel :: "nat \<Rightarrow> addr \<Rightarrow> sys \<Rightarrow> addr \<times> sys" where
  "OpenAsyncCommsChannel k_num_layers error_notifications s =
     (let channel = fresh (channels s);
          c = \<lparr>c_error_notifications = error_notifications, callback_calls = 0, used = True,
               results = [], instrument_loading_percents = replicate k_num_layers 0,
               desired_inst = replicate k_num_layers None\<rparr>;
          c = c\<lparr>instrument_loading_percents := map (\<lambda>p. - 1) (instrument_loading_percents c)\<rparr>
      in (channel, s\<lparr>chans := (chans s)(channel := c), channels := channel # channels s\<rparr>))"

text \<open>The loop of \<open>CloseAsyncCommsChannel\<close>: pop the head of the queue and release it.\<close>

function close_loop :: "addr \<Rightarrow> sys \<Rightarrow> sys" where
  "close_loop channel s =
     (case results (chans s channel) of
        [] \<Rightarrow> s
      | r # rest \<Rightarrow>
          close_loop channel
            (LoadResult_Release r
               (s\<lparr>chans := (chans s)(channel := (chans s channel)\<lparr>results := rest\<rparr>)\<rparr>)))"
  by pat_completeness auto

termination close_loop
  by (relation "measure (\<lambda>(channel, s). length (results (chans s channel)))")
     (auto simp: LoadResult_Release_def ChangeRefCount_def Instrument_ChangeRefCount_def
        split: LoadResult_Result.splits RefUnion.splits RefCountChange.splits)

declare close_loop.simps [simp del]

definition CloseAsyncCommsChannel :: "addr \<Rightarrow> sys \<Rightarrow> sys" where
  "CloseAsyncCommsChannel channel s =
     close_loop channel (s\<lparr>chans := (chans s)(channel := (chans s channel)\<lparr>used := False\<rparr>)\<rparr>)"

definition SendAsyncLoadRequest :: "addr \<Rightarrow> LoadRequest \<Rightarrow> sys \<Rightarrow> u64 \<times> sys" where
  "SendAsyncLoadRequest channel request s =
     (let queued_request = \<lparr>q_id = request_id_counter s, q_request = request,
                             async_comms_channel = channel\<rparr>
      in (q_id queued_request,
          s\<lparr>request_id_counter := request_id_counter s + 1,
            request_queue := request_queue s @ [queued_request],
            work_signals := Suc (work_signals s)\<rparr>))"

section \<open>The loading thread: taking requests and dispatching results\<close>

text \<open>The body of the loop that consumes the incoming requests, for one popped request.\<close>

definition consume_request :: "QueuedRequest \<Rightarrow> sys \<Rightarrow> sys" where
  "consume_request queued_request s =
     (if \<not> used (chans s (async_comms_channel queued_request)) then s
      else
        let s1 = s\<lparr>scan_folders :=
                     map (\<lambda>f. if sf_state f = NotScanned then f\<lparr>sf_state := RescanRequested\<rparr> else f)
                       (scan_folders s)\<rparr>;
            pending_result = \<lparr>p_state = AwaitingLibrary, p_request = queued_request,
                              debug_id = debug_result_id s1\<rparr>
        in s1\<lparr>debug_result_id := Suc (debug_result_id s1),
               pending_results := pending_result # pending_results s1\<rparr>)"

function consume_requests :: "sys \<Rightarrow> sys" where
  "consume_requests s =
     (case request_queue s of
        [] \<Rightarrow> s
      | queued_request # rest \<Rightarrow>
          consume_requests (consume_request queued_request (s\<lparr>request_queue := rest\<rparr>)))"
  by pat_completeness auto

termination consume_requests
  by (relation "measure (\<lambda>s. length (request_queue s))")
     (auto simp: consume_request_def Let_def)

declare consume_requests.simps [simp del]

text \<open>
  The predicate given to \<open>SinglyLinkedListRemoveIf\<close> at the end of a pass: a pending
  result in a terminal state is turned into a \<open>LoadResult\<close>, delivered if the channel is
  still used, and removed from the list. \<open>terminal_result\<close> is its two switches over the
  state: no result for a state that is not terminal (the predicate returns false).
\<close>

definition terminal_result :: "PendingState \<Rightarrow> LoadResult_Result option" where
  "terminal_result state =
     (case state of
        AwaitingLibrary \<Rightarrow> None
      | AwaitingAudio asset \<Rightarrow> None
      | State_Cancelled \<Rightarrow> Some Cancelled
      | Failed e \<Rightarrow> Some (Error e)
      | CompletedSuccessfully u \<Rightarrow> Some (Success u))"

definition dispatch_result :: "PendingResult \<Rightarrow> sys \<Rightarrow> bool \<times> sys" where
  "dispatch_result pending_result s =
     (case terminal_result (p_state pending_result) of
        None \<Rightarrow> (False, s)
      | Some r \<Rightarrow>
          let result = \<lparr>r_id = q_id (p_request pending_result), r_result = r\<rparr>;
              channel = async_comms_channel (p_request pending_result)
          in if used (chans s channel) then
               let s1 = LoadResult_Retain result s;
                   s2 = s1\<lparr>chans := (chans s1)(channel :=
                              (chans s1 channel)\<lparr>results := results (chans s1 channel) @ [result]\<rparr>)\<rparr>;
                   s3 = s2\<lparr>chans := (chans s2)(channel :=
                              (chans s2 channel)\<lparr>callback_calls := Suc (callback_calls (chans s2 channel))\<rparr>)\<rparr>
               in (True, s3)
             else (True, s))"

fun remove_if_dispatched :: "PendingResult list \<Rightarrow> sys \<Rightarrow> PendingResult list \<times> sys" where
  "remove_if_dispatched [] s = ([], s)"
| "remove_if_dispatched (p # ps) s =
     (case dispatch_result p s of
        (removed, s1) \<Rightarrow>
          (case remove_if_dispatched ps s1 of
             (ps', s2) \<Rightarrow> (if removed then ps' else p # ps', s2)))"

definition dispatch_results :: "sys \<Rightarrow> sys" where
  "dispatch_results s =
     (case remove_if_dispatched (pending_results s) s of
        (ps, s1) \<Rightarrow> s1\<lparr>pending_results := ps\<rparr>)"


text \<open>
  Any succession of the two loops of the loading thread that take requests from the
  queue and give results to the channels.
\<close>

datatype server_step = Consume_Requests | Dispatch_Results

fun server_run :: "server_step list \<Rightarrow> sys \<Rightarrow> sys" where
  "server_run [] s = s"
| "server_run (Consume_Requests # rest) s = server_run rest (consume_requests s)"
| "server_run (Dispatch_Results # rest) s = server_run rest (dispatch_results s)"

section \<open>Error notifications\<close>

text \<open>
  What the code takes from outside the sources at hand, as parameters: \<open>Hash32\<close> and
  \<open>Hash\<close> (used for the notification ids), \<open>path::Equal\<close> and
  \<open>path::IsWithinDirectory\<close>, the name of the built-in library, the rounded percentage
  \<open>RoundPositiveFloat(100.0f * ((f32)n / (f32)size))\<close> (a floating-point computation), and
  the file and parser interface the library read job calls.
\<close>

record ext =
  Hash32 :: "string \<Rightarrow> u32"
  Hash :: "string \<Rightarrow> u64"
  path_Equal :: "string \<Rightarrow> string \<Rightarrow> bool"
  path_IsWithinDirectory :: "string \<Rightarrow> string \<Rightarrow> bool"
  k_builtin_library_name :: string
  RoundedPercent :: "nat \<Rightarrow> nat \<Rightarrow> int"
  ReadEntireFile :: "string \<Rightarrow> ErrorCode + nat list"
  Reader_FromPathOrMemory :: "PathOrMemory \<Rightarrow> ErrorCode + nat list"
  sample_lib_Hash :: "nat list \<Rightarrow> FileFormat \<Rightarrow> ErrorCode + u64"
  sample_lib_Read :: "nat list \<Rightarrow> FileFormat \<Rightarrow> string \<Rightarrow> ErrorCode \<times> string + Library"

text \<open>
  Modelled from the spec: \<open>U32FromChars\<close> is not part of the sources at hand. Its argument
  is an array of the four characters of a tag and the terminator; it is taken to pack
  the four characters into the four bytes of the result, the first character in the low
  byte, which makes the ids of different categories distinguishable, as the spec has it.
  The argument type admits no string of another length.
\<close>

fun U32FromChars :: "string \<Rightarrow> u32" where
  "U32FromChars [a, b, c, d] =
     of_char a OR push_bit 8 (of_char b) OR push_bit 16 (of_char c) OR push_bit 24 (of_char d)"
| "U32FromChars data = 0"

text \<open>\<open>ThreadsafeErrorNotifications::Id\<close>: the tag in the high half, the hash in the low half.\<close>

definition Id :: "ext \<Rightarrow> string \<Rightarrow> string \<Rightarrow> u64" where
  "Id x data string_to_hash =
     push_bit 32 (ucast (U32FromChars data) :: u64) OR ucast (Hash32 x string_to_hash)"

text \<open>
  \<open>AddOrUpdateError\<close> on the items of a sink: the first item with the same id is
  overwritten, otherwise the new item is inserted. \<open>RemoveError\<close> removes every item
  with the id. Modelled from the spec: \<open>AtomicRefList\<close> is not part of the sources at
  hand; \<open>Insert\<close> is taken to put the node at the front of the live list, and \<open>Remove\<close>
  to move it from the live list to the dead list.
\<close>

fun update_item :: "Item \<Rightarrow> Item list \<Rightarrow> Item list option" where
  "update_item node [] = None"
| "update_item node (i # rest) =
     (if item_id i = item_id node then Some (node # rest)
      else map_option ((#) i) (update_item node rest))"

definition AddOrUpdateError :: "addr \<Rightarrow> Item \<Rightarrow> sys \<Rightarrow> sys" where
  "AddOrUpdateError sink node s =
     s\<lparr>notifications := (notifications s)(sink :=
          (case update_item node (notifications s sink) of
             Some items \<Rightarrow> items
           | None \<Rightarrow> node # notifications s sink))\<rparr>"

definition RemoveError :: "addr \<Rightarrow> u64 \<Rightarrow> sys \<Rightarrow> sys" where
  "RemoveError sink n s =
     s\<lparr>notifications := (notifications s)(sink :=
          filter (\<lambda>i. item_id i \<noteq> n) (notifications s sink))\<rparr>"

section \<open>The loading thread: one pass over the pending results\<close>

definition library_name_of :: "LoadRequest \<Rightarrow> string" where
  "library_name_of r =
     (case r of Request_Instrument library_name inst_name layer_index \<Rightarrow> library_name
              | Request_Ir library_name ir_nm \<Rightarrow> library_name)"

definition store_percent :: "addr \<Rightarrow> nat \<Rightarrow> int \<Rightarrow> sys \<Rightarrow> sys" where
  "store_percent channel layer v s =
     s\<lparr>chans := (chans s)(channel := (chans s channel)
          \<lparr>instrument_loading_percents := (instrument_loading_percents (chans s channel))[layer := v]\<rparr>)\<rparr>"

definition store_desired :: "addr \<Rightarrow> nat \<Rightarrow> addr \<Rightarrow> sys \<Rightarrow> sys" where
  "store_desired channel layer inst s =
     s\<lparr>chans := (chans s)(channel := (chans s channel)
          \<lparr>desired_inst := (desired_inst (chans s channel))[layer := Some inst]\<rparr>)\<rparr>"

text \<open>
  The body of the loop "Fill in library", for one pending result. The two per-layer
  arrays of the channel have \<open>k_num_layers\<close> elements; indexing outside them is a branch
  of its own.
\<close>

definition fill_in_library :: "ext \<Rightarrow> PendingResult \<Rightarrow> sys \<Rightarrow> failure + PendingResult \<times> sys" where
  "fill_in_library x pending_result s =
     (if p_state pending_result \<noteq> AwaitingLibrary then Inr (pending_result, s)
      else
        let library_name = library_name_of (q_request (p_request pending_result));
            channel = async_comms_channel (p_request pending_result);
            sink = c_error_notifications (chans s channel)
        in if library_name = [] then Inl AssertionFailed
           else
             (case map_of (libraries_by_name s) library_name of
                None \<Rightarrow>
                  if num_uncompleted_jobs s = 0 then
                    Inr (pending_result\<lparr>p_state := Failed CommonError_NotFound\<rparr>,
                         AddOrUpdateError sink
                           \<lparr>title = library_name @ '' not found'', message = [],
                            error_code = Some CommonError_NotFound,
                            item_id = Id x ''lib '' library_name\<rparr> s)
                  else Inr (pending_result, s)
              | Some lb \<Rightarrow>
                  (case q_request (p_request pending_result) of
                     Request_Instrument ln inst_name layer_index \<Rightarrow>
                       if inst_name = [] then Inl AssertionFailed
                       else
                         (case map_of (insts_by_name (lib (nodes s lb))) inst_name of
                            Some i \<Rightarrow>
                              if \<not> layer_index < length (instrument_loading_percents (chans s channel))
                                 \<or> \<not> layer_index < length (desired_inst (chans s channel))
                              then Inl OutOfBounds
                              else
                                (case FetchOrCreateInstrument lb i (store_percent channel layer_index 0 s) of
                                   Inl f \<Rightarrow> Inl f
                                 | Inr (inst, s1) \<Rightarrow>
                                     Inr (pending_result\<lparr>p_state := AwaitingAudio (Asset_Instrument inst)\<rparr>,
                                          store_desired channel layer_index inst s1))
                          | None \<Rightarrow>
                              Inr (pending_result\<lparr>p_state := Failed CommonError_NotFound\<rparr>,
                                   AddOrUpdateError sink
                                     \<lparr>title = ''Cannot find instrument '' @ [CHR 0x22] @ inst_name @ [CHR 0x22],
                                      message = [], error_code = Some CommonError_NotFound,
                                      item_id = Id x ''inst'' inst_name\<rparr> s))
                   | Request_Ir ln ir_nm \<Rightarrow>
                       (case map_of (irs_by_name (lib (nodes s lb))) ir_nm of
                          Some ir \<Rightarrow>
                            (case FetchOrCreateAudioData (lib (nodes s lb)) (ir_path ir) s of
                               (audio_data, s1) \<Rightarrow>
                                 Inr (pending_result\<lparr>p_state := AwaitingAudio (Asset_Ir audio_data)\<rparr>, s1))
                        | None \<Rightarrow>
                            Inr (pending_result\<lparr>p_state := Failed CommonError_NotFound\<rparr>,
                                 AddOrUpdateError sink
                                   \<lparr>title = ''Failed to find IR'', message = ir_nm,
                                    error_code = Some CommonError_NotFound,
                                    item_id = Id x ''ir  '' ir_nm\<rparr> s)))))"

text \<open>\<open>PendingResult::IsDesired\<close>; \<open>LayerIndex\<close> panics on a request that is no instrument.\<close>

definition IsDesired :: "PendingResult \<Rightarrow> addr \<Rightarrow> sys \<Rightarrow> failure + bool" where
  "IsDesired pending_result i s =
     (case q_request (p_request pending_result) of
        Request_Instrument ln inst_name layer_index \<Rightarrow>
          if layer_index < length (desired_inst (chans s (async_comms_channel (p_request pending_result))))
          then Inr (desired_inst (chans s (async_comms_channel (p_request pending_result))) ! layer_index
                    = Some i)
          else Inl OutOfBounds
      | Request_Ir ln ir_nm \<Rightarrow> Inl PanicIfReached)"

definition LayerIndex :: "PendingResult \<Rightarrow> nat" where
  "LayerIndex pending_result =
     (case q_request (p_request pending_result) of
        Request_Instrument ln inst_name layer_index \<Rightarrow> layer_index
      | Request_Ir ln ir_nm \<Rightarrow> 0)"

text \<open>The body of the loop "For each inst, check for errors".\<close>

definition check_for_errors :: "ext \<Rightarrow> PendingResult \<Rightarrow> sys \<Rightarrow> failure + PendingResult \<times> sys" where
  "check_for_errors x pending_result s =
     (case p_state pending_result of
        AwaitingAudio (Asset_Instrument i) \<Rightarrow>
          if audio_data_set (insts s i) = [] then Inl AssertionFailed
          else
            (case find (\<lambda>a. a_state (audio s a) = CompletedWithError) (audio_data_set (insts s i)) of
               None \<Rightarrow> Inr (pending_result, s)
             | Some a \<Rightarrow>
                 (case a_error (audio s a) of
                    None \<Rightarrow> Inr (pending_result, s)
                  | Some e \<Rightarrow>
                      let channel = async_comms_channel (p_request pending_result);
                          s1 = AddOrUpdateError (c_error_notifications (chans s channel))
                                 \<lparr>title = ''Failed to load audio'',
                                  message = i_name (li_instrument (insts s i)),
                                  error_code = Some e,
                                  item_id = Id x ''audi'' (i_name (li_instrument (insts s i)))\<rparr> s
                      in (case CancelLoadingAudioForInstrumentIfPossible i s1 of
                            Inl f \<Rightarrow> Inl f
                          | Inr s2 \<Rightarrow>
                              (case IsDesired pending_result i s2 of
                                 Inl f \<Rightarrow> Inl f
                               | Inr desired \<Rightarrow>
                                   Inr (pending_result\<lparr>p_state := Failed e\<rparr>,
                                        if desired
                                        then store_percent channel (LayerIndex pending_result) (- 1) s2
                                        else s2)))))
      | other \<Rightarrow> Inr (pending_result, s))"

text \<open>
  The body of the loop "For each inst, check if it's still needed, and cancel if not.
  And update percent markers". \<open>all_pending\<close> is the list the loop runs over. The
  counter \<open>num_completed\<close> is a \<open>u32\<close>, compared with the size of the set.
\<close>

definition check_still_needed ::
  "ext \<Rightarrow> PendingResult list \<Rightarrow> PendingResult \<Rightarrow> sys \<Rightarrow> failure + PendingResult \<times> sys" where
  "check_still_needed x all_pending pending_result s =
     (case p_state pending_result of
        AwaitingAudio (Asset_Instrument i) \<Rightarrow>
          (case IsDesired pending_result i s of
             Inl f \<Rightarrow> Inl f
           | Inr True \<Rightarrow>
               let channel = async_comms_channel (p_request pending_result);
                   num_completed =
                     (of_nat (length (filter (\<lambda>a. a_state (audio s a) = CompletedSucessfully)
                                        (audio_data_set (insts s i)))) :: u32)
               in if unat num_completed = length (audio_data_set (insts s i)) then
                    Inr (pending_result\<lparr>p_state := CompletedSuccessfully (RU_Instrument i)\<rparr>,
                         store_percent channel (LayerIndex pending_result) (- 1) s)
                  else
                    Inr (pending_result,
                         store_percent channel (LayerIndex pending_result)
                           (RoundedPercent x (unat num_completed) (length (audio_data_set (insts s i)))) s)
           | Inr False \<Rightarrow>
               let is_desired_by_another =
                     list_ex (\<lambda>other. list_ex (\<lambda>other_desired. other_desired = Some i)
                                (desired_inst (chans s (async_comms_channel (p_request other)))))
                       all_pending
               in if \<not> is_desired_by_another then
                    (case CancelLoadingAudioForInstrumentIfPossible i s of
                       Inl f \<Rightarrow> Inl f
                     | Inr s1 \<Rightarrow> Inr (pending_result\<lparr>p_state := State_Cancelled\<rparr>, s1))
                  else Inr (pending_result\<lparr>p_state := State_Cancelled\<rparr>, s))
      | other \<Rightarrow> Inr (pending_result, s))"

text \<open>The body of the loop "Store the result of the IR load in the result, if needed".\<close>

definition store_ir_result :: "ext \<Rightarrow> PendingResult \<Rightarrow> sys \<Rightarrow> failure + PendingResult \<times> sys" where
  "store_ir_result x pending_result s =
     (case p_state pending_result of
        AwaitingAudio (Asset_Ir a) \<Rightarrow>
          (case a_state (audio s a) of
             CompletedSucessfully \<Rightarrow>
               Inr (pending_result\<lparr>p_state := CompletedSuccessfully (RU_Ir a)\<rparr>, s)
           | CompletedWithError \<Rightarrow>
               (case (q_request (p_request pending_result), a_error (audio s a)) of
                  (Request_Ir ln ir_nm, Some e) \<Rightarrow>
                    Inr (pending_result\<lparr>p_state := Failed e\<rparr>,
                         AddOrUpdateError
                           (c_error_notifications (chans s (async_comms_channel (p_request pending_result))))
                           \<lparr>title = ''Failed to load IR'', message = [], error_code = Some e,
                            item_id = Hash x ''ir  '' + Hash x ln + Hash x ir_nm\<rparr> s)
                | other \<Rightarrow> Inl PanicIfReached)
           | PendingLoad \<Rightarrow> Inr (pending_result, s)
           | Loading \<Rightarrow> Inr (pending_result, s)
           | PendingCancel \<Rightarrow> Inl PanicIfReached
           | CompletedCancelled \<Rightarrow> Inl PanicIfReached)
      | other \<Rightarrow> Inr (pending_result, s))"

text \<open>A loop over the pending results: each is updated in place, the state is threaded.\<close>

fun for_each_pending ::
  "(PendingResult \<Rightarrow> sys \<Rightarrow> failure + PendingResult \<times> sys) \<Rightarrow> PendingResult list \<Rightarrow> sys \<Rightarrow>
   failure + PendingResult list \<times> sys" where
  "for_each_pending body [] s = Inr ([], s)"
| "for_each_pending body (p # ps) s =
     (case body p s of
        Inl f \<Rightarrow> Inl f
      | Inr (p', s1) \<Rightarrow>
          (case for_each_pending body ps s1 of
             Inl f \<Rightarrow> Inl f
           | Inr (ps', s2) \<Rightarrow> Inr (p' # ps', s2)))"


section \<open>The library registry\<close>

definition AddAsyncJob :: "Job_Data \<Rightarrow> sys \<Rightarrow> sys" where
  "AddAsyncJob d s =
     s\<lparr>jobs := \<lparr>job_data = d, completed = False, handled = False\<rparr> # jobs s,
       num_uncompleted_jobs := num_uncompleted_jobs s + 1\<rparr>"

definition ReadLibraryAsync :: "PathOrMemory \<Rightarrow> FileFormat \<Rightarrow> sys \<Rightarrow> sys" where
  "ReadLibraryAsync pm fmt s =
     AddAsyncJob (ReadLibrary \<lparr>path_or_memory = pm, format = fmt\<rparr> None) s"

text \<open>
  The library read job, as the thread pool runs it (\<open>try_job\<close> of \<open>AddAsyncJob\<close>): the
  arguments as the job leaves them, and its result. \<open>hash_candidate\<close> is its first part,
  up to the content hash of the candidate file: the arguments, and the error or the
  reader with the hash. \<open>TryScoped\<close> succeeds on every node of the live list.
\<close>

definition hash_candidate ::
  "ext \<Rightarrow> ReadLibrary_Args \<Rightarrow> ReadLibrary_Args \<times> (ErrorCode + nat list \<times> u64)" where
  "hash_candidate x args =
     (case (if format args = Lua
            then (case path_or_memory args of
                    Path p \<Rightarrow> (case ReadEntireFile x p of Inl e \<Rightarrow> Inl e | Inr bytes \<Rightarrow> Inr (Memory bytes))
                  | Memory m \<Rightarrow> Inr (Memory m))
            else Inr (path_or_memory args)) of
        Inl e \<Rightarrow> (args, Inl e)
      | Inr pm \<Rightarrow>
          (args\<lparr>path_or_memory := pm\<rparr>,
           case Reader_FromPathOrMemory x pm of
             Inl e \<Rightarrow> Inl e
           | Inr reader \<Rightarrow>
               (case sample_lib_Hash x reader (format args) of
                  Inl e \<Rightarrow> Inl e
                | Inr h \<Rightarrow> Inr (reader, h))))"

definition read_library_job ::
  "ext \<Rightarrow> ReadLibrary_Args \<Rightarrow> sys \<Rightarrow> ReadLibrary_Args \<times> (ErrorCode \<times> string + Library) option" where
  "read_library_job x args s =
     (let path = (case path_or_memory args of Path p \<Rightarrow> p | Memory m \<Rightarrow> '':memory:'') in
      case hash_candidate x args of
        (args', Inl e) \<Rightarrow> (args', Some (Inl (e, [])))
      | (args', Inr (reader, h)) \<Rightarrow>
          if list_ex (\<lambda>node. file_hash (lib (nodes s node)) = h) (libraries s)
          then (args', None)
          else
            (case sample_lib_Read x reader (format args) path of
               Inl err \<Rightarrow> (args', Some (Inl err))
             | Inr l \<Rightarrow> (args', Some (Inr (l\<lparr>file_hash := h\<rparr>)))))"

definition run_job :: "ext \<Rightarrow> Job \<Rightarrow> sys \<Rightarrow> Job" where
  "run_job x job s =
     (case job_data job of
        ReadLibrary args r \<Rightarrow>
          (case read_library_job x args s of
             (args', r') \<Rightarrow> job\<lparr>job_data := ReadLibrary args' r', completed := True\<rparr>)
      | ScanFolder_Job folder outcome \<Rightarrow> job)"

text \<open>
  The loop of \<open>UpdateLoadingThread\<close> that removes every library with the name or the path
  of the new one: whether a library with the same hash was seen, the nodes kept, the
  nodes removed.
\<close>

fun remove_loop ::
  "ext \<Rightarrow> (addr \<Rightarrow> LibraryNode) \<Rightarrow> Library \<Rightarrow> addr list \<Rightarrow> bool \<Rightarrow> bool \<times> addr list \<times> addr list" where
  "remove_loop x nd l [] already_exists = (already_exists, [], [])"
| "remove_loop x nd l (it # rest) already_exists =
     (case remove_loop x nd l rest
             (if file_hash (lib (nd it)) = file_hash l then True else already_exists) of
        (ae, kept, removed) \<Rightarrow>
          if l_name (lib (nd it)) = l_name l \<or> path_Equal x (l_path (lib (nd it))) (l_path l)
          then (ae, kept, it # removed)
          else (ae, it # kept, removed))"

text \<open>The case \<open>ResultType::Value\<close> of a completed library read.\<close>

definition handle_library_value :: "ext \<Rightarrow> Library \<Rightarrow> u64 \<Rightarrow> sys \<Rightarrow> sys" where
  "handle_library_value x l error_id s =
     (case remove_loop x (nodes s) l (libraries s) False of
        (already_exists, kept, removed) \<Rightarrow>
          let s1 = s\<lparr>libraries := kept, dead_list := removed @ dead_list s\<rparr> in
          if already_exists then s1
          else
            let new_node = fresh (libraries s1 @ dead_list s1);
                s2 = s1\<lparr>nodes := (nodes s1)(new_node := \<lparr>lib = l, instruments = [], reader_uses = 0\<rparr>),
                        libraries := new_node # libraries s1\<rparr>
            in RemoveError (server_error_notifications s2) error_id s2)"

datatype flow = Continue | Return

text \<open>
  The body of the loop "handle async jobs that have completed", for one job. \<open>Return\<close>
  is a \<open>return\<close> out of \<open>UpdateLoadingThread\<close>. The deferred block (the job is handled, one
  job less is uncompleted) runs on every way out of the body.
\<close>

definition handle_job :: "ext \<Rightarrow> Job \<Rightarrow> sys \<Rightarrow> flow \<times> Job \<times> sys" where
  "handle_job x node s =
     (if handled node then (Continue, node, s)
      else if \<not> completed node then (Continue, node, s)
      else
        let done = node\<lparr>handled := True\<rparr>;
            s0 = s\<lparr>num_uncompleted_jobs := num_uncompleted_jobs s - 1\<rparr>
        in case job_data node of
             ReadLibrary args r \<Rightarrow>
               (let path = (case path_or_memory args of Path p \<Rightarrow> p | Memory m \<Rightarrow> '':memory:'') in
                case r of
                  None \<Rightarrow> (Return, done, s0)
                | Some (Inr l) \<Rightarrow>
                    (Continue, done, handle_library_value x l (Id x ''libs'' path) s0)
                | Some (Inl (code, msg)) \<Rightarrow>
                    if code = FilesystemError_PathDoesNotExist then (Return, done, s0)
                    else
                      (Continue, done,
                       AddOrUpdateError (server_error_notifications s0)
                         \<lparr>title = ''Failed to read library'',
                          message = (case path_or_memory args of Path p \<Rightarrow> p @ [CHR 0x0A] | Memory m \<Rightarrow> [])
                                    @ (if msg \<noteq> [] then msg @ [CHR 0x0A] else []),
                          error_code = Some code,
                          item_id = Id x ''libs'' path\<rparr> s0))
           | ScanFolder_Job folder outcome \<Rightarrow>
               if folder < length (scan_folders s0) then
                 let f = scan_folders s0 ! folder;
                     folder_error_id = Id x ''libs'' (sf_path f)
                 in (case outcome of
                       Some e \<Rightarrow>
                         let s1 = (if \<not> (sf_source f = AlwaysScannedFolder \<and> e = FilesystemError_PathDoesNotExist)
                                   then AddOrUpdateError (server_error_notifications s0)
                                          \<lparr>title = ''Failed to scan library folder'', message = sf_path f,
                                           error_code = Some e, item_id = folder_error_id\<rparr> s0
                                   else s0)
                         in (Continue, done,
                             s1\<lparr>scan_folders := (scan_folders s1)[folder := f\<lparr>sf_state := ScanFailed\<rparr>]\<rparr>)
                     | None \<Rightarrow>
                         let s1 = RemoveError (server_error_notifications s0) folder_error_id s0
                         in (Continue, done,
                             s1\<lparr>scan_folders := (scan_folders s1)[folder := f\<lparr>sf_state := ScannedSuccessfully\<rparr>]\<rparr>))
               else (Continue, done, s0))"

fun handle_jobs :: "ext \<Rightarrow> Job list \<Rightarrow> sys \<Rightarrow> flow \<times> Job list \<times> sys" where
  "handle_jobs x [] s = (Continue, [], s)"
| "handle_jobs x (node # rest) s =
     (case handle_job x node s of
        (Return, node', s1) \<Rightarrow> (Return, node' # rest, s1)
      | (Continue, node', s1) \<Rightarrow>
          (case handle_jobs x rest s1 of
             (fl, rest', s2) \<Rightarrow> (fl, node' # rest', s2)))"

text \<open>The loop "remove libraries that are not in any active scan-folders".\<close>

definition within_any_folder :: "ext \<Rightarrow> sys \<Rightarrow> addr \<Rightarrow> bool" where
  "within_any_folder x s it =
     (if l_name (lib (nodes s it)) = k_builtin_library_name x then True
      else list_ex (\<lambda>folder. path_IsWithinDirectory x (l_path (lib (nodes s it))) (sf_path folder))
             (scan_folders s))"

definition remove_libraries_not_in_folders :: "ext \<Rightarrow> sys \<Rightarrow> sys" where
  "remove_libraries_not_in_folders x s =
     s\<lparr>libraries := filter (within_any_folder x s) (libraries s),
       dead_list := filter (\<lambda>it. \<not> within_any_folder x s it) (libraries s) @ dead_list s\<rparr>"

text \<open>
  The block "update libraries_by_name": the table is emptied and every library of the
  list is inserted; an insertion that finds its key in the table fails the assertion.
\<close>

fun rebuild_loop ::
  "(addr \<Rightarrow> LibraryNode) \<Rightarrow> addr list \<Rightarrow> (string \<times> addr) list \<Rightarrow> failure + (string \<times> addr) list" where
  "rebuild_loop nd [] libs_by_name = Inr libs_by_name"
| "rebuild_loop nd (n # rest) libs_by_name =
     (case map_of libs_by_name (l_name (lib (nd n))) of
        Some other \<Rightarrow> Inl AssertionFailed
      | None \<Rightarrow> rebuild_loop nd rest ((l_name (lib (nd n)), n) # libs_by_name))"

definition rebuild_libraries_by_name :: "sys \<Rightarrow> failure + sys" where
  "rebuild_libraries_by_name s =
     (case rebuild_loop (nodes s) (libraries s) [] of
        Inl f \<Rightarrow> Inl f
      | Inr libs_by_name \<Rightarrow> Inr (s\<lparr>libraries_by_name := libs_by_name\<rparr>))"

text \<open>The loop "trigger folder scanning if any are marked as rescan-requested".\<close>

fun trigger_scans :: "nat list \<Rightarrow> sys \<Rightarrow> sys" where
  "trigger_scans [] s = s"
| "trigger_scans (k # ks) s =
     (if sf_state (scan_folders s ! k) = RescanRequested
      then trigger_scans ks
             (AddAsyncJob (ScanFolder_Job k None)
                (s\<lparr>scan_folders := (scan_folders s)[k := (scan_folders s ! k)\<lparr>sf_state := Scanning\<rparr>]\<rparr>))
      else trigger_scans ks s)"

text \<open>
  \<open>UpdateLoadingThread\<close> without its polling of the directory watcher, which stores
  scan-folder states and adds read jobs from events that come from outside, and without
  the deletion of unused scan folders.
\<close>

definition UpdateLoadingThread :: "ext \<Rightarrow> sys \<Rightarrow> failure + sys" where
  "UpdateLoadingThread x s =
     (let s1 = trigger_scans [0..<length (scan_folders s)] s in
      case handle_jobs x (jobs s1) s1 of
        (Return, js, s2) \<Rightarrow> Inr (s2\<lparr>jobs := js\<rparr>)
      | (Continue, js, s2) \<Rightarrow>
          rebuild_libraries_by_name (remove_libraries_not_in_folders x (s2\<lparr>jobs := js\<rparr>)))"

text \<open>The start of \<open>LoadingThreadLoop\<close>: the built-in library is put in the registry.\<close>

definition LoadingThreadLoop_start :: "Library \<Rightarrow> sys \<Rightarrow> sys" where
  "LoadingThreadLoop_start builtin s =
     (let node = fresh (libraries s @ dead_list s) in
      s\<lparr>scan_folders := map (\<lambda>f. f\<lparr>sf_state := NotScanned\<rparr>) (scan_folders s),
        nodes := (nodes s)(node := \<lparr>lib = builtin, instruments = [], reader_uses = 0\<rparr>),
        libraries := node # libraries s,
        libraries_by_name := (l_name builtin, node) # libraries_by_name s\<rparr>)"

text \<open>
  The invariant of the registry: no two libraries of the live list have the same name,
  and no two have paths that \<open>path::Equal\<close> holds of.
\<close>

fun paths_differ :: "ext \<Rightarrow> (addr \<Rightarrow> LibraryNode) \<Rightarrow> addr list \<Rightarrow> bool" where
  "paths_differ x nd [] = True"
| "paths_differ x nd (n # rest) =
     (\<not> list_ex (\<lambda>m. path_Equal x (l_path (lib (nd m))) (l_path (lib (nd n)))
                       \<or> path_Equal x (l_path (lib (nd n))) (l_path (lib (nd m)))) rest
      \<and> paths_differ x nd rest)"

definition registry_inv :: "ext \<Rightarrow> sys \<Rightarrow> bool" where
  "registry_inv x s =
     (distinct (libraries s) \<and>
      distinct (map (\<lambda>n. l_name (lib (nodes s n))) (libraries s)) \<and>
      paths_differ x (nodes s) (libraries s))"


section \<open>The loading state of one audio entry, with the threads interleaved\<close>

text \<open>
  One entry of the audio data store and the threads that access its \<open>state\<close>: the jobs
  of the thread pool that have not yet passed their compare-exchange loop
  (\<open>waiting_jobs\<close>), the jobs that are decoding (\<open>decoding_jobs\<close>), and the loading
  thread, which is either outside \<open>TriggerReloadIfAudioIsCancelled\<close> or in it, between
  the compare-exchange that found \<open>CompletedCancelled\<close> and the store that follows
  (\<open>reloading\<close>). Every atomic access is one step.
\<close>

record entry_cfg =
  st :: LoadingState
  waiting_jobs :: nat
  decoding_jobs :: nat
  reloading :: bool
  panicked :: bool

datatype access =
  Job_Exchange
| Job_Store "ErrorCode + AudioData"
| Cancel_Exchange
| Reload_Exchange
| Reload_Store

definition step :: "access \<Rightarrow> entry_cfg \<Rightarrow> entry_cfg option" where
  "step a c =
     (case a of
        Job_Exchange \<Rightarrow>
          if waiting_jobs c = 0 then None
          else
            (case job_begin (st c) of
               Inl f \<Rightarrow> Some (c\<lparr>panicked := True\<rparr>)
             | Inr new_state \<Rightarrow>
                 if new_state = CompletedCancelled
                 then Some (c\<lparr>st := new_state, waiting_jobs := waiting_jobs c - 1\<rparr>)
                 else Some (c\<lparr>st := new_state, waiting_jobs := waiting_jobs c - 1,
                              decoding_jobs := decoding_jobs c + 1\<rparr>))
      | Job_Store outcome \<Rightarrow>
          if decoding_jobs c = 0 then None
          else Some (c\<lparr>st := job_result outcome, decoding_jobs := decoding_jobs c - 1\<rparr>)
      | Cancel_Exchange \<Rightarrow>
          if reloading c then None
          else
            (case CompareExchange (st c) PendingLoad PendingCancel of
               (exchanged, expected, new) \<Rightarrow> Some (c\<lparr>st := new\<rparr>))
      | Reload_Exchange \<Rightarrow>
          if reloading c then None
          else
            (case CompareExchange (st c) PendingCancel PendingLoad of
               (exchanged, expected, new) \<Rightarrow>
                 Some (c\<lparr>st := new,
                         reloading := (\<not> exchanged \<and> expected = CompletedCancelled)\<rparr>))
      | Reload_Store \<Rightarrow>
          if \<not> reloading c then None
          else Some (c\<lparr>st := PendingLoad, waiting_jobs := waiting_jobs c + 1, reloading := False\<rparr>))"

fun run :: "access list \<Rightarrow> entry_cfg \<Rightarrow> entry_cfg option" where
  "run [] c = Some c"
| "run (a # as) c = (case step a c of None \<Rightarrow> None | Some c' \<Rightarrow> run as c')"

text \<open>
  A new entry, as \<open>FetchOrCreateAudioData\<close> leaves it: \<open>PendingLoad\<close>, with its decode job
  added to the thread pool.
\<close>

definition new_entry :: entry_cfg where
  "new_entry = \<lparr>st = PendingLoad, waiting_jobs = 1, decoding_jobs = 0, reloading = False,
                 panicked = False\<rparr>"

text \<open>The diagram of the loading states.\<close>

fun in_diagram :: "LoadingState \<Rightarrow> LoadingState \<Rightarrow> bool" where
  "in_diagram PendingLoad Loading = True"
| "in_diagram Loading CompletedSucessfully = True"
| "in_diagram Loading CompletedWithError = True"
| "in_diagram PendingLoad PendingCancel = True"
| "in_diagram PendingCancel CompletedCancelled = True"
| "in_diagram CompletedCancelled PendingLoad = True"
| "in_diagram PendingCancel PendingLoad = True"
| "in_diagram a b = False"

text \<open>The server before any channel is opened and any request is made.\<close>

definition default_audio :: ListedAudioData where
  "default_audio = \<lparr>a_library_name = [], a_path = [], a_audio_data = [], a_refs = 0,
                     a_state = CompletedCancelled, a_error = None\<rparr>"

definition default_library :: Library where
  "default_library = \<lparr>l_name = [], l_path = [], file_hash = 0, insts_by_name = [], irs_by_name = []\<rparr>"

definition default_channel :: AsyncCommsChannel where
  "default_channel = \<lparr>c_error_notifications = 0, callback_calls = 0, used = False, results = [],
                       instrument_loading_percents = [], desired_inst = []\<rparr>"

definition empty_server :: sys where
  "empty_server =
     \<lparr>audio = (\<lambda>a. default_audio),
      audio_datas = [],
      thread_pool_jobs = [],
      insts = (\<lambda>a. \<lparr>li_instrument = \<lparr>i_name = [], audio_file_path_for_waveform = [], regions = []\<rparr>,
                     li_audio_datas = [], file_for_gui_waveform = None, li_refs = 0,
                     library_refs = 0, audio_data_set = []\<rparr>),
      nodes = (\<lambda>a. \<lparr>lib = default_library, instruments = [], reader_uses = 0\<rparr>),
      libraries = [],
      dead_list = [],
      libraries_by_name = [],
      chans = (\<lambda>a. default_channel),
      channels = [],
      request_queue = [],
      request_id_counter = 0,
      scan_folders = [],
      notifications = (\<lambda>a. []),
      server_error_notifications = 0,
      pending_results = [],
      debug_result_id = 0,
      jobs = [],
      num_uncompleted_jobs = 0,
      work_signals = 0\<rparr>"

text \<open>
  What holds of an entry whenever no thread is in the middle of a step: the jobs that
  exist are the ones its state calls for.
\<close>

definition entry_inv :: "entry_cfg \<Rightarrow> bool" where
  "entry_inv c =
     (\<not> panicked c \<and>
      (case st c of
         PendingLoad \<Rightarrow> waiting_jobs c = 1 \<and> decoding_jobs c = 0 \<and> \<not> reloading c
       | PendingCancel \<Rightarrow> waiting_jobs c = 1 \<and> decoding_jobs c = 0 \<and> \<not> reloading c
       | Loading \<Rightarrow> waiting_jobs c = 0 \<and> decoding_jobs c = 1 \<and> \<not> reloading c
       | CompletedSucessfully \<Rightarrow> waiting_jobs c = 0 \<and> decoding_jobs c = 0 \<and> \<not> reloading c
       | CompletedWithError \<Rightarrow> waiting_jobs c = 0 \<and> decoding_jobs c = 0 \<and> \<not> reloading c
       | CompletedCancelled \<Rightarrow> waiting_jobs c = 0 \<and> decoding_jobs c = 0))"

section \<open>Example states\<close>

definition lib_A :: Library where
  "lib_A = \<lparr>l_name = ''A'', l_path = ''/libs/a.mdata'', file_hash = 7, insts_by_name = [],
            irs_by_name = []\<rparr>"

definition one_audio :: sys where
  "one_audio = snd (FetchOrCreateAudioData lib_A ''kick.flac'' empty_server)"

definition two_audio :: sys where
  "two_audio = snd (FetchOrCreateAudioData lib_A ''snare.flac'' one_audio)"

definition cancel_example :: sys where
  "cancel_example =
     empty_server\<lparr>
       audio := (\<lambda>a. default_audio)
         (1 := \<lparr>a_library_name = ''A'', a_path = ''kick.flac'', a_audio_data = [],
                a_refs = 1, a_state = PendingLoad, a_error = None\<rparr>,
          2 := \<lparr>a_library_name = ''A'', a_path = ''snare.flac'', a_audio_data = [],
                a_refs = 2, a_state = PendingLoad, a_error = None\<rparr>,
          3 := \<lparr>a_library_name = ''A'', a_path = ''hat.flac'', a_audio_data = [],
                a_refs = 1, a_state = Loading, a_error = None\<rparr>),
       audio_datas := [3, 2, 1],
       insts := (insts empty_server)
         (5 := \<lparr>li_instrument = \<lparr>i_name = ''Drums'', audio_file_path_for_waveform = [], regions = []\<rparr>,
                li_audio_datas = [1, 2, 3], file_for_gui_waveform = None, li_refs = 0,
                library_refs = 0, audio_data_set = [1, 2, 3]\<rparr>)\<rparr>"

definition open_state :: sys where
  "open_state = snd (OpenAsyncCommsChannel 3 0 empty_server)"

definition sent_state :: sys where
  "sent_state = snd (SendAsyncLoadRequest 1 (Request_Ir ''Built-in'' ''Hall'') open_state)"

definition closed_state :: sys where
  "closed_state = CloseAsyncCommsChannel 1 sent_state"

definition failed_pending :: PendingResult where
  "failed_pending =
     \<lparr>p_state = Failed CommonError_NotFound,
      p_request = \<lparr>q_id = 0, q_request = Request_Ir ''Built-in'' ''Hall'', async_comms_channel = 1\<rparr>,
      debug_id = 0\<rparr>"

definition ext0 :: ext where
  "ext0 =
     \<lparr>Hash32 = (\<lambda>s. of_nat (length s)),
      Hash = (\<lambda>s. of_nat (length s)),
      path_Equal = (=),
      path_IsWithinDirectory = (\<lambda>p d. take (length d) p = d),
      k_builtin_library_name = ''Built-in'',
      RoundedPercent = (\<lambda>n size. int (100 * n div size)),
      ReadEntireFile = (\<lambda>p. Inr [3, 4]),
      Reader_FromPathOrMemory = (\<lambda>pm. case pm of Path p \<Rightarrow> Inr [3, 4] | Memory m \<Rightarrow> Inr m),
      sample_lib_Hash = (\<lambda>bytes fmt. Inr (of_nat (sum_list bytes))),
      sample_lib_Read = (\<lambda>bytes fmt path. Inr (lib_A\<lparr>l_path := path\<rparr>))\<rparr>"

definition lib_builtin :: Library where
  "lib_builtin = \<lparr>l_name = ''Built-in'', l_path = '':memory:'', file_hash = 100, insts_by_name = [],
                  irs_by_name = [(''Hall'', \<lparr>ir_name = ''Hall'', ir_path = ''hall.flac''\<rparr>)]\<rparr>"

definition started :: sys where
  "started = LoadingThreadLoop_start lib_builtin empty_server"

definition with_A :: sys where
  "with_A = handle_library_value ext0 lib_A 0 started"




definition result_state :: "failure + PendingResult \<times> sys \<Rightarrow> PendingState option" where
  "result_state r = (case r of Inr (p, s) \<Rightarrow> Some (p_state p) | Inl f \<Rightarrow> None)"

definition inst_groups :: Instrument where
  "inst_groups =
     \<lparr>i_name = ''Groups And Refs'', audio_file_path_for_waveform = ''a.flac'',
      regions = [\<lparr>file_path = ''a.flac''\<rparr>, \<lparr>file_path = ''b.flac''\<rparr>,
                 \<lparr>file_path = ''a.flac''\<rparr>, \<lparr>file_path = ''b.flac''\<rparr>]\<rparr>"

definition inst_single :: Instrument where
  "inst_single =
     \<lparr>i_name = ''Single Sample'', audio_file_path_for_waveform = ''c.flac'',
      regions = [\<lparr>file_path = ''c.flac''\<rparr>]\<rparr>"

definition lib_S :: Library where
  "lib_S =
     \<lparr>l_name = ''SharedFilesMdata'', l_path = ''/libs/shared.mdata'', file_hash = 9,
      insts_by_name = [(''Groups And Refs'', inst_groups), (''Single Sample'', inst_single)],
      irs_by_name = []\<rparr>"

definition with_S :: sys where
  "with_S =
     (case rebuild_libraries_by_name
             (snd (OpenAsyncCommsChannel 3 0 (handle_library_value ext0 lib_S 0 started))) of
        Inr t \<Rightarrow> t
      | Inl f \<Rightarrow> empty_server)"

definition groups_pending :: PendingResult where
  "groups_pending =
     \<lparr>p_state = AwaitingLibrary,
      p_request = \<lparr>q_id = 0, q_request = Request_Instrument ''SharedFilesMdata'' ''Groups And Refs'' 0,
                   async_comms_channel = 1\<rparr>,
      debug_id = 0\<rparr>"

definition single_pending :: PendingResult where
  "single_pending =
     \<lparr>p_state = AwaitingLibrary,
      p_request = \<lparr>q_id = 1, q_request = Request_Instrument ''SharedFilesMdata'' ''Single Sample'' 0,
                   async_comms_channel = 1\<rparr>,
      debug_id = 1\<rparr>"

definition after_groups :: "PendingResult \<times> sys" where
  "after_groups =
     (case fill_in_library ext0 groups_pending with_S of
        Inr r \<Rightarrow> r | Inl f \<Rightarrow> (groups_pending, with_S))"

definition after_single :: "PendingResult \<times> sys" where
  "after_single =
     (case fill_in_library ext0 single_pending (snd after_groups) of
        Inr r \<Rightarrow> r | Inl f \<Rightarrow> (single_pending, snd after_groups))"

definition all_decoded :: sys where
  "all_decoded =
     fold (\<lambda>a s. case decode_job (Inr [0, 0]) a s of Inr t \<Rightarrow> t | Inl f \<Rightarrow> s)
       (thread_pool_jobs (snd after_single)) (snd after_single)"

definition groups_decoded :: sys where
  "groups_decoded =
     fold (\<lambda>a s. case decode_job (Inr [0, 0]) a s of Inr t \<Rightarrow> t | Inl f \<Rightarrow> s)
       (thread_pool_jobs (snd after_groups)) (snd after_groups)"

text \<open>
  Two requests for layer 0 of the same channel, sent one after the other and taken from
  the queue in one pass: the pending results are prepended, so that every loop of the
  pass meets the newer request first.
\<close>

definition two_requests :: sys where
  "two_requests =
     snd (SendAsyncLoadRequest 1 (Request_Instrument ''SharedFilesMdata'' ''Single Sample'' 0)
       (snd (SendAsyncLoadRequest 1 (Request_Instrument ''SharedFilesMdata'' ''Groups And Refs'' 0)
          with_S)))"

definition taken :: sys where
  "taken = consume_requests two_requests"

definition same_pass :: "PendingResult list \<times> sys" where
  "same_pass =
     (case for_each_pending (fill_in_library ext0) (pending_results taken) taken of
        Inr r \<Rightarrow> r | Inl f \<Rightarrow> ([], taken))"

definition materialized :: "addr \<times> sys" where
  "materialized =
     (case FetchOrCreateInstrument 2 inst_groups (store_percent 1 0 0 with_S) of
        Inr r \<Rightarrow> r | Inl f \<Rightarrow> (0, with_S))"

section \<open>Theorems\<close>

lemma fold_max_start: "m \<le> fold max xs (m::nat)"
proof (induction xs arbitrary: m)
  case Nil
  then show ?case by simp
next
  case (Cons y ys)
  have "m \<le> max y m" by simp
  also have "\<dots> \<le> fold max ys (max y m)" by (rule Cons.IH)
  finally show ?case by simp
qed

lemma fresh_ge: "x \<in> set xs \<Longrightarrow> x \<le> fold max xs (m::nat)"
proof (induction xs arbitrary: m)
  case Nil
  then show ?case by simp
next
  case (Cons y ys)
  show ?case
  proof (cases "x = y")
    case True
    have "y \<le> max y m" by simp
    also have "\<dots> \<le> fold max ys (max y m)" by (rule fold_max_start)
    finally show ?thesis using True by simp
  next
    case False
    with Cons.prems have "x \<in> set ys" by simp
    then show ?thesis using Cons.IH by simp
  qed
qed

lemma fresh_notin: "fresh xs \<notin> set xs"
proof
  assume "fresh xs \<in> set xs"
  then have "fresh xs \<le> fold max xs 0" by (rule fresh_ge)
  then show False by (simp add: fresh_def)
qed

text \<open>
  C1, as the code has it: changing the reference count of a successful impulse-response
  result leaves the whole state as it was, so the counter of the audio entry does not
  move, neither on \<open>Retain\<close> nor on \<open>Release\<close>; the call that is never reached would
  have moved it by one, as the instrument case moves the counter of an instrument. A
  completed impulse-response result pushed onto a channel therefore holds no reference
  to its audio entry.
\<close>

theorem ChangeRefCount_Ir_no_effect:
  "ChangeRefCount t \<lparr>r_id = n, r_result = Success (RU_Ir a)\<rparr> s = s \<and>
   a_refs (audio (LoadResult_Retain \<lparr>r_id = n, r_result = Success (RU_Ir a)\<rparr> s) a)
     = a_refs (audio s a) \<and>
   a_refs (audio (Audio_ChangeRefCount Retain a s) a) = a_refs (audio s a) + 1 \<and>
   a_refs (audio (Audio_ChangeRefCount Release a s) a) = a_refs (audio s a) - 1 \<and>
   li_refs (insts (LoadResult_Retain \<lparr>r_id = n, r_result = Success (RU_Instrument i)\<rparr> s) i)
     = li_refs (insts s i) + 1 \<and>
   li_refs (insts (LoadResult_Release \<lparr>r_id = n, r_result = Success (RU_Instrument i)\<rparr> s) i)
     = li_refs (insts s i) - 1"
  by (simp add: ChangeRefCount_def LoadResult_Retain_def LoadResult_Release_def
        Audio_ChangeRefCount_def Instrument_ChangeRefCount_def)

lemma TriggerReload_assertion:
  "a_state (audio (TriggerReloadIfAudioIsCancelled d s) d) \<noteq> CompletedCancelled \<and>
   a_state (audio (TriggerReloadIfAudioIsCancelled d s) d) \<noteq> PendingCancel"
  by (cases "a_state (audio s d)")
     (simp_all add: TriggerReloadIfAudioIsCancelled_def CompareExchange_def set_state_def
        LoadAudioAsync_def)

lemma TriggerReload_cases:
  "TriggerReloadIfAudioIsCancelled d s =
     (if a_state (audio s d) = PendingCancel then set_state d PendingLoad s
      else if a_state (audio s d) = CompletedCancelled
      then (set_state d PendingLoad s)\<lparr>thread_pool_jobs := thread_pool_jobs s @ [d]\<rparr>
      else s)"
  by (simp add: TriggerReloadIfAudioIsCancelled_def CompareExchange_def set_state_def
        LoadAudioAsync_def)

lemma TriggerReload_fields:
  "a_library_name (audio (TriggerReloadIfAudioIsCancelled d s) e) = a_library_name (audio s e)"
  "a_path (audio (TriggerReloadIfAudioIsCancelled d s) e) = a_path (audio s e)"
  "a_refs (audio (TriggerReloadIfAudioIsCancelled d s) e) = a_refs (audio s e)"
  "audio_datas (TriggerReloadIfAudioIsCancelled d s) = audio_datas s"
  "e \<noteq> d \<Longrightarrow> audio (TriggerReloadIfAudioIsCancelled d s) e = audio s e"
  "insts (TriggerReloadIfAudioIsCancelled d s) = insts s"
  "nodes (TriggerReloadIfAudioIsCancelled d s) = nodes s"
  "libraries (TriggerReloadIfAudioIsCancelled d s) = libraries s"
  "dead_list (TriggerReloadIfAudioIsCancelled d s) = dead_list s"
  "chans (TriggerReloadIfAudioIsCancelled d s) = chans s"
  by (simp_all add: TriggerReload_cases set_state_def)

lemma find_first:
  "find P xs = Some x \<Longrightarrow> \<exists>ys zs. xs = ys @ x # zs \<and> P x \<and> (\<forall>e\<in>set ys. \<not> P e)"
proof (induction xs)
  case Nil
  then show ?case by simp
next
  case (Cons a xs)
  show ?case
  proof (cases "P a")
    case True
    then have "a = x" using Cons.prems by simp
    then have "a # xs = [] @ x # xs \<and> P x \<and> (\<forall>e\<in>set []. \<not> P e)" using True by simp
    then show ?thesis by blast
  next
    case False
    then have "find P xs = Some x" using Cons.prems by simp
    from Cons.IH [OF this] obtain ys zs where "xs = ys @ x # zs" "P x" "\<forall>e\<in>set ys. \<not> P e" by blast
    then have "a # xs = (a # ys) @ x # zs \<and> P x \<and> (\<forall>e\<in>set (a # ys). \<not> P e)" using False by simp
    then show ?thesis by blast
  qed
qed

text \<open>
  C4: \<open>FetchOrCreateAudioData\<close> searches the list for an entry with the name of the library
  and the path. When the list has such an entry, the entry returned is in the list, has
  that name and that path and is the first such entry of the list (so it is the entry
  itself when no other has its name and path); nothing is allocated; the state is
  untouched when the entry is pending, loading or loaded, the entry goes back to
  \<open>PendingLoad\<close> without a job when it was \<open>PendingCancel\<close>, and a decode job is added only
  when it was \<open>CompletedCancelled\<close>. When the list has no such entry, a new entry is put at
  the front of the list, with the name and the path, in state \<open>PendingLoad\<close> with reference
  count 0, and exactly one decode job is added. Either way, a list in which no two
  entries have the same name and path stays so.
\<close>

theorem FetchOrCreateAudioData_spec:
  assumes "FetchOrCreateAudioData lb path s = (r, s')"
  shows
  "(d \<in> set (audio_datas s) \<and> a_library_name (audio s d) = l_name lb \<and> a_path (audio s d) = path \<longrightarrow>
      r \<in> set (audio_datas s) \<and> a_library_name (audio s r) = l_name lb \<and> a_path (audio s r) = path \<and>
      (\<exists>before after. audio_datas s = before @ r # after \<and>
          (\<forall>e\<in>set before. \<not> (a_library_name (audio s e) = l_name lb \<and> a_path (audio s e) = path))) \<and>
      ((\<forall>e\<in>set (audio_datas s).
           a_library_name (audio s e) = l_name lb \<and> a_path (audio s e) = path \<longrightarrow> e = d) \<longrightarrow> r = d) \<and>
      audio_datas s' = audio_datas s \<and>
      (a_state (audio s r) \<in> {PendingLoad, Loading, CompletedSucessfully, CompletedWithError} \<longrightarrow>
         s' = s) \<and>
      (a_state (audio s r) = PendingCancel \<longrightarrow> s' = set_state r PendingLoad s) \<and>
      (a_state (audio s r) = CompletedCancelled \<longrightarrow>
         s' = (set_state r PendingLoad s)\<lparr>thread_pool_jobs := thread_pool_jobs s @ [r]\<rparr>)) \<and>
   ((\<forall>e\<in>set (audio_datas s).
        \<not> (a_library_name (audio s e) = l_name lb \<and> a_path (audio s e) = path)) \<longrightarrow>
      r \<notin> set (audio_datas s) \<and>
      s' = s\<lparr>audio_datas := r # audio_datas s,
             audio := (audio s)(r :=
               \<lparr>a_library_name = l_name lb, a_path = path, a_audio_data = [],
                a_refs = 0, a_state = PendingLoad, a_error = None\<rparr>),
             thread_pool_jobs := thread_pool_jobs s @ [r]\<rparr>) \<and>
   (distinct (map (\<lambda>e. (a_library_name (audio s e), a_path (audio s e))) (audio_datas s)) \<longrightarrow>
      distinct (map (\<lambda>e. (a_library_name (audio s' e), a_path (audio s' e))) (audio_datas s')))"
proof -
  let ?P = "\<lambda>e. l_name lb = a_library_name (audio s e) \<and> a_path (audio s e) = path"
  show ?thesis
  proof (cases "find ?P (audio_datas s)")
    case None
    then have no: "\<forall>e\<in>set (audio_datas s). \<not> ?P e" by (simp add: find_None_iff)
    have r: "r = fresh (audio_datas s)"
      and s': "s' = s\<lparr>audio_datas := r # audio_datas s,
             audio := (audio s)(r :=
               \<lparr>a_library_name = l_name lb, a_path = path, a_audio_data = [],
                a_refs = 0, a_state = PendingLoad, a_error = None\<rparr>),
             thread_pool_jobs := thread_pool_jobs s @ [r]\<rparr>"
      using assms None
      by (auto simp: FetchOrCreateAudioData_def find_audio_data_def Let_def LoadAudioAsync_def)
    have nin: "r \<notin> set (audio_datas s)" unfolding r by (rule fresh_notin)
    have m: "map (\<lambda>e. (a_library_name (audio s' e), a_path (audio s' e))) (audio_datas s)
             = map (\<lambda>e. (a_library_name (audio s e), a_path (audio s e))) (audio_datas s)"
      using nin by (intro map_cong) (auto simp: s')
    have k: "(l_name lb, path) \<notin> set (map (\<lambda>e. (a_library_name (audio s e), a_path (audio s e))) (audio_datas s))"
      using no by auto
    have dist: "distinct (map (\<lambda>e. (a_library_name (audio s e), a_path (audio s e))) (audio_datas s)) \<longrightarrow>
      distinct (map (\<lambda>e. (a_library_name (audio s' e), a_path (audio s' e))) (audio_datas s'))"
    proof
      assume d: "distinct (map (\<lambda>e. (a_library_name (audio s e), a_path (audio s e))) (audio_datas s))"
      have "map (\<lambda>e. (a_library_name (audio s' e), a_path (audio s' e))) (audio_datas s')
            = (l_name lb, path) # map (\<lambda>e. (a_library_name (audio s e), a_path (audio s e))) (audio_datas s)"
        using m by (simp add: s')
      then show "distinct (map (\<lambda>e. (a_library_name (audio s' e), a_path (audio s' e))) (audio_datas s'))"
        using d k by simp
    qed
    have no': "\<not> (d \<in> set (audio_datas s) \<and> a_library_name (audio s d) = l_name lb \<and> a_path (audio s d) = path)"
      using no by auto
    from no' nin s' dist show ?thesis by blast
  next
    case (Some e)
    from find_first [OF Some] obtain ys zs where
      split: "audio_datas s = ys @ e # zs" and Pe: "?P e" and before: "\<forall>a\<in>set ys. \<not> ?P a" by blast
    have r: "r = e" and s': "s' = TriggerReloadIfAudioIsCancelled e s"
      using assms Some by (auto simp: FetchOrCreateAudioData_def find_audio_data_def)
    have ein: "e \<in> set (audio_datas s)" using split by simp
    have ex: "\<exists>before after. audio_datas s = before @ r # after \<and>
          (\<forall>e\<in>set before. \<not> (a_library_name (audio s e) = l_name lb \<and> a_path (audio s e) = path))"
    proof (intro exI conjI)
      show "audio_datas s = ys @ r # zs" using split r by simp
      show "\<forall>e\<in>set ys. \<not> (a_library_name (audio s e) = l_name lb \<and> a_path (audio s e) = path)"
        using before by auto
    qed
    have dist: "distinct (map (\<lambda>e. (a_library_name (audio s e), a_path (audio s e))) (audio_datas s)) \<longrightarrow>
      distinct (map (\<lambda>e. (a_library_name (audio s' e), a_path (audio s' e))) (audio_datas s'))"
      by (simp add: s' TriggerReload_fields)
    have st: "(a_state (audio s r) \<in> {PendingLoad, Loading, CompletedSucessfully, CompletedWithError} \<longrightarrow>
         s' = s) \<and>
      (a_state (audio s r) = PendingCancel \<longrightarrow> s' = set_state r PendingLoad s) \<and>
      (a_state (audio s r) = CompletedCancelled \<longrightarrow>
         s' = (set_state r PendingLoad s)\<lparr>thread_pool_jobs := thread_pool_jobs s @ [r]\<rparr>)"
      by (auto simp: s' r TriggerReload_cases)
    have ad: "audio_datas s' = audio_datas s" by (simp add: s' TriggerReload_fields)
    have key: "r \<in> set (audio_datas s)" "a_library_name (audio s r) = l_name lb" "a_path (audio s r) = path"
      using Pe ein r by simp_all
    have uniq: "(\<forall>e\<in>set (audio_datas s).
           a_library_name (audio s e) = l_name lb \<and> a_path (audio s e) = path \<longrightarrow> e = d) \<longrightarrow> r = d"
      using key by blast
    have none: "\<not> (\<forall>e\<in>set (audio_datas s).
        \<not> (a_library_name (audio s e) = l_name lb \<and> a_path (audio s e) = path))"
      using key by blast
    from key ex uniq ad st none dist show ?thesis by blast
  qed
qed


lemma one_audio_eq:
  "one_audio = empty_server\<lparr>audio_datas := [Suc 0],
      audio := (\<lambda>a. default_audio)(Suc 0 :=
             \<lparr>a_library_name = ''A'', a_path = ''kick.flac'', a_audio_data = [],
              a_refs = 0, a_state = PendingLoad, a_error = None\<rparr>),
      thread_pool_jobs := [Suc 0]\<rparr>"
  by (simp add: one_audio_def FetchOrCreateAudioData_def find_audio_data_def empty_server_def
        Let_def LoadAudioAsync_def fresh_def lib_A_def)

lemma two_audio_facts:
  "audio_datas two_audio = [Suc (Suc 0), Suc 0]"
  "audio two_audio (Suc 0) =
     \<lparr>a_library_name = ''A'', a_path = ''kick.flac'', a_audio_data = [],
      a_refs = 0, a_state = PendingLoad, a_error = None\<rparr>"
  "audio two_audio (Suc (Suc 0)) =
     \<lparr>a_library_name = ''A'', a_path = ''snare.flac'', a_audio_data = [],
      a_refs = 0, a_state = PendingLoad, a_error = None\<rparr>"
  "thread_pool_jobs two_audio = [Suc 0, Suc (Suc 0)]"
  by (simp_all add: two_audio_def one_audio_eq FetchOrCreateAudioData_def find_audio_data_def
        empty_server_def Let_def LoadAudioAsync_def fresh_def lib_A_def)

theorem FetchOrCreateAudioData_spec_witness:
  "FetchOrCreateAudioData lib_A ''kick.flac'' empty_server = (Suc 0, one_audio) \<and>
   audio_datas one_audio = [Suc 0] \<and>
   thread_pool_jobs one_audio = [Suc 0] \<and>
   audio_datas two_audio = [Suc (Suc 0), Suc 0] \<and>
   FetchOrCreateAudioData lib_A ''kick.flac'' two_audio = (Suc 0, two_audio) \<and>
   FetchOrCreateAudioData lib_A ''snare.flac'' two_audio = (Suc (Suc 0), two_audio) \<and>
   FetchOrCreateAudioData lib_A ''kick.flac'' (set_state (Suc 0) CompletedCancelled two_audio) =
     (Suc 0, two_audio\<lparr>thread_pool_jobs := [Suc 0, Suc (Suc 0), Suc 0]\<rparr>)"
proof -
  have e: "fst (FetchOrCreateAudioData lib_A ''kick.flac'' empty_server) = Suc 0"
    by (simp add: FetchOrCreateAudioData_def find_audio_data_def Let_def LoadAudioAsync_def
          fresh_def empty_server_def)
  have a: "FetchOrCreateAudioData lib_A ''kick.flac'' empty_server = (Suc 0, one_audio)"
    using e by (simp add: one_audio_def prod_eq_iff)
  have ln: "l_name lib_A = ''A''" by (simp add: lib_A_def)
  note k = FetchOrCreateAudioData_spec [where lb = lib_A and path = "''kick.flac''" and s = "two_audio" and d = "Suc 0", OF surjective_pairing]
  have k1: "fst (FetchOrCreateAudioData lib_A ''kick.flac'' two_audio) = Suc 0"
    using k by (simp add: two_audio_facts ln)
  have k2: "snd (FetchOrCreateAudioData lib_A ''kick.flac'' two_audio) = two_audio"
    using k k1 by (simp add: two_audio_facts ln)
  note n = FetchOrCreateAudioData_spec [where lb = lib_A and path = "''snare.flac''" and s = "two_audio" and d = "Suc (Suc 0)", OF surjective_pairing]
  have n1: "fst (FetchOrCreateAudioData lib_A ''snare.flac'' two_audio) = Suc (Suc 0)"
    using n by (simp add: two_audio_facts ln)
  have n2: "snd (FetchOrCreateAudioData lib_A ''snare.flac'' two_audio) = two_audio"
    using n n1 by (simp add: two_audio_facts ln)
  let ?c = "set_state (Suc 0) CompletedCancelled two_audio"
  have cf: "audio_datas ?c = [Suc (Suc 0), Suc 0]"
    "audio ?c (Suc 0) =
     \<lparr>a_library_name = ''A'', a_path = ''kick.flac'', a_audio_data = [],
      a_refs = 0, a_state = CompletedCancelled, a_error = None\<rparr>"
    "audio ?c (Suc (Suc 0)) = audio two_audio (Suc (Suc 0))"
    "thread_pool_jobs ?c = [Suc 0, Suc (Suc 0)]"
    by (simp_all add: set_state_def two_audio_facts)
  note c = FetchOrCreateAudioData_spec [where lb = lib_A and path = "''kick.flac''" and s = "?c" and d = "Suc 0", OF surjective_pairing]
  have c1: "fst (FetchOrCreateAudioData lib_A ''kick.flac'' ?c) = Suc 0"
    using c by (simp add: cf two_audio_facts ln)
  have c2: "snd (FetchOrCreateAudioData lib_A ''kick.flac'' ?c) =
              (set_state (Suc 0) PendingLoad ?c)\<lparr>thread_pool_jobs := thread_pool_jobs ?c @ [Suc 0]\<rparr>"
    using c c1 by (simp add: cf two_audio_facts ln)
  have bk: "set_state (Suc 0) PendingLoad ?c = two_audio"
    using two_audio_facts(2) by (simp add: set_state_def fun_upd_idem)
  have c3: "FetchOrCreateAudioData lib_A ''kick.flac'' ?c =
     (Suc 0, two_audio\<lparr>thread_pool_jobs := [Suc 0, Suc (Suc 0), Suc 0]\<rparr>)"
    using c1 c2 bk by (simp add: prod_eq_iff cf)
  show ?thesis
    using a k1 k2 n1 n2 c3 by (simp add: prod_eq_iff two_audio_facts one_audio_eq)
qed

lemma cancel_loop_spec:
  "\<forall>d\<in>set xs. a_refs (audio s d) \<noteq> 0 \<Longrightarrow>
   cancel_loop xs s =
     Inr (s\<lparr>audio := \<lambda>d. if d \<in> set xs \<and> a_refs (audio s d) = 1 \<and> a_state (audio s d) = PendingLoad
                          then (audio s d)\<lparr>a_state := PendingCancel\<rparr> else audio s d\<rparr>)"
proof (induction xs arbitrary: s)
  case Nil
  then show ?case by simp
next
  case (Cons x xs)
  let ?s1 = "set_state x (snd (snd (CompareExchange (a_state (audio s x)) PendingLoad PendingCancel))) s"
  have refs1: "\<And>d. a_refs (audio ?s1 d) = a_refs (audio s d)"
    by (simp add: set_state_def)
  have pre: "\<forall>d\<in>set xs. a_refs (audio ?s1 d) \<noteq> 0"
    using Cons.prems by (simp add: refs1)
  have nz: "a_refs (audio s x) \<noteq> 0" using Cons.prems by simp
  show ?case
  proof (cases "a_refs (audio s x) = 1")
    case True
    have "cancel_loop (x # xs) s = cancel_loop xs ?s1"
      using True by (simp add: CompareExchange_def)
    also have "\<dots> = Inr (?s1\<lparr>audio := \<lambda>d. if d \<in> set xs \<and> a_refs (audio ?s1 d) = 1 \<and> a_state (audio ?s1 d) = PendingLoad
                          then (audio ?s1 d)\<lparr>a_state := PendingCancel\<rparr> else audio ?s1 d\<rparr>)"
      by (rule Cons.IH [OF pre])
    also have "\<dots> = Inr (s\<lparr>audio := \<lambda>d. if d \<in> set (x # xs) \<and> a_refs (audio s d) = 1 \<and> a_state (audio s d) = PendingLoad
                          then (audio s d)\<lparr>a_state := PendingCancel\<rparr> else audio s d\<rparr>)"
      using True by (auto simp: set_state_def CompareExchange_def fun_eq_iff)
    finally show ?thesis .
  next
    case False
    have "cancel_loop (x # xs) s = cancel_loop xs s"
      using False nz by simp
    also have "\<dots> = Inr (s\<lparr>audio := \<lambda>d. if d \<in> set xs \<and> a_refs (audio s d) = 1 \<and> a_state (audio s d) = PendingLoad
                          then (audio s d)\<lparr>a_state := PendingCancel\<rparr> else audio s d\<rparr>)"
      using Cons.prems by (intro Cons.IH) simp
    also have "\<dots> = Inr (s\<lparr>audio := \<lambda>d. if d \<in> set (x # xs) \<and> a_refs (audio s d) = 1 \<and> a_state (audio s d) = PendingLoad
                          then (audio s d)\<lparr>a_state := PendingCancel\<rparr> else audio s d\<rparr>)"
      using False by (auto simp: fun_eq_iff)
    finally show ?thesis .
  qed
qed

text \<open>
  C5: \<open>CancelLoadingAudioForInstrumentIfPossible\<close> changes the entries of the instrument's
  \<open>audio_data_set\<close> that have reference count 1 and are in state \<open>PendingLoad\<close>, which become
  \<open>PendingCancel\<close>; every other entry, so every entry with a higher count and every entry
  that is not \<open>PendingLoad\<close>, is what it was, and nothing else of the state changes.
\<close>

theorem CancelLoadingAudio_spec:
  "\<forall>d\<in>set (audio_data_set (insts s i)). a_refs (audio s d) \<noteq> 0 \<Longrightarrow>
   CancelLoadingAudioForInstrumentIfPossible i s =
     Inr (s\<lparr>audio := \<lambda>d. if d \<in> set (audio_data_set (insts s i)) \<and> a_refs (audio s d) = 1
                             \<and> a_state (audio s d) = PendingLoad
                          then (audio s d)\<lparr>a_state := PendingCancel\<rparr> else audio s d\<rparr>)"
  unfolding CancelLoadingAudioForInstrumentIfPossible_def by (rule cancel_loop_spec)


theorem CancelLoadingAudio_spec_witness:
  "CancelLoadingAudioForInstrumentIfPossible 5 cancel_example =
     Inr (cancel_example\<lparr>audio := (audio cancel_example)
            (1 := (audio cancel_example 1)\<lparr>a_state := PendingCancel\<rparr>)\<rparr>)"
proof -
  have pre: "\<forall>d\<in>set (audio_data_set (insts cancel_example 5)). a_refs (audio cancel_example d) \<noteq> 0"
    by (simp add: cancel_example_def empty_server_def)
  have "(\<lambda>d. if d \<in> set (audio_data_set (insts cancel_example 5)) \<and> a_refs (audio cancel_example d) = 1
                \<and> a_state (audio cancel_example d) = PendingLoad
             then (audio cancel_example d)\<lparr>a_state := PendingCancel\<rparr> else audio cancel_example d)
        = (audio cancel_example)(1 := (audio cancel_example 1)\<lparr>a_state := PendingCancel\<rparr>)"
    by (auto simp: fun_eq_iff cancel_example_def empty_server_def)
  with CancelLoadingAudio_spec [OF pre] show ?thesis by simp
qed

lemma entry_inv_new: "entry_inv new_entry"
  by (simp add: entry_inv_def new_entry_def)

lemma step_inv:
  assumes "entry_inv c" and "step a c = Some c'"
  shows "entry_inv c' \<and> (st c' = st c \<or> in_diagram (st c) (st c'))"
proof (cases a)
  case Job_Exchange
  with assms show ?thesis
    by (cases "st c")
       (auto simp: step_def entry_inv_def job_begin_def split: if_splits)
next
  case (Job_Store outcome)
  with assms show ?thesis
    by (cases "st c"; cases outcome)
       (auto simp: step_def entry_inv_def job_result_def split: if_splits)
next
  case Cancel_Exchange
  with assms show ?thesis
    by (cases "st c")
       (auto simp: step_def entry_inv_def CompareExchange_def split: if_splits)
next
  case Reload_Exchange
  with assms show ?thesis
    by (cases "st c")
       (auto simp: step_def entry_inv_def CompareExchange_def split: if_splits)
next
  case Reload_Store
  with assms show ?thesis
    by (cases "st c")
       (auto simp: step_def entry_inv_def split: if_splits)
qed

lemma run_inv: "entry_inv c \<Longrightarrow> run as c = Some c' \<Longrightarrow> entry_inv c'"
proof (induction as arbitrary: c)
  case Nil
  then show ?case by simp
next
  case (Cons a as)
  then obtain c1 where s1: "step a c = Some c1" and r: "run as c1 = Some c'"
    by (auto split: option.splits)
  from step_inv [OF Cons.prems(1) s1] have "entry_inv c1" by simp
  then show ?case using r by (rule Cons.IH)
qed

text \<open>
  The uninterrupted functions of the audio data store are made of these steps: what
  \<open>TriggerReloadIfAudioIsCancelled\<close> does to the state of an entry is the step
  \<open>Reload_Exchange\<close>, followed by \<open>Reload_Store\<close> when the exchange found
  \<open>CompletedCancelled\<close>, and the new job is the one added to the thread pool.
\<close>

lemma TriggerReload_steps:
  assumes "st c = a_state (audio s d)" and "\<not> reloading c"
  shows "\<exists>c1. step Reload_Exchange c = Some c1 \<and>
           (let c2 = (if reloading c1 then the (step Reload_Store c1) else c1) in
            st c2 = a_state (audio (TriggerReloadIfAudioIsCancelled d s) d) \<and>
            waiting_jobs c2 - waiting_jobs c
              = length (thread_pool_jobs (TriggerReloadIfAudioIsCancelled d s))
                - length (thread_pool_jobs s))"
  using assms
  by (cases "a_state (audio s d)")
     (simp_all add: step_def CompareExchange_def TriggerReload_cases set_state_def Let_def)

text \<open>
  C2: from a new entry (\<open>PendingLoad\<close>, its decode job in the thread pool), whatever the
  order in which the decode jobs and the loading thread make their atomic accesses,
  every access either leaves the loading state as it is or moves it along one of the
  seven arrows of the diagram, and the panic of the job's loop is never reached.
\<close>

theorem loading_state_transitions:
  "run as new_entry = Some c \<Longrightarrow> step a c = Some c' \<Longrightarrow>
   (st c' = st c \<or> in_diagram (st c) (st c')) \<and> \<not> panicked c'"
proof -
  assume r: "run as new_entry = Some c" and s: "step a c = Some c'"
  have "entry_inv c" using entry_inv_new r by (rule run_inv)
  from step_inv [OF this s] show ?thesis by (simp add: entry_inv_def)
qed

theorem loading_state_transitions_witness:
  "run [Cancel_Exchange, Job_Exchange, Reload_Exchange, Reload_Store, Job_Exchange] new_entry
     = Some \<lparr>st = Loading, waiting_jobs = 0, decoding_jobs = 1, reloading = False, panicked = False\<rparr> \<and>
   step (Job_Store (Inr [])) \<lparr>st = Loading, waiting_jobs = 0, decoding_jobs = 1, reloading = False, panicked = False\<rparr>
     = Some \<lparr>st = CompletedSucessfully, waiting_jobs = 0, decoding_jobs = 0, reloading = False, panicked = False\<rparr> \<and>
   in_diagram Loading CompletedSucessfully"
  using loading_state_transitions
    [of "[Cancel_Exchange, Job_Exchange, Reload_Exchange, Reload_Store, Job_Exchange]"
        "\<lparr>st = Loading, waiting_jobs = 0, decoding_jobs = 1, reloading = False, panicked = False\<rparr>"
        "Job_Store (Inr [])"
        "\<lparr>st = CompletedSucessfully, waiting_jobs = 0, decoding_jobs = 0, reloading = False, panicked = False\<rparr>"]
  by (simp add: step_def new_entry_def CompareExchange_def job_begin_def job_result_def)

lemma Release_chans_update:
  "LoadResult_Release r (s\<lparr>chans := f\<rparr>) = (LoadResult_Release r s)\<lparr>chans := f\<rparr>"
  by (simp add: LoadResult_Release_def ChangeRefCount_def Instrument_ChangeRefCount_def
      split: LoadResult_Result.splits RefUnion.splits RefCountChange.splits)

lemma Release_chans: "chans (LoadResult_Release r s) = chans s"
  by (simp add: LoadResult_Release_def ChangeRefCount_def Instrument_ChangeRefCount_def
      split: LoadResult_Result.splits RefUnion.splits RefCountChange.splits)

lemma Retain_chans: "chans (LoadResult_Retain r s) = chans s"
  by (simp add: LoadResult_Retain_def ChangeRefCount_def Instrument_ChangeRefCount_def
      split: LoadResult_Result.splits RefUnion.splits RefCountChange.splits)

lemma close_loop_fold:
  "results (chans s c) = rs \<Longrightarrow>
   close_loop c s =
     fold LoadResult_Release rs (s\<lparr>chans := (chans s)(c := (chans s c)\<lparr>results := []\<rparr>)\<rparr>)"
proof (induction rs arbitrary: s)
  case Nil
  have "(chans s c)\<lparr>results := []\<rparr> = chans s c"
    using Nil by (cases "chans s c") simp
  then have "s\<lparr>chans := (chans s)(c := (chans s c)\<lparr>results := []\<rparr>)\<rparr> = s"
    by simp
  then show ?case using Nil by (subst close_loop.simps) simp
next
  case (Cons r rest)
  let ?s1 = "LoadResult_Release r (s\<lparr>chans := (chans s)(c := (chans s c)\<lparr>results := rest\<rparr>)\<rparr>)"
  have "close_loop c s = close_loop c ?s1"
    using Cons.prems by (subst close_loop.simps) simp
  also have "\<dots> = fold LoadResult_Release rest
                      (?s1\<lparr>chans := (chans ?s1)(c := (chans ?s1 c)\<lparr>results := []\<rparr>)\<rparr>)"
    by (rule Cons.IH) (simp add: Release_chans)
  also have "?s1\<lparr>chans := (chans ?s1)(c := (chans ?s1 c)\<lparr>results := []\<rparr>)\<rparr>
             = LoadResult_Release r (s\<lparr>chans := (chans s)(c := (chans s c)\<lparr>results := []\<rparr>)\<rparr>)"
    by (simp add: Release_chans Release_chans_update)
  finally show ?case by (simp only: fold.simps o_apply)
qed

lemma fold_Release_chans: "chans (fold LoadResult_Release rs s) = chans s"
  by (induction rs arbitrary: s) (simp_all add: Release_chans)

lemma Close_eq:
  "CloseAsyncCommsChannel c s =
     fold LoadResult_Release (results (chans s c))
       (s\<lparr>chans := (chans s)(c := (chans s c)\<lparr>used := False, results := []\<rparr>)\<rparr>)"
  unfolding CloseAsyncCommsChannel_def
  by (subst close_loop_fold [OF refl]) simp

lemma dispatch_unused_channel:
  "\<not> used (chans s c) \<Longrightarrow> chans (snd (dispatch_result p s)) c = chans s c"
  by (auto simp: dispatch_result_def Let_def Retain_chans split: option.splits)

lemma remove_if_dispatched_unused:
  "\<not> used (chans s c) \<Longrightarrow> chans (snd (remove_if_dispatched ps s)) c = chans s c"
proof (induction ps arbitrary: s)
  case Nil
  then show ?case by simp
next
  case (Cons p ps)
  obtain rm s1 where d: "dispatch_result p s = (rm, s1)" by (cases "dispatch_result p s")
  have c1: "chans s1 c = chans s c"
    using dispatch_unused_channel [OF Cons.prems, of p] d by simp
  then have "\<not> used (chans s1 c)" using Cons.prems by simp
  from Cons.IH [OF this] c1 d show ?case
    by (cases "remove_if_dispatched ps s1") simp
qed

lemma consume_request_chans: "chans (consume_request q s) = chans s"
  by (simp add: consume_request_def Let_def)

lemma consume_requests_unused:
  "\<not> used (chans s c) \<Longrightarrow> request_queue s = qs \<Longrightarrow>
   chans (consume_requests s) = chans s \<and>
   filter (\<lambda>p. async_comms_channel (p_request p) = c) (pending_results (consume_requests s))
     = filter (\<lambda>p. async_comms_channel (p_request p) = c) (pending_results s)"
proof (induction qs arbitrary: s)
  case Nil
  then show ?case by (simp add: consume_requests.simps)
next
  case (Cons q rest)
  let ?s1 = "consume_request q (s\<lparr>request_queue := rest\<rparr>)"
  have step: "consume_requests s = consume_requests ?s1"
    using Cons.prems by (subst consume_requests.simps) simp
  have ch: "chans ?s1 = chans s" by (simp add: consume_request_chans)
  have q1: "request_queue ?s1 = rest" by (simp add: consume_request_def Let_def)
  have u1: "\<not> used (chans ?s1 c)" using Cons.prems ch by simp
  have f1: "filter (\<lambda>p. async_comms_channel (p_request p) = c) (pending_results ?s1)
            = filter (\<lambda>p. async_comms_channel (p_request p) = c) (pending_results s)"
    using Cons.prems(1) by (auto simp: consume_request_def Let_def)
  from Cons.IH [OF u1 q1] step ch f1 show ?case by simp
qed

lemma dispatch_results_unused:
  "\<not> used (chans s c) \<Longrightarrow> chans (dispatch_results s) c = chans s c"
  using remove_if_dispatched_unused [of s c "pending_results s"]
  by (cases "remove_if_dispatched (pending_results s) s") (simp add: dispatch_results_def)

lemma server_run_unused:
  "\<not> used (chans s c) \<Longrightarrow> chans (server_run steps s) c = chans s c"
proof (induction steps arbitrary: s)
  case Nil
  then show ?case by simp
next
  case (Cons a steps)
  show ?case
  proof (cases a)
    case Consume_Requests
    have e: "chans (consume_requests s) = chans s"
      using consume_requests_unused [OF Cons.prems refl] by simp
    then have "\<not> used (chans (consume_requests s) c)" using Cons.prems by simp
    from Cons.IH [OF this] e Consume_Requests show ?thesis by simp
  next
    case Dispatch_Results
    have e: "chans (dispatch_results s) c = chans s c"
      using Cons.prems by (rule dispatch_results_unused)
    then have "\<not> used (chans (dispatch_results s) c)" using Cons.prems by simp
    from Cons.IH [OF this] e Dispatch_Results show ?thesis by simp
  qed
qed

text \<open>
  C9: a request popped while its channel is unused is dropped and leaves the state as it
  is, so the whole loop over the request queue adds no pending result for an unused
  channel; dispatching any pending result, and the whole removal loop, leave an unused
  channel as it is (nothing is pushed on its queue, its callback is not called) and
  retain nothing for it, and so does any succession of the two loops: once \<open>used\<close> is
  false the channel is never given anything; a terminal result of a used channel is
  retained, appended to the channel's queue and the callback is called once. \<open>CloseAsyncCommsChannel\<close> stores
  false in \<open>used\<close>, empties the queue and calls \<open>Release\<close> on every result that was in it.
\<close>

theorem unused_channel_gets_nothing:
  "(\<not> used (chans s (async_comms_channel q)) \<longrightarrow> consume_request q s = s) \<and>
   (\<not> used (chans s c) \<longrightarrow>
      chans (consume_requests s) = chans s \<and>
      filter (\<lambda>p. async_comms_channel (p_request p) = c) (pending_results (consume_requests s))
        = filter (\<lambda>p. async_comms_channel (p_request p) = c) (pending_results s)) \<and>
   (\<not> used (chans s c) \<longrightarrow>
      chans (snd (dispatch_result p s)) c = chans s c \<and>
      chans (dispatch_results s) c = chans s c \<and>
      chans (server_run steps s) c = chans s c) \<and>
   (\<not> used (chans s (async_comms_channel (p_request p))) \<longrightarrow>
      snd (dispatch_result p s) = s) \<and>
   (used (chans s (async_comms_channel (p_request p))) \<and> terminal_result (p_state p) = Some r \<longrightarrow>
      dispatch_result p s =
        (True, (LoadResult_Retain \<lparr>r_id = q_id (p_request p), r_result = r\<rparr> s)
           \<lparr>chans := (chans s)(async_comms_channel (p_request p) :=
              (chans s (async_comms_channel (p_request p)))
                \<lparr>results := results (chans s (async_comms_channel (p_request p)))
                            @ [\<lparr>r_id = q_id (p_request p), r_result = r\<rparr>],
                 callback_calls := Suc (callback_calls (chans s (async_comms_channel (p_request p))))\<rparr>)\<rparr>)) \<and>
   CloseAsyncCommsChannel c s =
     fold LoadResult_Release (results (chans s c))
       (s\<lparr>chans := (chans s)(c := (chans s c)\<lparr>used := False, results := []\<rparr>)\<rparr>) \<and>
   \<not> used (chans (CloseAsyncCommsChannel c s) c) \<and>
   results (chans (CloseAsyncCommsChannel c s) c) = []"
proof (intro conjI impI)
  assume "\<not> used (chans s (async_comms_channel q))"
  then show "consume_request q s = s" by (simp add: consume_request_def)
next
  assume u: "\<not> used (chans s c)"
  from consume_requests_unused [OF u refl]
  show "chans (consume_requests s) = chans s"
    and "filter (\<lambda>p. async_comms_channel (p_request p) = c) (pending_results (consume_requests s))
        = filter (\<lambda>p. async_comms_channel (p_request p) = c) (pending_results s)"
    by simp_all
  show "chans (snd (dispatch_result p s)) c = chans s c"
    using u by (rule dispatch_unused_channel)
  show "chans (dispatch_results s) c = chans s c"
    using u by (rule dispatch_results_unused)
  show "chans (server_run steps s) c = chans s c"
    using u by (rule server_run_unused)
next
  assume "\<not> used (chans s (async_comms_channel (p_request p)))"
  then show "snd (dispatch_result p s) = s"
    by (simp add: dispatch_result_def Let_def split: option.splits)
next
  assume a: "used (chans s (async_comms_channel (p_request p))) \<and> terminal_result (p_state p) = Some r"
  then show "dispatch_result p s =
        (True, (LoadResult_Retain \<lparr>r_id = q_id (p_request p), r_result = r\<rparr> s)
           \<lparr>chans := (chans s)(async_comms_channel (p_request p) :=
              (chans s (async_comms_channel (p_request p)))
                \<lparr>results := results (chans s (async_comms_channel (p_request p)))
                            @ [\<lparr>r_id = q_id (p_request p), r_result = r\<rparr>],
                 callback_calls := Suc (callback_calls (chans s (async_comms_channel (p_request p))))\<rparr>)\<rparr>)"
    by (simp add: dispatch_result_def Let_def Retain_chans)
next
  show "CloseAsyncCommsChannel c s =
     fold LoadResult_Release (results (chans s c))
       (s\<lparr>chans := (chans s)(c := (chans s c)\<lparr>used := False, results := []\<rparr>)\<rparr>)"
    by (rule Close_eq)
  show "\<not> used (chans (CloseAsyncCommsChannel c s) c)"
    by (simp add: Close_eq fold_Release_chans)
  show "results (chans (CloseAsyncCommsChannel c s) c) = []"
    by (simp add: Close_eq fold_Release_chans)
qed

text \<open>
  C10: the channel that \<open>OpenAsyncCommsChannel\<close> returns is a new one, its \<open>used\<close> flag is
  true, its queue is empty, and the loading percent of each of its \<open>k_num_layers\<close> layers
  is -1.
\<close>

theorem OpenAsyncCommsChannel_spec:
  "OpenAsyncCommsChannel k_num_layers en s = (c, s') \<Longrightarrow>
   used (chans s' c) \<and>
   length (instrument_loading_percents (chans s' c)) = k_num_layers \<and>
   (\<forall>p\<in>set (instrument_loading_percents (chans s' c)). p = - 1) \<and>
   (\<forall>layer<k_num_layers. instrument_loading_percents (chans s' c) ! layer = - 1) \<and>
   results (chans s' c) = [] \<and>
   c \<notin> set (channels s) \<and> channels s' = c # channels s \<and>
   (\<forall>other. other \<noteq> c \<longrightarrow> chans s' other = chans s other)"
  by (auto simp: OpenAsyncCommsChannel_def Let_def fresh_notin)

theorem OpenAsyncCommsChannel_spec_witness:
  "fst (OpenAsyncCommsChannel 3 0 empty_server) = 1 \<and>
   used (chans open_state 1) \<and>
   instrument_loading_percents (chans open_state 1) = [- 1, - 1, - 1]"
proof -
  have f: "fst (OpenAsyncCommsChannel 3 0 empty_server) = 1"
    by (simp add: OpenAsyncCommsChannel_def Let_def fresh_def empty_server_def)
  then have e: "OpenAsyncCommsChannel 3 0 empty_server = (1, open_state)"
    by (simp add: open_state_def prod_eq_iff)
  have p: "instrument_loading_percents (chans open_state 1) = [- 1, - 1, - 1]"
    by (simp add: open_state_def OpenAsyncCommsChannel_def Let_def fresh_def empty_server_def
          numeral_3_eq_3)
  from OpenAsyncCommsChannel_spec [OF e] f p show ?thesis by simp
qed

lemma open_state_chan:
  "chans open_state (Suc 0) =
     \<lparr>c_error_notifications = 0, callback_calls = 0, used = True, results = [],
      instrument_loading_percents = [- 1, - 1, - 1], desired_inst = [None, None, None]\<rparr>"
  by (simp add: open_state_def OpenAsyncCommsChannel_def Let_def fresh_def empty_server_def
        numeral_3_eq_3)

lemma sent_state_facts:
  "chans sent_state = chans open_state"
  "pending_results sent_state = []"
  "request_queue sent_state =
     [\<lparr>q_id = 0, q_request = Request_Ir ''Built-in'' ''Hall'', async_comms_channel = 1\<rparr>]"
  by (simp_all add: sent_state_def SendAsyncLoadRequest_def Let_def open_state_def
        OpenAsyncCommsChannel_def empty_server_def)

lemma closed_state_eq:
  "closed_state = sent_state\<lparr>chans := (chans sent_state)(1 := (chans sent_state 1)\<lparr>used := False, results := []\<rparr>)\<rparr>"
  by (simp add: closed_state_def Close_eq sent_state_facts open_state_chan)

theorem unused_channel_gets_nothing_witness:
  "\<not> used (chans closed_state 1) \<and>
   pending_results (consume_requests closed_state) = [] \<and>
   dispatch_result failed_pending closed_state = (True, closed_state) \<and>
   chans (server_run [Consume_Requests, Dispatch_Results, Consume_Requests] closed_state) 1
     = chans closed_state 1 \<and>
   used (chans sent_state 1) \<and>
   terminal_result (p_state failed_pending) = Some (Error CommonError_NotFound) \<and>
   results (chans (snd (dispatch_result failed_pending sent_state)) 1)
     = [\<lparr>r_id = 0, r_result = Error CommonError_NotFound\<rparr>] \<and>
   callback_calls (chans (snd (dispatch_result failed_pending sent_state)) 1) = 1"
proof -
  let ?q = "\<lparr>q_id = 0, q_request = Request_Ir ''Built-in'' ''Hall'', async_comms_channel = 1\<rparr>"
  have ch: "async_comms_channel (p_request failed_pending) = 1" "q_id (p_request failed_pending) = 0"
    and t: "terminal_result (p_state failed_pending) = Some (Error CommonError_NotFound)"
    by (simp_all add: failed_pending_def terminal_result_def)
  have u: "\<not> used (chans closed_state 1)"
    by (simp add: closed_state_eq)
  have us: "used (chans sent_state 1)"
    by (simp add: sent_state_facts open_state_chan)
  have q: "request_queue closed_state = [?q]" and pr: "pending_results closed_state = []"
    by (simp_all add: closed_state_eq sent_state_facts)
  have c1: "consume_request ?q (closed_state\<lparr>request_queue := []\<rparr>) = closed_state\<lparr>request_queue := []\<rparr>"
    using unused_channel_gets_nothing [of "closed_state\<lparr>request_queue := []\<rparr>" ?q 1 failed_pending "[]" undefined] u
    by simp
  have "consume_requests closed_state = consume_requests (closed_state\<lparr>request_queue := []\<rparr>)"
    using q c1 by (subst consume_requests.simps) simp
  also have "\<dots> = closed_state\<lparr>request_queue := []\<rparr>"
    by (subst consume_requests.simps) simp
  finally have a: "pending_results (consume_requests closed_state) = []"
    using pr by simp
  have "snd (dispatch_result failed_pending closed_state) = closed_state"
    using unused_channel_gets_nothing [of closed_state ?q 1 failed_pending "[]" undefined] u ch by simp
  moreover have "fst (dispatch_result failed_pending closed_state) = True"
    using t by (simp add: dispatch_result_def Let_def)
  ultimately have b: "dispatch_result failed_pending closed_state = (True, closed_state)"
    by (simp add: prod_eq_iff)
  have d: "results (chans (snd (dispatch_result failed_pending sent_state)) 1)
             = [\<lparr>r_id = 0, r_result = Error CommonError_NotFound\<rparr>]
           \<and> callback_calls (chans (snd (dispatch_result failed_pending sent_state)) 1) = 1"
    using unused_channel_gets_nothing
            [of sent_state ?q 1 failed_pending "[]" "Error CommonError_NotFound"] us ch t
    by (simp add: sent_state_facts open_state_chan)
  have e: "chans (server_run [Consume_Requests, Dispatch_Results, Consume_Requests] closed_state) 1
             = chans closed_state 1"
    using unused_channel_gets_nothing
            [of closed_state ?q 1 failed_pending
                "[Consume_Requests, Dispatch_Results, Consume_Requests]" undefined] u
    by blast
  from u a b us t d e show ?thesis by simp
qed

lemma remove_loop_eq:
  "remove_loop x nd l xs ae =
     (ae \<or> list_ex (\<lambda>it. file_hash (lib (nd it)) = file_hash l) xs,
      filter (\<lambda>it. \<not> (l_name (lib (nd it)) = l_name l \<or> path_Equal x (l_path (lib (nd it))) (l_path l))) xs,
      filter (\<lambda>it. l_name (lib (nd it)) = l_name l \<or> path_Equal x (l_path (lib (nd it))) (l_path l)) xs)"
  by (induction xs arbitrary: ae) auto

lemma paths_differ_filter: "paths_differ x nd xs \<Longrightarrow> paths_differ x nd (filter P xs)"
  by (induction xs) (auto simp: list_ex_iff)

lemma paths_differ_cong:
  "(\<And>n. n \<in> set xs \<Longrightarrow> nd' n = nd n) \<Longrightarrow> paths_differ x nd' xs = paths_differ x nd xs"
  by (induction xs) (auto simp: list_ex_iff)

lemma registry_inv_filter:
  assumes "registry_inv x s"
  shows "registry_inv x (s\<lparr>libraries := filter P (libraries s), dead_list := dl\<rparr>)"
  using assms by (simp add: registry_inv_def distinct_map_filter paths_differ_filter)

lemma registry_inv_cong:
  "libraries s' = libraries s \<Longrightarrow> nodes s' = nodes s \<Longrightarrow> registry_inv x s' = registry_inv x s"
  by (simp add: registry_inv_def)

lemma libraries_AddOrUpdateError [simp]:
  "libraries (AddOrUpdateError k i s) = libraries s" "nodes (AddOrUpdateError k i s) = nodes s"
  "dead_list (AddOrUpdateError k i s) = dead_list s"
  "libraries_by_name (AddOrUpdateError k i s) = libraries_by_name s"
  by (simp_all add: AddOrUpdateError_def)

lemma libraries_RemoveError [simp]:
  "libraries (RemoveError k i s) = libraries s" "nodes (RemoveError k i s) = nodes s"
  "dead_list (RemoveError k i s) = dead_list s"
  "libraries_by_name (RemoveError k i s) = libraries_by_name s"
  by (simp_all add: RemoveError_def)

lemma handle_library_value_inv:
  assumes sym: "\<And>a b. path_Equal x a b = path_Equal x b a" and inv: "registry_inv x s"
  shows "registry_inv x (handle_library_value x l error_id s) \<and>
         (\<forall>n\<in>set (libraries (handle_library_value x l error_id s)).
           lib (nodes (handle_library_value x l error_id s) n) = l \<or>
           (l_name (lib (nodes (handle_library_value x l error_id s) n)) \<noteq> l_name l \<and>
            \<not> path_Equal x (l_path (lib (nodes (handle_library_value x l error_id s) n))) (l_path l)))"
proof -
  define P where "P = (\<lambda>it. l_name (lib (nodes s it)) = l_name l \<or> path_Equal x (l_path (lib (nodes s it))) (l_path l))"
  define kept where "kept = filter (\<lambda>it. \<not> P it) (libraries s)"
  define dead where "dead = filter P (libraries s) @ dead_list s"
  define s1 where "s1 = s\<lparr>libraries := kept, dead_list := dead\<rparr>"
  define new where "new = fresh (kept @ dead)"
  define nd where "nd = (nodes s)(new := \<lparr>lib = l, instruments = [], reader_uses = 0\<rparr>)"
  define s2 where "s2 = s1\<lparr>nodes := nd, libraries := new # kept\<rparr>"
  have inv1: "registry_inv x s1"
    unfolding s1_def kept_def using inv by (rule registry_inv_filter)
  have new: "new \<notin> set kept" using fresh_notin [of "kept @ dead"] by (simp add: new_def)
  have same: "\<And>n. n \<in> set kept \<Longrightarrow> nd n = nodes s n"
    using new by (auto simp: nd_def)
  have ndnew: "nd new = \<lparr>lib = l, instruments = [], reader_uses = 0\<rparr>" by (simp add: nd_def)
  have keptP: "\<And>n. n \<in> set kept \<Longrightarrow> \<not> P n" by (simp add: kept_def)
  have names: "map (\<lambda>n. l_name (lib (nd n))) kept = map (\<lambda>n. l_name (lib (nodes s n))) kept"
    using same by (intro map_cong) simp_all
  have lname: "l_name l \<notin> set (map (\<lambda>n. l_name (lib (nodes s n))) kept)"
  proof
    assume "l_name l \<in> set (map (\<lambda>n. l_name (lib (nodes s n))) kept)"
    then obtain n where "n \<in> set kept" and "l_name (lib (nodes s n)) = l_name l" by auto
    then have "n \<in> set kept" and "P n" by (simp_all add: P_def)
    then show False using keptP by blast
  qed
  have inv2: "registry_inv x s2"
    unfolding registry_inv_def
  proof (intro conjI)
    show "distinct (libraries s2)" using inv1 new by (simp add: registry_inv_def s2_def s1_def)
    have "distinct (map (\<lambda>n. l_name (lib (nodes s n))) kept)"
      using inv1 by (simp add: registry_inv_def s1_def)
    then have "distinct (map (\<lambda>n. l_name (lib (nd n))) kept)" by (simp only: names)
    moreover have "l_name l \<notin> set (map (\<lambda>n. l_name (lib (nd n))) kept)"
      unfolding names by (rule lname)
    ultimately show "distinct (map (\<lambda>n. l_name (lib (nodes s2 n))) (libraries s2))"
      using ndnew by (simp add: s2_def)
    have "paths_differ x nd kept = paths_differ x (nodes s) kept"
      using same by (intro paths_differ_cong) simp
    moreover have "paths_differ x (nodes s) kept" using inv1 by (simp add: registry_inv_def s1_def)
    moreover have "\<not> list_ex (\<lambda>m. path_Equal x (l_path (lib (nd m))) (l_path (lib (nd new)))
                       \<or> path_Equal x (l_path (lib (nd new))) (l_path (lib (nd m)))) kept"
      using keptP same sym ndnew by (auto simp: list_ex_iff P_def)
    ultimately show "paths_differ x (nodes s2) (libraries s2)" by (simp add: s2_def)
  qed
  have eq: "handle_library_value x l error_id s =
          (if list_ex (\<lambda>it. file_hash (lib (nodes s it)) = file_hash l) (libraries s) then s1
           else RemoveError (server_error_notifications s2) error_id s2)"
    by (simp add: handle_library_value_def remove_loop_eq Let_def s1_def s2_def nd_def new_def
          kept_def dead_def P_def)
  show ?thesis
  proof (cases "list_ex (\<lambda>it. file_hash (lib (nodes s it)) = file_hash l) (libraries s)")
    case True
    have "\<forall>n\<in>set (libraries s1). l_name (lib (nodes s1 n)) \<noteq> l_name l \<and>
            \<not> path_Equal x (l_path (lib (nodes s1 n))) (l_path l)"
      using keptP by (auto simp: s1_def P_def)
    then show ?thesis using True inv1 eq by simp
  next
    case False
    have "registry_inv x (RemoveError (server_error_notifications s2) error_id s2) = registry_inv x s2"
      by (rule registry_inv_cong) simp_all
    moreover have "\<forall>n\<in>set (libraries s2). lib (nodes s2 n) = l \<or>
           (l_name (lib (nodes s2 n)) \<noteq> l_name l \<and> \<not> path_Equal x (l_path (lib (nodes s2 n))) (l_path l))"
      using keptP same ndnew by (auto simp: s2_def s1_def P_def)
    ultimately show ?thesis using False inv2 eq by simp
  qed
qed

lemma rebuild_loop_ok:
  "distinct (map (\<lambda>n. l_name (lib (nd n))) xs) \<Longrightarrow>
   (\<forall>n\<in>set xs. map_of tab (l_name (lib (nd n))) = None) \<Longrightarrow>
   \<exists>tab'. rebuild_loop nd xs tab = Inr tab' \<and>
      (\<forall>n\<in>set xs. map_of tab' (l_name (lib (nd n))) = Some n) \<and>
      (\<forall>k. k \<notin> set (map (\<lambda>n. l_name (lib (nd n))) xs) \<longrightarrow> map_of tab' k = map_of tab k)"
proof (induction xs arbitrary: tab)
  case Nil
  then show ?case by simp
next
  case (Cons n rest)
  let ?tab1 = "(l_name (lib (nd n)), n) # tab"
  have d: "distinct (map (\<lambda>n. l_name (lib (nd n))) rest)" using Cons.prems by simp
  have nn: "l_name (lib (nd n)) \<notin> set (map (\<lambda>n. l_name (lib (nd n))) rest)" using Cons.prems by simp
  have f: "\<forall>m\<in>set rest. map_of ?tab1 (l_name (lib (nd m))) = None"
  proof
    fix m assume m: "m \<in> set rest"
    then have "l_name (lib (nd m)) \<noteq> l_name (lib (nd n))"
      using nn by (metis image_eqI list.set_map)
    then show "map_of ?tab1 (l_name (lib (nd m))) = None" using Cons.prems m by simp
  qed
  from Cons.IH [OF d f] obtain tab' where
    r: "rebuild_loop nd rest ?tab1 = Inr tab'"
    and a: "\<forall>m\<in>set rest. map_of tab' (l_name (lib (nd m))) = Some m"
    and b: "\<forall>k. k \<notin> set (map (\<lambda>n. l_name (lib (nd n))) rest) \<longrightarrow> map_of tab' k = map_of ?tab1 k"
    by blast
  have "rebuild_loop nd (n # rest) tab = Inr tab'"
    using Cons.prems r by simp
  moreover have "map_of tab' (l_name (lib (nd n))) = Some n"
    using b nn by simp
  ultimately show ?case using a b by auto
qed

lemma rebuild_ok:
  assumes "registry_inv x s"
  shows "\<exists>s'. rebuild_libraries_by_name s = Inr s' \<and> registry_inv x s' \<and>
           libraries s' = libraries s \<and> nodes s' = nodes s \<and>
           (\<forall>n\<in>set (libraries s). map_of (libraries_by_name s') (l_name (lib (nodes s n))) = Some n)"
proof -
  have d: "distinct (map (\<lambda>n. l_name (lib (nodes s n))) (libraries s))"
    using assms by (simp add: registry_inv_def)
  from rebuild_loop_ok [OF d, of "[]"] obtain tab' where
    "rebuild_loop (nodes s) (libraries s) [] = Inr tab'"
    "\<forall>n\<in>set (libraries s). map_of tab' (l_name (lib (nodes s n))) = Some n"
    by auto
  then show ?thesis using assms by (simp add: rebuild_libraries_by_name_def registry_inv_def)
qed

lemma handle_job_inv:
  assumes sym: "\<And>a b. path_Equal x a b = path_Equal x b a" and inv: "registry_inv x s"
  shows "registry_inv x (snd (snd (handle_job x job s)))"
proof -
  have 0: "registry_inv x (s\<lparr>num_uncompleted_jobs := num_uncompleted_jobs s - 1\<rparr>)"
    using inv by (simp add: registry_inv_def)
  note hv = handle_library_value_inv [OF sym 0, THEN conjunct1]
  show ?thesis
    using inv 0 hv
    by (auto simp: handle_job_def Let_def registry_inv_def
        split: Job_Data.splits option.splits sum.splits prod.splits if_splits)
qed

lemma handle_jobs_inv:
  assumes sym: "\<And>a b. path_Equal x a b = path_Equal x b a"
  shows "registry_inv x s \<Longrightarrow> registry_inv x (snd (snd (handle_jobs x js s)))"
proof (induction js arbitrary: s)
  case Nil
  then show ?case by simp
next
  case (Cons j js)
  obtain fl j' s1 where h: "handle_job x j s = (fl, j', s1)" by (cases "handle_job x j s")
  have i1: "registry_inv x s1" using handle_job_inv [OF sym Cons.prems, of j] h by simp
  show ?case
  proof (cases fl)
    case Continue
    obtain fl2 js2 s2 where h2: "handle_jobs x js s1 = (fl2, js2, s2)" by (cases "handle_jobs x js s1")
    from Cons.IH [OF i1] h2 have "registry_inv x s2" by simp
    then show ?thesis using h h2 Continue by simp
  next
    case Return
    then show ?thesis using h i1 by simp
  qed
qed

lemma trigger_scans_registry:
  "libraries (trigger_scans ks s) = libraries s \<and> nodes (trigger_scans ks s) = nodes s"
  by (induction ks arbitrary: s) (simp_all add: AddAsyncJob_def)

lemma remove_not_in_folders_inv:
  "registry_inv x s \<Longrightarrow> registry_inv x (remove_libraries_not_in_folders x s)"
  unfolding remove_libraries_not_in_folders_def by (rule registry_inv_filter)

lemma UpdateLoadingThread_inv:
  assumes sym: "\<And>a b. path_Equal x a b = path_Equal x b a" and inv: "registry_inv x s"
  shows "\<exists>s'. UpdateLoadingThread x s = Inr s' \<and> registry_inv x s'"
proof -
  define s1 where "s1 = trigger_scans [0..<length (scan_folders s)] s"
  have i1: "registry_inv x s1"
    using inv trigger_scans_registry [of "[0..<length (scan_folders s)]" s]
    by (simp add: registry_inv_def s1_def)
  obtain fl js s2 where h: "handle_jobs x (jobs s1) s1 = (fl, js, s2)"
    by (cases "handle_jobs x (jobs s1) s1")
  have i2: "registry_inv x s2" using handle_jobs_inv [OF sym i1, of "jobs s1"] h by simp
  then have i3: "registry_inv x (s2\<lparr>jobs := js\<rparr>)" by (simp add: registry_inv_def)
  show ?thesis
  proof (cases fl)
    case Return
    then show ?thesis using h i3 by (simp add: UpdateLoadingThread_def s1_def [symmetric])
  next
    case Continue
    from rebuild_ok [OF remove_not_in_folders_inv [OF i3]] obtain s' where
      "rebuild_libraries_by_name (remove_libraries_not_in_folders x (s2\<lparr>jobs := js\<rparr>)) = Inr s'"
      "registry_inv x s'" by blast
    then show ?thesis using h Continue by (simp add: UpdateLoadingThread_def s1_def [symmetric])
  qed
qed

lemma start_inv: "libraries s = [] \<Longrightarrow> registry_inv x (LoadingThreadLoop_start builtin s)"
  by (simp add: LoadingThreadLoop_start_def Let_def registry_inv_def)

text \<open>
  C8: the registry keeps its invariant (one library per name, one per path). Handling a
  successfully read library removes every library with its name or its path, so the
  libraries left in the registry are the new one (which is inserted unless a library
  with its hash was registered) and libraries that differ from it in name and in path;
  removing the libraries outside the scan folders, handling any completed job, and the
  whole of \<open>UpdateLoadingThread\<close> keep the invariant; under it the rebuilding of
  \<open>libraries_by_name\<close> inserts every library without meeting its name in the table, so
  its assertion holds and \<open>UpdateLoadingThread\<close> returns. The registry as
  \<open>LoadingThreadLoop\<close> sets it up has the invariant. \<open>path::Equal\<close> is taken to be
  symmetric.
\<close>

theorem registry_one_library_per_name:
  assumes "\<And>a b. path_Equal x a b = path_Equal x b a" and "registry_inv x s"
  shows "registry_inv x (handle_library_value x l error_id s) \<and>
         (\<forall>n\<in>set (libraries (handle_library_value x l error_id s)).
           lib (nodes (handle_library_value x l error_id s) n) = l \<or>
           (l_name (lib (nodes (handle_library_value x l error_id s) n)) \<noteq> l_name l \<and>
            \<not> path_Equal x (l_path (lib (nodes (handle_library_value x l error_id s) n))) (l_path l))) \<and>
         registry_inv x (snd (snd (handle_job x job s))) \<and>
         registry_inv x (remove_libraries_not_in_folders x s) \<and>
         (\<exists>s'. rebuild_libraries_by_name s = Inr s' \<and>
               (\<forall>n\<in>set (libraries s). map_of (libraries_by_name s') (l_name (lib (nodes s n))) = Some n)) \<and>
         (\<exists>s'. UpdateLoadingThread x s = Inr s' \<and> registry_inv x s') \<and>
         (libraries s0 = [] \<longrightarrow> registry_inv x (LoadingThreadLoop_start builtin s0))"
proof -
  from rebuild_ok [OF assms(2)] have
    "\<exists>s'. rebuild_libraries_by_name s = Inr s' \<and>
          (\<forall>n\<in>set (libraries s). map_of (libraries_by_name s') (l_name (lib (nodes s n))) = Some n)"
    by blast
  then show ?thesis
    using handle_library_value_inv [OF assms, of l error_id] handle_job_inv [OF assms, of job]
      remove_not_in_folders_inv [OF assms(2)] UpdateLoadingThread_inv [OF assms] start_inv [of s0 x builtin]
    by blast
qed

lemma hash_candidate_parser:
  "hash_candidate (x\<lparr>sample_lib_Read := parse\<rparr>) args = hash_candidate x args"
  by (simp add: hash_candidate_def cong: sum.case_cong PathOrMemory.case_cong)

text \<open>
  C7: when the read job gets the content hash \<open>h\<close> of its candidate file and a registered
  library has that hash, the job's result is empty whatever the parser would return
  (the parser is not asked), and handling the completed job in any state leaves the
  registry (the live list, the dead list, the nodes, \<open>libraries_by_name\<close>) as it is: the
  job is marked handled, the count of uncompleted jobs goes down by one, and
  \<open>UpdateLoadingThread\<close> returns.
\<close>

theorem read_job_with_registered_hash:
  assumes "snd (hash_candidate x args) = Inr (reader, h)"
    and "list_ex (\<lambda>node. file_hash (lib (nodes s node)) = h) (libraries s)"
    and "job' = run_job x \<lparr>job_data = ReadLibrary args None, completed = False, handled = False\<rparr> s"
  shows "snd (read_library_job x args s) = None \<and>
         read_library_job (x\<lparr>sample_lib_Read := parse\<rparr>) args s = read_library_job x args s \<and>
         handle_job x job' s' =
           (Return, job'\<lparr>handled := True\<rparr>, s'\<lparr>num_uncompleted_jobs := num_uncompleted_jobs s' - 1\<rparr>) \<and>
         libraries (snd (snd (handle_job x job' s'))) = libraries s' \<and>
         dead_list (snd (snd (handle_job x job' s'))) = dead_list s' \<and>
         nodes (snd (snd (handle_job x job' s'))) = nodes s' \<and>
         libraries_by_name (snd (snd (handle_job x job' s'))) = libraries_by_name s'"
proof -
  obtain args' where hc: "hash_candidate x args = (args', Inr (reader, h))"
    using assms(1) by (cases "hash_candidate x args") simp
  have r: "read_library_job x args s = (args', None)"
    using hc assms(2) by (simp add: read_library_job_def)
  have r': "read_library_job (x\<lparr>sample_lib_Read := parse\<rparr>) args s = (args', None)"
    using hc assms(2) by (simp add: read_library_job_def hash_candidate_parser)
  have j: "job' = \<lparr>job_data = ReadLibrary args' None, completed = True, handled = False\<rparr>"
    using r assms(3) by (simp add: run_job_def)
  have h: "handle_job x job' s' =
           (Return, job'\<lparr>handled := True\<rparr>, s'\<lparr>num_uncompleted_jobs := num_uncompleted_jobs s' - 1\<rparr>)"
    by (simp add: j handle_job_def Let_def)
  show ?thesis using r r' h by simp
qed

lemma started_eq:
  "started = empty_server\<lparr>nodes := (nodes empty_server)(Suc 0 := \<lparr>lib = lib_builtin, instruments = [], reader_uses = 0\<rparr>),
                libraries := [Suc 0], libraries_by_name := [(''Built-in'', Suc 0)]\<rparr>"
  by (simp add: started_def LoadingThreadLoop_start_def Let_def empty_server_def fresh_def lib_builtin_def)

lemma with_A_facts:
  "libraries with_A = [Suc (Suc 0), Suc 0]"
  "nodes with_A (Suc (Suc 0)) = \<lparr>lib = lib_A, instruments = [], reader_uses = 0\<rparr>"
  "nodes with_A (Suc 0) = \<lparr>lib = lib_builtin, instruments = [], reader_uses = 0\<rparr>"
  "dead_list with_A = []"
  by (simp_all add: with_A_def handle_library_value_def Let_def started_eq empty_server_def fresh_def
        lib_builtin_def lib_A_def ext0_def RemoveError_def)

theorem registry_one_library_per_name_witness:
  "registry_inv ext0 started \<and>
   registry_inv ext0 with_A \<and>
   map (\<lambda>n. l_name (lib (nodes with_A n))) (libraries with_A) = [''A'', ''Built-in''] \<and>
   registry_inv ext0 (handle_library_value ext0 (lib_A\<lparr>file_hash := 8\<rparr>) 0 with_A) \<and>
   map (\<lambda>n. l_name (lib (nodes (handle_library_value ext0 (lib_A\<lparr>file_hash := 8\<rparr>) 0 with_A) n)))
     (libraries (handle_library_value ext0 (lib_A\<lparr>file_hash := 8\<rparr>) 0 with_A)) = [''A'', ''Built-in'']"
proof -
  have sym: "\<And>a b. path_Equal ext0 a b = path_Equal ext0 b a" by (auto simp: ext0_def)
  have e: "libraries empty_server = []" by (simp add: empty_server_def)
  have i0: "registry_inv ext0 started"
    using registry_one_library_per_name [OF sym, of started lib_A 0 undefined empty_server lib_builtin] e
    unfolding started_def [symmetric]
    by (simp add: registry_inv_def started_eq lib_builtin_def ext0_def)
  have i1: "registry_inv ext0 with_A"
    using registry_one_library_per_name [OF sym i0, of lib_A 0] by (simp add: with_A_def)
  have i2: "registry_inv ext0 (handle_library_value ext0 (lib_A\<lparr>file_hash := 8\<rparr>) 0 with_A)"
    using registry_one_library_per_name [OF sym i1, of "lib_A\<lparr>file_hash := 8\<rparr>" 0] by simp
  have n1: "map (\<lambda>n. l_name (lib (nodes with_A n))) (libraries with_A) = [''A'', ''Built-in'']"
    by (simp add: with_A_facts lib_A_def lib_builtin_def)
  have n2: "map (\<lambda>n. l_name (lib (nodes (handle_library_value ext0 (lib_A\<lparr>file_hash := 8\<rparr>) 0 with_A) n)))
     (libraries (handle_library_value ext0 (lib_A\<lparr>file_hash := 8\<rparr>) 0 with_A)) = [''A'', ''Built-in'']"
    by (simp add: handle_library_value_def Let_def with_A_facts fresh_def
        lib_builtin_def lib_A_def ext0_def RemoveError_def)
  from i0 i1 i2 n1 n2 show ?thesis by simp
qed

theorem read_job_with_registered_hash_witness:
  "snd (hash_candidate ext0 \<lparr>path_or_memory = Path ''/libs/a.mdata'', format = Mdata\<rparr>) = Inr ([3, 4], 7) \<and>
   list_ex (\<lambda>node. file_hash (lib (nodes with_A node)) = 7) (libraries with_A) \<and>
   run_job ext0 \<lparr>job_data = ReadLibrary \<lparr>path_or_memory = Path ''/libs/a.mdata'', format = Mdata\<rparr> None,
                  completed = False, handled = False\<rparr> with_A
     = \<lparr>job_data = ReadLibrary \<lparr>path_or_memory = Path ''/libs/a.mdata'', format = Mdata\<rparr> None,
         completed = True, handled = False\<rparr> \<and>
   libraries (snd (snd (handle_job ext0
       \<lparr>job_data = ReadLibrary \<lparr>path_or_memory = Path ''/libs/a.mdata'', format = Mdata\<rparr> None,
         completed = True, handled = False\<rparr> with_A))) = [2, 1]"
proof -
  let ?args = "\<lparr>path_or_memory = Path ''/libs/a.mdata'', format = Mdata\<rparr>"
  let ?job = "\<lparr>job_data = ReadLibrary ?args None, completed = False, handled = False\<rparr>"
  have h: "snd (hash_candidate ext0 ?args) = Inr ([3, 4], 7)"
    by (simp add: hash_candidate_def ext0_def)
  have l: "list_ex (\<lambda>node. file_hash (lib (nodes with_A node)) = 7) (libraries with_A)"
    by (simp add: with_A_facts lib_A_def)
  have ha: "fst (hash_candidate ext0 ?args) = ?args"
    by (simp add: hash_candidate_def ext0_def)
  have r: "run_job ext0 ?job with_A = \<lparr>job_data = ReadLibrary ?args None, completed = True, handled = False\<rparr>"
    using l by (simp add: run_job_def read_library_job_def hash_candidate_def ext0_def)
  have "libraries (snd (snd (handle_job ext0 (run_job ext0 ?job with_A) with_A))) = libraries with_A"
    using read_job_with_registered_hash [OF h l refl, of undefined with_A] by simp
  then show ?thesis using h l r by (simp add: with_A_facts)
qed






















lemma find_audio_data_TriggerReload:
  "find_audio_data lb q (TriggerReloadIfAudioIsCancelled d s) = find_audio_data lb q s"
  by (simp add: find_audio_data_def TriggerReload_fields)

lemma find_audio_data_Some:
  "find_audio_data lb q s = Some e \<Longrightarrow>
   e \<in> set (audio_datas s) \<and> a_library_name (audio s e) = l_name lb \<and> a_path (audio s e) = q"
  by (auto simp: find_audio_data_def find_Some_iff)

lemma find_audio_data_None:
  "find_audio_data lb q s = None \<Longrightarrow> e \<in> set (audio_datas s) \<Longrightarrow>
   \<not> (l_name lb = a_library_name (audio s e) \<and> a_path (audio s e) = q)"
  by (auto simp: find_audio_data_def find_None_iff)

lemma FetchOrCreateAudioData_facts:
  assumes "FetchOrCreateAudioData lb p s = (d, s')"
  shows "find_audio_data lb p s' = Some d"
    and "\<And>q e. find_audio_data lb q s = Some e \<Longrightarrow> find_audio_data lb q s' = Some e"
    and "\<And>e. e \<noteq> d \<Longrightarrow> audio s' e = audio s e"
    and "d \<in> set (audio_datas s) \<Longrightarrow> a_refs (audio s' d) = a_refs (audio s d)"
    and "d \<notin> set (audio_datas s) \<Longrightarrow> a_refs (audio s' d) = 0"
    and "set (audio_datas s') = insert d (set (audio_datas s))"
    and "insts s' = insts s" and "nodes s' = nodes s" and "libraries s' = libraries s"
    and "dead_list s' = dead_list s" and "chans s' = chans s"
proof -
  show "find_audio_data lb p s' = Some d"
  proof (cases "find_audio_data lb p s")
    case None
    then show ?thesis using assms
      by (auto simp: FetchOrCreateAudioData_def Let_def LoadAudioAsync_def find_audio_data_def)
  next
    case (Some e)
    then show ?thesis using assms
      by (auto simp: FetchOrCreateAudioData_def find_audio_data_TriggerReload)
  qed
  show "find_audio_data lb q s' = Some e" if q: "find_audio_data lb q s = Some e" for q e
  proof (cases "find_audio_data lb p s")
    case None
    let ?new = "fresh (audio_datas s)"
    have e: "e \<in> set (audio_datas s)" "l_name lb = a_library_name (audio s e)" "a_path (audio s e) = q"
      using find_audio_data_Some [OF q] by simp_all
    have qp: "q \<noteq> p" using find_audio_data_None [OF None e(1)] e by auto
    have s': "s' = s\<lparr>audio_datas := ?new # audio_datas s,
                     audio := (audio s)(?new := \<lparr>a_library_name = l_name lb, a_path = p, a_audio_data = [],
                        a_refs = 0, a_state = PendingLoad, a_error = None\<rparr>),
                     thread_pool_jobs := thread_pool_jobs s @ [?new]\<rparr>"
      using assms None by (auto simp: FetchOrCreateAudioData_def Let_def LoadAudioAsync_def)
    have "find (\<lambda>d. l_name lb = a_library_name (audio s' d) \<and> a_path (audio s' d) = q) (audio_datas s)
          = find (\<lambda>d. l_name lb = a_library_name (audio s d) \<and> a_path (audio s d) = q) (audio_datas s)"
      using fresh_notin [of "audio_datas s"] by (intro find_cong) (auto simp: s')
    then show ?thesis using q qp by (simp add: find_audio_data_def s')
  next
    case (Some e')
    then show ?thesis using assms q
      by (auto simp: FetchOrCreateAudioData_def find_audio_data_TriggerReload)
  qed
  show "audio s' e = audio s e" if "e \<noteq> d" for e
    using assms that
    by (auto simp: FetchOrCreateAudioData_def Let_def LoadAudioAsync_def TriggerReload_fields
        split: option.splits)
  show "a_refs (audio s' d) = a_refs (audio s d)" if "d \<in> set (audio_datas s)"
    using assms that fresh_notin [of "audio_datas s"]
    by (auto simp: FetchOrCreateAudioData_def Let_def LoadAudioAsync_def TriggerReload_fields
        split: option.splits)
  show "a_refs (audio s' d) = 0" if "d \<notin> set (audio_datas s)"
    using assms that
    by (auto simp: FetchOrCreateAudioData_def Let_def LoadAudioAsync_def
        split: option.splits dest: find_audio_data_Some)
  show "set (audio_datas s') = insert d (set (audio_datas s))"
    using assms
    by (auto simp: FetchOrCreateAudioData_def Let_def LoadAudioAsync_def TriggerReload_fields
        split: option.splits dest: find_audio_data_Some)
  show "insts s' = insts s" "nodes s' = nodes s" "libraries s' = libraries s"
    "dead_list s' = dead_list s" "chans s' = chans s"
    using assms
    by (auto simp: FetchOrCreateAudioData_def Let_def LoadAudioAsync_def TriggerReload_fields
        split: option.splits)
qed

lemma AppendIfNotAlreadyThere_facts:
  "distinct xs \<Longrightarrow> distinct (AppendIfNotAlreadyThere xs x)"
  "set (AppendIfNotAlreadyThere xs x) = insert x (set xs)"
  by (auto simp: AppendIfNotAlreadyThere_def)

lemma regions_loop_inv:
  assumes "regions_loop lb inst rs (arr, aset, wv, s) = (arr', aset', wv', s')"
    and "list_all2 (\<lambda>r a. find_audio_data lb (file_path r) s = Some a) dn arr"
    and "distinct aset" and "set aset = set arr"
  shows "list_all2 (\<lambda>r a. find_audio_data lb (file_path r) s' = Some a) (dn @ rs) arr' \<and>
         distinct aset' \<and> set aset' = set arr' \<and> set arr \<subseteq> set arr' \<and>
         (\<forall>e. e \<notin> set arr' \<longrightarrow> audio s' e = audio s e) \<and>
         (\<forall>e\<in>set (audio_datas s). a_refs (audio s' e) = a_refs (audio s e)) \<and>
         (\<forall>e\<in>set (audio_datas s'). e \<notin> set (audio_datas s) \<longrightarrow> a_refs (audio s' e) = 0) \<and>
         set (audio_datas s) \<subseteq> set (audio_datas s') \<and>
         insts s' = insts s \<and> nodes s' = nodes s \<and> libraries s' = libraries s \<and>
         dead_list s' = dead_list s \<and> chans s' = chans s"
  using assms
proof (induction rs arbitrary: arr aset wv s dn)
  case Nil
  then show ?case by simp
next
  case (Cons r rs)
  obtain d s1 where foc: "FetchOrCreateAudioData lb (file_path r) s = (d, s1)"
    by (cases "FetchOrCreateAudioData lb (file_path r) s")
  note F = FetchOrCreateAudioData_facts [OF foc]
  let ?wv1 = "if audio_file_path_for_waveform inst = file_path r then Some d else wv"
  have loop: "regions_loop lb inst rs (arr @ [d], AppendIfNotAlreadyThere aset d, ?wv1, s1)
              = (arr', aset', wv', s')"
    using Cons.prems(1) foc by simp
  have a1: "list_all2 (\<lambda>r a. find_audio_data lb (file_path r) s1 = Some a) (dn @ [r]) (arr @ [d])"
  proof (rule list_all2_appendI)
    show "list_all2 (\<lambda>r a. find_audio_data lb (file_path r) s1 = Some a) dn arr"
      using Cons.prems(2) F(2) by (rule list_all2_mono)
    show "list_all2 (\<lambda>r a. find_audio_data lb (file_path r) s1 = Some a) [r] [d]"
      using F(1) by simp
  qed
  have a2: "distinct (AppendIfNotAlreadyThere aset d)"
    using Cons.prems(3) by (rule AppendIfNotAlreadyThere_facts)
  have a3: "set (AppendIfNotAlreadyThere aset d) = set (arr @ [d])"
    using Cons.prems(4) by (simp add: AppendIfNotAlreadyThere_facts)
  note IH = Cons.IH [OF loop a1 a2 a3]
  from IH have i1: "list_all2 (\<lambda>r a. find_audio_data lb (file_path r) s' = Some a) (dn @ r # rs) arr'"
    and i2: "distinct aset'" and i3: "set aset' = set arr'" and i4: "set (arr @ [d]) \<subseteq> set arr'"
    and i5: "\<And>e. e \<notin> set arr' \<Longrightarrow> audio s' e = audio s1 e"
    and i6: "\<And>e. e \<in> set (audio_datas s1) \<Longrightarrow> a_refs (audio s' e) = a_refs (audio s1 e)"
    and i7: "\<And>e. e \<in> set (audio_datas s') \<Longrightarrow> e \<notin> set (audio_datas s1) \<Longrightarrow> a_refs (audio s' e) = 0"
    and i8: "set (audio_datas s1) \<subseteq> set (audio_datas s')"
    and i9: "insts s' = insts s1" "nodes s' = nodes s1" "libraries s' = libraries s1"
            "dead_list s' = dead_list s1" "chans s' = chans s1"
    by simp_all
  have d_in: "d \<in> set arr'" using i4 by simp
  have c5: "\<forall>e. e \<notin> set arr' \<longrightarrow> audio s' e = audio s e"
  proof (intro allI impI)
    fix e assume e: "e \<notin> set arr'"
    then have "e \<noteq> d" using d_in by blast
    then show "audio s' e = audio s e" using i5 [OF e] F(3) by simp
  qed
  have old: "a_refs (audio s1 e) = a_refs (audio s e)" if "e \<in> set (audio_datas s)" for e
    using that F(3) [of e] F(4) by (cases "e = d") simp_all
  have c6: "\<forall>e\<in>set (audio_datas s). a_refs (audio s' e) = a_refs (audio s e)"
  proof
    fix e assume e: "e \<in> set (audio_datas s)"
    then have "e \<in> set (audio_datas s1)" using F(6) by simp
    then show "a_refs (audio s' e) = a_refs (audio s e)" using i6 old [OF e] by simp
  qed
  have c7: "\<forall>e\<in>set (audio_datas s'). e \<notin> set (audio_datas s) \<longrightarrow> a_refs (audio s' e) = 0"
  proof (intro ballI impI)
    fix e assume e: "e \<in> set (audio_datas s')" and n: "e \<notin> set (audio_datas s)"
    show "a_refs (audio s' e) = 0"
    proof (cases "e \<in> set (audio_datas s1)")
      case True
      then have "e = d" using F(6) n by simp
      then show ?thesis using i6 [OF True] F(5) n by simp
    next
      case False
      then show ?thesis using i7 [OF e] by simp
    qed
  qed
  have c8: "set (audio_datas s) \<subseteq> set (audio_datas s')" using F(6) i8 by auto
  have c4: "set arr \<subseteq> set arr'" using i4 by simp
  show ?case using i1 i2 i3 c4 c5 c6 c7 c8 i9 F(7-11) by simp
qed

lemma fold_refs_FetchAdd:
  "distinct xs \<Longrightarrow>
   fold refs_FetchAdd xs s =
     s\<lparr>audio := \<lambda>d. if d \<in> set xs then (audio s d)\<lparr>a_refs := a_refs (audio s d) + 1\<rparr> else audio s d\<rparr>"
proof (induction xs arbitrary: s)
  case Nil
  then show ?case by simp
next
  case (Cons x xs)
  then have "fold refs_FetchAdd (x # xs) s = fold refs_FetchAdd xs (refs_FetchAdd x s)" by simp
  also have "\<dots> = (refs_FetchAdd x s)\<lparr>audio := \<lambda>d. if d \<in> set xs
        then (audio (refs_FetchAdd x s) d)\<lparr>a_refs := a_refs (audio (refs_FetchAdd x s) d) + 1\<rparr>
        else audio (refs_FetchAdd x s) d\<rparr>"
    using Cons.prems by (intro Cons.IH) simp
  also have "\<dots> = s\<lparr>audio := \<lambda>d. if d \<in> set (x # xs)
        then (audio s d)\<lparr>a_refs := a_refs (audio s d) + 1\<rparr> else audio s d\<rparr>"
    using Cons.prems by (auto simp: refs_FetchAdd_def fun_eq_iff)
  finally show ?case .
qed

lemma card_lookup:
  assumes "list_all2 (\<lambda>r a. g (f r) = Some a \<and> h a = f r) rs arr"
  shows "card (set arr) = card (f ` set rs)"
proof -
  have m1: "map h arr = map f rs" using assms
    by (induction rule: list_all2_induct) simp_all
  have m2: "arr = map (\<lambda>r. the (g (f r))) rs" using assms
    by (induction rule: list_all2_induct) simp_all
  have "set arr = (\<lambda>p. the (g p)) ` (f ` set rs)"
    by (subst m2) (simp add: image_image)
  then have le1: "card (set arr) \<le> card (f ` set rs)"
    by (simp add: card_image_le)
  have "f ` set rs = h ` set arr"
    using m1 by (metis list.set_map)
  then have le2: "card (f ` set rs) \<le> card (set arr)"
    by (simp add: card_image_le)
  from le1 le2 show ?thesis by simp
qed

lemma FetchOrCreateInstrument_new:
  assumes "find (\<lambda>i. i_name (li_instrument (insts s i)) = i_name inst)
             (instruments (nodes s lib_node)) = None"
    and "regions inst \<noteq> []"
  shows "\<exists>new_inst s'. FetchOrCreateInstrument lib_node inst s = Inr (new_inst, s') \<and>
      new_inst \<notin> set (all_instruments s) \<and>
      instruments (nodes s' lib_node) = new_inst # instruments (nodes s lib_node) \<and>
      reader_uses (nodes s' lib_node) = reader_uses (nodes s lib_node) + 1 \<and>
      li_instrument (insts s' new_inst) = inst \<and> li_refs (insts s' new_inst) = 0 \<and>
      length (li_audio_datas (insts s' new_inst)) = length (regions inst) \<and>
      map (\<lambda>a. a_path (audio s' a)) (li_audio_datas (insts s' new_inst)) = map file_path (regions inst) \<and>
      (\<forall>a\<in>set (li_audio_datas (insts s' new_inst)).
          a \<in> set (audio_datas s') \<and> a_library_name (audio s' a) = l_name (lib (nodes s lib_node))) \<and>
      distinct (audio_data_set (insts s' new_inst)) \<and>
      set (audio_data_set (insts s' new_inst)) = set (li_audio_datas (insts s' new_inst)) \<and>
      length (audio_data_set (insts s' new_inst)) = card (file_path ` set (regions inst)) \<and>
      (\<forall>d\<in>set (audio_data_set (insts s' new_inst)).
          a_refs (audio s' d) = (if d \<in> set (audio_datas s) then a_refs (audio s d) else 0) + 1) \<and>
      (\<forall>d. d \<notin> set (audio_data_set (insts s' new_inst)) \<longrightarrow> audio s' d = audio s d)"
proof -
  define new_inst where "new_inst = fresh (all_instruments s)"
  define s1 where "s1 = s\<lparr>insts := (insts s)(new_inst :=
                        \<lparr>li_instrument = inst, li_audio_datas = [], file_for_gui_waveform = None,
                         li_refs = 0, library_refs = lib_node, audio_data_set = []\<rparr>),
                     nodes := (nodes s)(lib_node := (nodes s lib_node)
                        \<lparr>instruments := new_inst # instruments (nodes s lib_node),
                         reader_uses := reader_uses (nodes s lib_node) + 1\<rparr>)\<rparr>"
  define lb where "lb = lib (nodes s lib_node)"
  have lb1: "lib (nodes s1 lib_node) = lb" by (simp add: s1_def lb_def)
  obtain arr aset wv s2 where loop: "regions_loop lb inst (regions inst) ([], [], None, s1) = (arr, aset, wv, s2)"
    by (cases "regions_loop lb inst (regions inst) ([], [], None, s1)") auto
  have "list_all2 (\<lambda>r a. find_audio_data lb (file_path r) s1 = Some a) [] []" by simp
  from regions_loop_inv [OF loop this] have
    L1: "list_all2 (\<lambda>r a. find_audio_data lb (file_path r) s2 = Some a) (regions inst) arr"
    and L2: "distinct aset" and L3: "set aset = set arr"
    and L5: "\<And>e. e \<notin> set arr \<Longrightarrow> audio s2 e = audio s1 e"
    and L6: "\<And>e. e \<in> set (audio_datas s1) \<Longrightarrow> a_refs (audio s2 e) = a_refs (audio s1 e)"
    and L7: "\<And>e. e \<in> set (audio_datas s2) \<Longrightarrow> e \<notin> set (audio_datas s1) \<Longrightarrow> a_refs (audio s2 e) = 0"
    and L9: "insts s2 = insts s1" "nodes s2 = nodes s1"
    by simp_all
  have len: "length arr = length (regions inst)" using L1 by (simp add: list_all2_lengthD)
  then have arr_ne: "arr \<noteq> []" using assms(2) by auto
  then have aset_ne: "aset \<noteq> []" using L3 by auto
  define s3 where "s3 = fold refs_FetchAdd aset s2"
  have s3: "s3 = s2\<lparr>audio := \<lambda>d. if d \<in> set aset then (audio s2 d)\<lparr>a_refs := a_refs (audio s2 d) + 1\<rparr>
                                  else audio s2 d\<rparr>"
    unfolding s3_def using L2 by (rule fold_refs_FetchAdd)
  define sF where "sF = s3\<lparr>insts := (insts s3)(new_inst := (insts s3 new_inst)
                              \<lparr>li_audio_datas := arr, file_for_gui_waveform := wv,
                               audio_data_set := aset\<rparr>)\<rparr>"
  have res: "FetchOrCreateInstrument lib_node inst s = Inr (new_inst, sF)"
    using assms(1) loop aset_ne
    by (simp add: FetchOrCreateInstrument_def Let_def new_inst_def [symmetric] s1_def [symmetric]
          lb1 lb_def [symmetric] s3_def [symmetric] sF_def)
  have L1': "list_all2 (\<lambda>r a. a \<in> set (audio_datas s2) \<and> a_library_name (audio s2 a) = l_name lb
                            \<and> a_path (audio s2 a) = file_path r) (regions inst) arr"
    using L1 by (rule list_all2_mono) (simp add: find_audio_data_Some)
  have paths2: "map (\<lambda>a. a_path (audio s2 a)) arr = map file_path (regions inst)"
    using L1' by (induction rule: list_all2_induct) simp_all
  have lib2: "\<forall>a\<in>set arr. a \<in> set (audio_datas s2) \<and> a_library_name (audio s2 a) = l_name lb"
    using L1' by (induction rule: list_all2_induct) simp_all
  have audioF: "\<And>d. a_path (audio sF d) = a_path (audio s2 d)"
     "\<And>d. a_library_name (audio sF d) = a_library_name (audio s2 d)"
     "audio_datas sF = audio_datas s2"
    by (simp_all add: sF_def s3)
  have card: "card (set arr) = card (file_path ` set (regions inst))"
  proof (rule card_lookup)
    show "list_all2 (\<lambda>r a. (\<lambda>p. find_audio_data lb p s2) (file_path r) = Some a
                            \<and> (\<lambda>a. a_path (audio s2 a)) a = file_path r) (regions inst) arr"
      using L1 by (rule list_all2_mono) (simp add: find_audio_data_Some)
  qed
  have "length aset = card (set aset)" using L2 by (simp add: distinct_card)
  then have count: "length aset = card (file_path ` set (regions inst))"
    using L3 card by simp
  have ad1: "audio_datas s1 = audio_datas s" "audio s1 = audio s" by (simp_all add: s1_def)
  have refs: "\<forall>d\<in>set aset. a_refs (audio sF d) = (if d \<in> set (audio_datas s) then a_refs (audio s d) else 0) + 1"
  proof
    fix d assume d: "d \<in> set aset"
    then have in2: "d \<in> set (audio_datas s2)" using L3 lib2 by simp
    have "a_refs (audio s2 d) = (if d \<in> set (audio_datas s) then a_refs (audio s d) else 0)"
      using L6 [of d] L7 [OF in2] ad1 by simp
    then show "a_refs (audio sF d) = (if d \<in> set (audio_datas s) then a_refs (audio s d) else 0) + 1"
      using d by (simp add: sF_def s3)
  qed
  have frame: "\<forall>d. d \<notin> set aset \<longrightarrow> audio sF d = audio s d"
    using L5 L3 ad1 by (simp add: sF_def s3)
  have nodesF: "nodes sF = nodes s1" and instsF: "insts sF new_inst = (insts s1 new_inst)
                              \<lparr>li_audio_datas := arr, file_for_gui_waveform := wv, audio_data_set := aset\<rparr>"
    using L9 by (simp_all add: sF_def s3)
  show ?thesis
  proof (intro exI conjI)
    show "FetchOrCreateInstrument lib_node inst s = Inr (new_inst, sF)" by (rule res)
    show "new_inst \<notin> set (all_instruments s)" unfolding new_inst_def by (rule fresh_notin)
    show "instruments (nodes sF lib_node) = new_inst # instruments (nodes s lib_node)"
      by (simp add: nodesF s1_def)
    show "reader_uses (nodes sF lib_node) = reader_uses (nodes s lib_node) + 1"
      by (simp add: nodesF s1_def)
    show "li_instrument (insts sF new_inst) = inst" by (simp add: instsF s1_def)
    show "li_refs (insts sF new_inst) = 0" by (simp add: instsF s1_def)
    show "length (li_audio_datas (insts sF new_inst)) = length (regions inst)"
      using len by (simp add: instsF)
    show "map (\<lambda>a. a_path (audio sF a)) (li_audio_datas (insts sF new_inst)) = map file_path (regions inst)"
      using paths2 by (simp add: instsF audioF)
    show "\<forall>a\<in>set (li_audio_datas (insts sF new_inst)).
          a \<in> set (audio_datas sF) \<and> a_library_name (audio sF a) = l_name (lib (nodes s lib_node))"
      using lib2 by (simp add: instsF audioF lb_def)
    show "distinct (audio_data_set (insts sF new_inst))" using L2 by (simp add: instsF)
    show "set (audio_data_set (insts sF new_inst)) = set (li_audio_datas (insts sF new_inst))"
      using L3 by (simp add: instsF)
    show "length (audio_data_set (insts sF new_inst)) = card (file_path ` set (regions inst))"
      using count by (simp add: instsF)
    show "\<forall>d\<in>set (audio_data_set (insts sF new_inst)).
          a_refs (audio sF d) = (if d \<in> set (audio_datas s) then a_refs (audio s d) else 0) + 1"
      using refs by (simp add: instsF)
    show "\<forall>d. d \<notin> set (audio_data_set (insts sF new_inst)) \<longrightarrow> audio sF d = audio s d"
      using frame by (simp add: instsF)
  qed
qed

lemma started_facts:
  "libraries started = [Suc 0]" "dead_list started = []"
  "nodes started (Suc 0) = \<lparr>lib = lib_builtin, instruments = [], reader_uses = 0\<rparr>"
  "libraries_by_name started = [(''Built-in'', Suc 0)]"
  "channels started = []" "audio_datas started = []" "thread_pool_jobs started = []"
  "chans started = (\<lambda>a. default_channel)" "audio started = (\<lambda>a. default_audio)"
  "insts started = insts empty_server"
  by (simp_all add: started_def LoadingThreadLoop_start_def Let_def empty_server_def fresh_def
        lib_builtin_def)

lemma with_S_facts:
  "libraries with_S = [Suc (Suc 0), Suc 0]" "dead_list with_S = []"
  "nodes with_S (Suc (Suc 0)) = \<lparr>lib = lib_S, instruments = [], reader_uses = 0\<rparr>"
  "nodes with_S (Suc 0) = \<lparr>lib = lib_builtin, instruments = [], reader_uses = 0\<rparr>"
  "libraries_by_name with_S = [(''Built-in'', Suc 0), (''SharedFilesMdata'', Suc (Suc 0))]"
  "channels with_S = [Suc 0]" "audio_datas with_S = []" "thread_pool_jobs with_S = []"
  "chans with_S (Suc 0) = \<lparr>c_error_notifications = 0, callback_calls = 0, used = True, results = [],
      instrument_loading_percents = [- 1, - 1, - 1], desired_inst = [None, None, None]\<rparr>"
  "audio with_S = (\<lambda>a. default_audio)"
  "insts with_S = insts empty_server"
  by (simp_all add: with_S_def rebuild_libraries_by_name_def OpenAsyncCommsChannel_def
        handle_library_value_def Let_def started_facts fresh_def RemoveError_def
        lib_builtin_def lib_S_def ext0_def numeral_3_eq_3)

lemma groups_pending_facts:
  "p_state groups_pending = AwaitingLibrary"
  "q_request (p_request groups_pending) = Request_Instrument ''SharedFilesMdata'' ''Groups And Refs'' 0"
  "async_comms_channel (p_request groups_pending) = Suc 0"
  by (simp_all add: groups_pending_def)

lemma after_groups_facts:
  "fst after_groups = groups_pending\<lparr>p_state := AwaitingAudio (Asset_Instrument (Suc 0))\<rparr>"
  "audio_datas (snd after_groups) = [Suc (Suc 0), Suc 0]"
  "thread_pool_jobs (snd after_groups) = [Suc 0, Suc (Suc 0)]"
  "audio (snd after_groups) (Suc 0) =
     \<lparr>a_library_name = ''SharedFilesMdata'', a_path = ''a.flac'', a_audio_data = [], a_refs = 1,
      a_state = PendingLoad, a_error = None\<rparr>"
  "audio (snd after_groups) (Suc (Suc 0)) =
     \<lparr>a_library_name = ''SharedFilesMdata'', a_path = ''b.flac'', a_audio_data = [], a_refs = 1,
      a_state = PendingLoad, a_error = None\<rparr>"
  "insts (snd after_groups) (Suc 0) =
     \<lparr>li_instrument = inst_groups, li_audio_datas = [Suc 0, Suc (Suc 0), Suc 0, Suc (Suc 0)],
      file_for_gui_waveform = Some (Suc 0), li_refs = 0, library_refs = Suc (Suc 0),
      audio_data_set = [Suc 0, Suc (Suc 0)]\<rparr>"
  "chans (snd after_groups) (Suc 0) =
     \<lparr>c_error_notifications = 0, callback_calls = 0, used = True, results = [],
      instrument_loading_percents = [0, - 1, - 1], desired_inst = [Some (Suc 0), None, None]\<rparr>"
  "nodes (snd after_groups) (Suc (Suc 0)) = \<lparr>lib = lib_S, instruments = [Suc 0], reader_uses = 1\<rparr>"
  "nodes (snd after_groups) (Suc 0) = \<lparr>lib = lib_builtin, instruments = [], reader_uses = 0\<rparr>"
  "libraries (snd after_groups) = [Suc (Suc 0), Suc 0]" "dead_list (snd after_groups) = []"
  "libraries_by_name (snd after_groups) = [(''Built-in'', Suc 0), (''SharedFilesMdata'', Suc (Suc 0))]"
  by (simp_all add: after_groups_def fill_in_library_def library_name_of_def groups_pending_facts
        with_S_facts Let_def lib_S_def inst_groups_def store_percent_def store_desired_def
        FetchOrCreateInstrument_def all_instruments_def fresh_def
        FetchOrCreateAudioData_def find_audio_data_def LoadAudioAsync_def
        AppendIfNotAlreadyThere_def refs_FetchAdd_def default_audio_def
        TriggerReload_cases set_state_def)

lemma single_pending_facts:
  "p_state single_pending = AwaitingLibrary"
  "q_request (p_request single_pending) = Request_Instrument ''SharedFilesMdata'' ''Single Sample'' 0"
  "async_comms_channel (p_request single_pending) = Suc 0"
  by (simp_all add: single_pending_def)

lemma after_single_facts:
  "fst after_single = single_pending\<lparr>p_state := AwaitingAudio (Asset_Instrument (Suc (Suc 0)))\<rparr>"
  "audio_datas (snd after_single) = [3, Suc (Suc 0), Suc 0]"
  "thread_pool_jobs (snd after_single) = [Suc 0, Suc (Suc 0), 3]"
  "audio (snd after_single) (Suc 0) =
     \<lparr>a_library_name = ''SharedFilesMdata'', a_path = ''a.flac'', a_audio_data = [], a_refs = 1,
      a_state = PendingLoad, a_error = None\<rparr>"
  "audio (snd after_single) (Suc (Suc 0)) =
     \<lparr>a_library_name = ''SharedFilesMdata'', a_path = ''b.flac'', a_audio_data = [], a_refs = 1,
      a_state = PendingLoad, a_error = None\<rparr>"
  "audio (snd after_single) 3 =
     \<lparr>a_library_name = ''SharedFilesMdata'', a_path = ''c.flac'', a_audio_data = [], a_refs = 1,
      a_state = PendingLoad, a_error = None\<rparr>"
  "insts (snd after_single) (Suc 0) =
     \<lparr>li_instrument = inst_groups, li_audio_datas = [Suc 0, Suc (Suc 0), Suc 0, Suc (Suc 0)],
      file_for_gui_waveform = Some (Suc 0), li_refs = 0, library_refs = Suc (Suc 0),
      audio_data_set = [Suc 0, Suc (Suc 0)]\<rparr>"
  "chans (snd after_single) (Suc 0) =
     \<lparr>c_error_notifications = 0, callback_calls = 0, used = True, results = [],
      instrument_loading_percents = [0, - 1, - 1], desired_inst = [Some (Suc (Suc 0)), None, None]\<rparr>"
  by (simp_all add: after_single_def fill_in_library_def library_name_of_def single_pending_facts
        after_groups_facts Let_def lib_S_def inst_groups_def inst_single_def store_percent_def
        store_desired_def FetchOrCreateInstrument_def all_instruments_def fresh_def
        FetchOrCreateAudioData_def find_audio_data_def LoadAudioAsync_def
        AppendIfNotAlreadyThere_def refs_FetchAdd_def lib_builtin_def
        TriggerReload_cases set_state_def)

lemma all_decoded_facts:
  "audio all_decoded (Suc 0) =
     \<lparr>a_library_name = ''SharedFilesMdata'', a_path = ''a.flac'', a_audio_data = [0, 0], a_refs = 1,
      a_state = CompletedSucessfully, a_error = None\<rparr>"
  "audio all_decoded (Suc (Suc 0)) =
     \<lparr>a_library_name = ''SharedFilesMdata'', a_path = ''b.flac'', a_audio_data = [0, 0], a_refs = 1,
      a_state = CompletedSucessfully, a_error = None\<rparr>"
  "insts all_decoded = insts (snd after_single)"
  "chans all_decoded = chans (snd after_single)"
  by (simp_all add: all_decoded_def after_single_facts decode_job_def job_begin_def job_store_def
        Let_def set_state_def)

lemma groups_decoded_facts:
  "audio groups_decoded (Suc 0) =
     \<lparr>a_library_name = ''SharedFilesMdata'', a_path = ''a.flac'', a_audio_data = [0, 0], a_refs = 1,
      a_state = CompletedSucessfully, a_error = None\<rparr>"
  "audio groups_decoded (Suc (Suc 0)) =
     \<lparr>a_library_name = ''SharedFilesMdata'', a_path = ''b.flac'', a_audio_data = [0, 0], a_refs = 1,
      a_state = CompletedSucessfully, a_error = None\<rparr>"
  "insts groups_decoded = insts (snd after_groups)"
  "chans groups_decoded = chans (snd after_groups)"
  by (simp_all add: groups_decoded_def after_groups_facts decode_job_def job_begin_def job_store_def
        Let_def set_state_def)

lemma request_succeeds:
  assumes "p_state p = AwaitingAudio (Asset_Instrument i)"
    and "q_request (p_request p) = Request_Instrument ln nm layer"
    and "layer < length (desired_inst (chans t (async_comms_channel (p_request p))))"
    and "desired_inst (chans t (async_comms_channel (p_request p))) ! layer = Some i"
    and "audio_data_set (insts t i) \<noteq> []"
    and "length (audio_data_set (insts t i)) < 2 ^ 32"
    and "\<forall>a\<in>set (audio_data_set (insts t i)). a_state (audio t a) = CompletedSucessfully"
  shows "check_for_errors x p t = Inr (p, t) \<and>
         check_still_needed x ps p t =
           Inr (p\<lparr>p_state := CompletedSuccessfully (RU_Instrument i)\<rparr>,
                store_percent (async_comms_channel (p_request p)) layer (- 1) t) \<and>
         terminal_result (CompletedSuccessfully (RU_Instrument i)) = Some (Success (RU_Instrument i))"
proof -
  have nf: "find (\<lambda>a. a_state (audio t a) = CompletedWithError) (audio_data_set (insts t i)) = None"
    using assms(7) by (auto simp: find_None_iff)
  have all: "filter (\<lambda>a. a_state (audio t a) = CompletedSucessfully) (audio_data_set (insts t i))
             = audio_data_set (insts t i)"
    using assms(7) by (simp add: filter_id_conv)
  have un: "unat (of_nat (length (audio_data_set (insts t i))) :: u32) = length (audio_data_set (insts t i))"
    using assms(6) by (intro of_nat_inverse [OF refl]) simp
  have a: "check_for_errors x p t = Inr (p, t)"
    using assms(1,5) nf by (simp add: check_for_errors_def)
  have b: "check_still_needed x ps p t =
           Inr (p\<lparr>p_state := CompletedSuccessfully (RU_Instrument i)\<rparr>,
                store_percent (async_comms_channel (p_request p)) layer (- 1) t)"
    using assms(1-4) all un by (simp add: check_still_needed_def IsDesired_def LayerIndex_def Let_def)
  show ?thesis using a b by (simp add: terminal_result_def)
qed

lemma fold_TriggerReload_chans:
  "chans (fold TriggerReloadIfAudioIsCancelled xs s) = chans s"
  by (induction xs arbitrary: s) (simp_all add: TriggerReload_fields)

lemma fold_refs_FetchAdd_chans: "chans (fold refs_FetchAdd xs s) = chans s"
  by (induction xs arbitrary: s) (simp_all add: refs_FetchAdd_def)

lemma FetchOrCreateInstrument_chans:
  assumes "FetchOrCreateInstrument lib_node inst s = Inr (i, s')"
  shows "chans s' = chans s"
proof (cases "find (\<lambda>i. i_name (li_instrument (insts s i)) = i_name inst) (instruments (nodes s lib_node))")
  case (Some j)
  then show ?thesis using assms
    by (auto simp: FetchOrCreateInstrument_def fold_TriggerReload_chans)
next
  case None
  define s1 where "s1 = s\<lparr>insts := (insts s)(fresh (all_instruments s) :=
                        \<lparr>li_instrument = inst, li_audio_datas = [], file_for_gui_waveform = None,
                         li_refs = 0, library_refs = lib_node, audio_data_set = []\<rparr>),
                     nodes := (nodes s)(lib_node := (nodes s lib_node)
                        \<lparr>instruments := fresh (all_instruments s) # instruments (nodes s lib_node),
                         reader_uses := reader_uses (nodes s lib_node) + 1\<rparr>)\<rparr>"
  define lb where "lb = lib (nodes s lib_node)"
  have lb1: "lib (nodes s1 lib_node) = lb" by (simp add: s1_def lb_def)
  obtain arr aset wv s2 where
    loop: "regions_loop lb inst (regions inst) ([], [], None, s1) = (arr, aset, wv, s2)"
    by (cases "regions_loop lb inst (regions inst) ([], [], None, s1)") auto
  have "list_all2 (\<lambda>r a. find_audio_data lb (file_path r) s1 = Some a) [] []"
    by simp
  from regions_loop_inv [OF loop this] have c2: "chans s2 = chans s1" by simp
  have c1: "chans s1 = chans s" by (simp add: s1_def)
  show ?thesis
    using assms None loop c1 c2
    by (auto simp: FetchOrCreateInstrument_def Let_def s1_def [symmetric] lb1 lb_def [symmetric]
          fold_refs_FetchAdd_chans split: if_splits)
qed

lemma request_resolved:
  assumes "p_state p = AwaitingLibrary"
    and "q_request (p_request p) = Request_Instrument ln nm layer"
    and "ln \<noteq> []" and "nm \<noteq> []"
    and "map_of (libraries_by_name t) ln = Some lb"
    and "map_of (insts_by_name (lib (nodes t lb))) nm = Some inst"
    and "layer < length (instrument_loading_percents (chans t (async_comms_channel (p_request p))))"
    and "layer < length (desired_inst (chans t (async_comms_channel (p_request p))))"
    and "FetchOrCreateInstrument lb inst (store_percent (async_comms_channel (p_request p)) layer 0 t)
           = Inr (i, t1)"
  shows "fill_in_library x p t =
           Inr (p\<lparr>p_state := AwaitingAudio (Asset_Instrument i)\<rparr>,
                store_desired (async_comms_channel (p_request p)) layer i t1) \<and>
         desired_inst (chans (store_desired (async_comms_channel (p_request p)) layer i t1)
                         (async_comms_channel (p_request p))) ! layer = Some i"
proof -
  have c: "chans t1 = chans (store_percent (async_comms_channel (p_request p)) layer 0 t)"
    using assms(9) by (rule FetchOrCreateInstrument_chans)
  have l: "layer < length (desired_inst (chans t1 (async_comms_channel (p_request p))))"
    using assms(8) by (simp add: c store_percent_def)
  have a: "fill_in_library x p t =
           Inr (p\<lparr>p_state := AwaitingAudio (Asset_Instrument i)\<rparr>,
                store_desired (async_comms_channel (p_request p)) layer i t1)"
    using assms by (simp add: fill_in_library_def library_name_of_def Let_def)
  show ?thesis using a l by (simp add: store_desired_def)
qed

lemma request_cancelled:
  assumes "p_state p = AwaitingAudio (Asset_Instrument i)"
    and "q_request (p_request p) = Request_Instrument ln nm layer"
    and "layer < length (desired_inst (chans t (async_comms_channel (p_request p))))"
    and "desired_inst (chans t (async_comms_channel (p_request p))) ! layer \<noteq> Some i"
    and "\<forall>a\<in>set (audio_data_set (insts t i)). a_refs (audio t a) \<noteq> 0"
  shows "check_still_needed x ps p t =
           Inr (p\<lparr>p_state := State_Cancelled\<rparr>,
                if list_ex (\<lambda>other. list_ex (\<lambda>other_desired. other_desired = Some i)
                              (desired_inst (chans t (async_comms_channel (p_request other))))) ps
                then t
                else t\<lparr>audio := \<lambda>d. if d \<in> set (audio_data_set (insts t i)) \<and> a_refs (audio t d) = 1
                                         \<and> a_state (audio t d) = PendingLoad
                                      then (audio t d)\<lparr>a_state := PendingCancel\<rparr> else audio t d\<rparr>)"
    and "audio_data_set (insts t i) \<noteq> [] \<Longrightarrow>
         \<forall>a\<in>set (audio_data_set (insts t i)). a_state (audio t a) \<noteq> CompletedWithError \<Longrightarrow>
         check_for_errors x p t = Inr (p, t)"
    and "\<forall>a\<in>set (audio_data_set (insts t i)). a_state (audio t a) = CompletedSucessfully \<Longrightarrow>
         check_still_needed x ps p t = Inr (p\<lparr>p_state := State_Cancelled\<rparr>, t)"
proof -
  have d: "IsDesired p i t = Inr False"
    using assms(2-4) by (simp add: IsDesired_def)
  have c: "CancelLoadingAudioForInstrumentIfPossible i t =
     Inr (t\<lparr>audio := \<lambda>d. if d \<in> set (audio_data_set (insts t i)) \<and> a_refs (audio t d) = 1
                             \<and> a_state (audio t d) = PendingLoad
                          then (audio t d)\<lparr>a_state := PendingCancel\<rparr> else audio t d\<rparr>)"
    unfolding CancelLoadingAudioForInstrumentIfPossible_def using assms(5) by (rule cancel_loop_spec)
  show g: "check_still_needed x ps p t =
           Inr (p\<lparr>p_state := State_Cancelled\<rparr>,
                if list_ex (\<lambda>other. list_ex (\<lambda>other_desired. other_desired = Some i)
                              (desired_inst (chans t (async_comms_channel (p_request other))))) ps
                then t
                else t\<lparr>audio := \<lambda>d. if d \<in> set (audio_data_set (insts t i)) \<and> a_refs (audio t d) = 1
                                         \<and> a_state (audio t d) = PendingLoad
                                      then (audio t d)\<lparr>a_state := PendingCancel\<rparr> else audio t d\<rparr>)"
    using assms(1) d c by (simp add: check_still_needed_def Let_def)
  show "check_for_errors x p t = Inr (p, t)"
    if ne: "audio_data_set (insts t i) \<noteq> []"
      and ok: "\<forall>a\<in>set (audio_data_set (insts t i)). a_state (audio t a) \<noteq> CompletedWithError"
  proof -
    have nf: "find (\<lambda>a. a_state (audio t a) = CompletedWithError) (audio_data_set (insts t i)) = None"
      using ok by (auto simp: find_None_iff)
    show ?thesis using assms(1) ne nf by (simp add: check_for_errors_def)
  qed
  show "check_still_needed x ps p t = Inr (p\<lparr>p_state := State_Cancelled\<rparr>, t)"
    if all: "\<forall>a\<in>set (audio_data_set (insts t i)). a_state (audio t a) = CompletedSucessfully"
  proof -
    have "(\<lambda>d. if d \<in> set (audio_data_set (insts t i)) \<and> a_refs (audio t d) = 1
                                         \<and> a_state (audio t d) = PendingLoad
                                      then (audio t d)\<lparr>a_state := PendingCancel\<rparr> else audio t d) = audio t"
      using all by (auto simp: fun_eq_iff)
    then show ?thesis using g by simp
  qed
qed

lemma with_S_queue:
  "request_queue with_S = []" "request_id_counter with_S = 0" "debug_result_id with_S = 0"
  "scan_folders with_S = []" "pending_results with_S = []"
  by (simp_all add: with_S_def rebuild_libraries_by_name_def OpenAsyncCommsChannel_def
        handle_library_value_def Let_def started_facts fresh_def RemoveError_def
        lib_builtin_def lib_S_def ext0_def numeral_3_eq_3 started_def LoadingThreadLoop_start_def
        empty_server_def)

lemma consume_requests_frame:
  "chans (consume_requests s) = chans s \<and> audio (consume_requests s) = audio s \<and>
   insts (consume_requests s) = insts s \<and> nodes (consume_requests s) = nodes s \<and>
   libraries (consume_requests s) = libraries s \<and> dead_list (consume_requests s) = dead_list s \<and>
   libraries_by_name (consume_requests s) = libraries_by_name s \<and>
   audio_datas (consume_requests s) = audio_datas s \<and>
   thread_pool_jobs (consume_requests s) = thread_pool_jobs s \<and>
   num_uncompleted_jobs (consume_requests s) = num_uncompleted_jobs s"
proof (induction s rule: consume_requests.induct)
  case (1 s)
  show ?case
  proof (cases "request_queue s")
    case Nil
    then show ?thesis by (simp add: consume_requests.simps [of s])
  next
    case (Cons q rest)
    from 1 [OF Cons] show ?thesis
      using Cons by (simp add: consume_requests.simps [of s] consume_request_def Let_def)
  qed
qed

lemma two_requests_facts:
  "request_queue two_requests =
     [\<lparr>q_id = 0, q_request = Request_Instrument ''SharedFilesMdata'' ''Groups And Refs'' 0,
       async_comms_channel = 1\<rparr>,
      \<lparr>q_id = 1, q_request = Request_Instrument ''SharedFilesMdata'' ''Single Sample'' 0,
       async_comms_channel = 1\<rparr>]"
  "chans two_requests = chans with_S" "audio two_requests = audio with_S"
  "insts two_requests = insts with_S" "nodes two_requests = nodes with_S"
  "libraries two_requests = libraries with_S" "dead_list two_requests = dead_list with_S"
  "libraries_by_name two_requests = libraries_by_name with_S"
  "audio_datas two_requests = audio_datas with_S"
  "thread_pool_jobs two_requests = thread_pool_jobs with_S"
  "debug_result_id two_requests = 0" "scan_folders two_requests = []"
  "pending_results two_requests = []"
  by (simp_all add: two_requests_def SendAsyncLoadRequest_def Let_def with_S_queue)

lemma taken_pending: "pending_results taken = [single_pending, groups_pending]"
  unfolding taken_def
  apply (subst consume_requests.simps)
  apply (simp add: two_requests_facts consume_request_def Let_def with_S_facts)
  apply (subst consume_requests.simps)
  apply (simp add: two_requests_facts consume_request_def Let_def with_S_facts)
  apply (subst consume_requests.simps)
  apply (simp add: two_requests_facts single_pending_def groups_pending_def)
  done


lemma taken_facts:
  "chans taken = chans with_S" "audio taken = audio with_S"
  "insts taken = insts with_S" "nodes taken = nodes with_S"
  "libraries taken = libraries with_S" "dead_list taken = dead_list with_S"
  "libraries_by_name taken = libraries_by_name with_S"
  "audio_datas taken = audio_datas with_S"
  "thread_pool_jobs taken = thread_pool_jobs with_S"
  using consume_requests_frame [of two_requests] by (simp_all add: taken_def two_requests_facts)

lemma same_pass_facts:
  "fst same_pass =
     [single_pending\<lparr>p_state := AwaitingAudio (Asset_Instrument (Suc 0))\<rparr>,
      groups_pending\<lparr>p_state := AwaitingAudio (Asset_Instrument (Suc (Suc 0)))\<rparr>]"
  "chans (snd same_pass) (Suc 0) =
     \<lparr>c_error_notifications = 0, callback_calls = 0, used = True, results = [],
      instrument_loading_percents = [0, - 1, - 1], desired_inst = [Some (Suc (Suc 0)), None, None]\<rparr>"
  "insts (snd same_pass) (Suc 0) =
     \<lparr>li_instrument = inst_single, li_audio_datas = [Suc 0],
      file_for_gui_waveform = Some (Suc 0), li_refs = 0, library_refs = Suc (Suc 0),
      audio_data_set = [Suc 0]\<rparr>"
  "insts (snd same_pass) (Suc (Suc 0)) =
     \<lparr>li_instrument = inst_groups, li_audio_datas = [Suc (Suc 0), 3, Suc (Suc 0), 3],
      file_for_gui_waveform = Some (Suc (Suc 0)), li_refs = 0, library_refs = Suc (Suc 0),
      audio_data_set = [Suc (Suc 0), 3]\<rparr>"
  "audio (snd same_pass) (Suc 0) =
     \<lparr>a_library_name = ''SharedFilesMdata'', a_path = ''c.flac'', a_audio_data = [], a_refs = 1,
      a_state = PendingLoad, a_error = None\<rparr>"
  by (simp_all add: same_pass_def taken_pending taken_facts
        fill_in_library_def library_name_of_def single_pending_facts groups_pending_facts
        with_S_facts Let_def lib_S_def inst_groups_def inst_single_def store_percent_def
        store_desired_def FetchOrCreateInstrument_def all_instruments_def fresh_def
        FetchOrCreateAudioData_def find_audio_data_def LoadAudioAsync_def
        AppendIfNotAlreadyThere_def refs_FetchAdd_def lib_builtin_def default_audio_def
        TriggerReload_cases set_state_def)


text \<open>
  C3 as stated fails: the instrument of four regions over two files is materialised for
  a request on layer 0; a second request on layer 0 then asks for another instrument;
  every decode job completes successfully. The first request is no longer the desired
  one of its layer, and it ends cancelled, not as a success.
\<close>

theorem superseded_request_counterexample:
  "fst after_groups = groups_pending\<lparr>p_state := AwaitingAudio (Asset_Instrument 1)\<rparr> \<and>
   li_instrument (insts all_decoded 1) = inst_groups \<and>
   map (\<lambda>a. a_state (audio all_decoded a)) (audio_data_set (insts all_decoded 1))
     = [CompletedSucessfully, CompletedSucessfully] \<and>
   result_state (check_for_errors ext0 (fst after_groups) all_decoded)
     = Some (AwaitingAudio (Asset_Instrument 1)) \<and>
   result_state (check_still_needed ext0 [fst after_single, fst after_groups] (fst after_groups) all_decoded)
     = Some State_Cancelled \<and>
   terminal_result State_Cancelled = Some Cancelled"
  by (simp add: after_groups_facts after_single_facts all_decoded_facts result_state_def
        check_for_errors_def check_still_needed_def IsDesired_def LayerIndex_def Let_def
        groups_pending_facts single_pending_facts terminal_result_def
        CancelLoadingAudioForInstrumentIfPossible_def CompareExchange_def set_state_def)

text \<open>
  C3, amended: when the library has no listed instrument of the name and the instrument
  has a region, \<open>FetchOrCreateInstrument\<close> lists a new instrument, with reference count 0,
  and adds one to the reader count of the library node. Its \<open>audio_datas\<close> has one entry
  per region, in the order of the regions, each the listed audio entry of the library
  with the path of its region; its \<open>audio_data_set\<close> holds each of these entries once, so
  that its size is the number of distinct paths of the regions; the reference count of
  each entry of the set is one more than before (than 0 for an entry created here), and
  every entry outside the set is what it was. The step that resolves the request stores
  the instrument in \<open>desired_inst[layer]\<close> of the request's channel. For a request that
  awaits its audio, with every entry of the set completed successfully: when
  \<open>desired_inst[layer]\<close> holds its instrument, the pass finds no error and the pending
  result becomes \<open>CompletedSuccessfully\<close>, which is dispatched as a success; when
  \<open>desired_inst[layer]\<close> holds anything else, the pass finds no error, leaves the state as
  it is and the pending result becomes \<open>Cancelled\<close>, which is dispatched as cancelled.
  More generally the loop that checks whether an instrument is still needed cancels
  every request it meets whose instrument is not in \<open>desired_inst[layer]\<close>, whatever the
  state of the entries: the entries of an instrument that no channel of a pending request
  desires are cancelled where possible; and the loop before it leaves alone a request none
  of whose entries has failed. The reference counts of the entries are taken to be
  nonzero, as the cancellation asserts.
\<close>

theorem instrument_materialized:
  assumes "find (\<lambda>i. i_name (li_instrument (insts s i)) = i_name inst)
             (instruments (nodes s lib_node)) = None"
    and "regions inst \<noteq> []"
  shows "(\<exists>new_inst s'. FetchOrCreateInstrument lib_node inst s = Inr (new_inst, s') \<and>
      new_inst \<notin> set (all_instruments s) \<and>
      instruments (nodes s' lib_node) = new_inst # instruments (nodes s lib_node) \<and>
      reader_uses (nodes s' lib_node) = reader_uses (nodes s lib_node) + 1 \<and>
      li_instrument (insts s' new_inst) = inst \<and> li_refs (insts s' new_inst) = 0 \<and>
      length (li_audio_datas (insts s' new_inst)) = length (regions inst) \<and>
      map (\<lambda>a. a_path (audio s' a)) (li_audio_datas (insts s' new_inst)) = map file_path (regions inst) \<and>
      (\<forall>a\<in>set (li_audio_datas (insts s' new_inst)).
          a \<in> set (audio_datas s') \<and> a_library_name (audio s' a) = l_name (lib (nodes s lib_node))) \<and>
      distinct (audio_data_set (insts s' new_inst)) \<and>
      set (audio_data_set (insts s' new_inst)) = set (li_audio_datas (insts s' new_inst)) \<and>
      length (audio_data_set (insts s' new_inst)) = card (file_path ` set (regions inst)) \<and>
      (\<forall>d\<in>set (audio_data_set (insts s' new_inst)).
          a_refs (audio s' d) = (if d \<in> set (audio_datas s) then a_refs (audio s d) else 0) + 1) \<and>
      (\<forall>d. d \<notin> set (audio_data_set (insts s' new_inst)) \<longrightarrow> audio s' d = audio s d)) \<and>
    (p_state p0 = AwaitingLibrary \<and>
     q_request (p_request p0) = Request_Instrument ln nm layer \<and> ln \<noteq> [] \<and> nm \<noteq> [] \<and>
     map_of (libraries_by_name t0) ln = Some lb \<and>
     map_of (insts_by_name (lib (nodes t0 lb))) nm = Some inst0 \<and>
     layer < length (instrument_loading_percents (chans t0 (async_comms_channel (p_request p0)))) \<and>
     layer < length (desired_inst (chans t0 (async_comms_channel (p_request p0)))) \<and>
     FetchOrCreateInstrument lb inst0 (store_percent (async_comms_channel (p_request p0)) layer 0 t0)
       = Inr (i, t1) \<longrightarrow>
       fill_in_library x p0 t0 =
         Inr (p0\<lparr>p_state := AwaitingAudio (Asset_Instrument i)\<rparr>,
              store_desired (async_comms_channel (p_request p0)) layer i t1) \<and>
       desired_inst (chans (store_desired (async_comms_channel (p_request p0)) layer i t1)
                       (async_comms_channel (p_request p0))) ! layer = Some i) \<and>
    (p_state p = AwaitingAudio (Asset_Instrument i) \<and>
     q_request (p_request p) = Request_Instrument ln nm layer \<and>
     layer < length (desired_inst (chans t (async_comms_channel (p_request p)))) \<and>
     desired_inst (chans t (async_comms_channel (p_request p))) ! layer = Some i \<and>
     audio_data_set (insts t i) \<noteq> [] \<and>
     length (audio_data_set (insts t i)) < 2 ^ 32 \<and>
     (\<forall>a\<in>set (audio_data_set (insts t i)). a_state (audio t a) = CompletedSucessfully) \<longrightarrow>
       check_for_errors x p t = Inr (p, t) \<and>
       check_still_needed x ps p t =
         Inr (p\<lparr>p_state := CompletedSuccessfully (RU_Instrument i)\<rparr>,
              store_percent (async_comms_channel (p_request p)) layer (- 1) t) \<and>
       terminal_result (CompletedSuccessfully (RU_Instrument i)) = Some (Success (RU_Instrument i))) \<and>
    (p_state p = AwaitingAudio (Asset_Instrument i) \<and>
     q_request (p_request p) = Request_Instrument ln nm layer \<and>
     layer < length (desired_inst (chans t (async_comms_channel (p_request p)))) \<and>
     desired_inst (chans t (async_comms_channel (p_request p))) ! layer \<noteq> Some i \<and>
     (\<forall>a\<in>set (audio_data_set (insts t i)). a_refs (audio t a) \<noteq> 0) \<longrightarrow>
       check_still_needed x ps p t =
         Inr (p\<lparr>p_state := State_Cancelled\<rparr>,
              if list_ex (\<lambda>other. list_ex (\<lambda>other_desired. other_desired = Some i)
                            (desired_inst (chans t (async_comms_channel (p_request other))))) ps
              then t
              else t\<lparr>audio := \<lambda>d. if d \<in> set (audio_data_set (insts t i)) \<and> a_refs (audio t d) = 1
                                       \<and> a_state (audio t d) = PendingLoad
                                    then (audio t d)\<lparr>a_state := PendingCancel\<rparr> else audio t d\<rparr>) \<and>
       (audio_data_set (insts t i) \<noteq> [] \<and>
        (\<forall>a\<in>set (audio_data_set (insts t i)). a_state (audio t a) \<noteq> CompletedWithError) \<longrightarrow>
          check_for_errors x p t = Inr (p, t)) \<and>
       ((\<forall>a\<in>set (audio_data_set (insts t i)). a_state (audio t a) = CompletedSucessfully) \<longrightarrow>
          check_still_needed x ps p t = Inr (p\<lparr>p_state := State_Cancelled\<rparr>, t)) \<and>
       terminal_result State_Cancelled = Some Cancelled)"
proof (intro conjI)
  show "\<exists>new_inst s'. FetchOrCreateInstrument lib_node inst s = Inr (new_inst, s') \<and>
      new_inst \<notin> set (all_instruments s) \<and>
      instruments (nodes s' lib_node) = new_inst # instruments (nodes s lib_node) \<and>
      reader_uses (nodes s' lib_node) = reader_uses (nodes s lib_node) + 1 \<and>
      li_instrument (insts s' new_inst) = inst \<and> li_refs (insts s' new_inst) = 0 \<and>
      length (li_audio_datas (insts s' new_inst)) = length (regions inst) \<and>
      map (\<lambda>a. a_path (audio s' a)) (li_audio_datas (insts s' new_inst)) = map file_path (regions inst) \<and>
      (\<forall>a\<in>set (li_audio_datas (insts s' new_inst)).
          a \<in> set (audio_datas s') \<and> a_library_name (audio s' a) = l_name (lib (nodes s lib_node))) \<and>
      distinct (audio_data_set (insts s' new_inst)) \<and>
      set (audio_data_set (insts s' new_inst)) = set (li_audio_datas (insts s' new_inst)) \<and>
      length (audio_data_set (insts s' new_inst)) = card (file_path ` set (regions inst)) \<and>
      (\<forall>d\<in>set (audio_data_set (insts s' new_inst)).
          a_refs (audio s' d) = (if d \<in> set (audio_datas s) then a_refs (audio s d) else 0) + 1) \<and>
      (\<forall>d. d \<notin> set (audio_data_set (insts s' new_inst)) \<longrightarrow> audio s' d = audio s d)"
    using assms by (rule FetchOrCreateInstrument_new)
  show "p_state p0 = AwaitingLibrary \<and>
     q_request (p_request p0) = Request_Instrument ln nm layer \<and> ln \<noteq> [] \<and> nm \<noteq> [] \<and>
     map_of (libraries_by_name t0) ln = Some lb \<and>
     map_of (insts_by_name (lib (nodes t0 lb))) nm = Some inst0 \<and>
     layer < length (instrument_loading_percents (chans t0 (async_comms_channel (p_request p0)))) \<and>
     layer < length (desired_inst (chans t0 (async_comms_channel (p_request p0)))) \<and>
     FetchOrCreateInstrument lb inst0 (store_percent (async_comms_channel (p_request p0)) layer 0 t0)
       = Inr (i, t1) \<longrightarrow>
       fill_in_library x p0 t0 =
         Inr (p0\<lparr>p_state := AwaitingAudio (Asset_Instrument i)\<rparr>,
              store_desired (async_comms_channel (p_request p0)) layer i t1) \<and>
       desired_inst (chans (store_desired (async_comms_channel (p_request p0)) layer i t1)
                       (async_comms_channel (p_request p0))) ! layer = Some i"
    using request_resolved [of p0 ln nm layer t0 lb inst0 i t1 x] by blast
  show "p_state p = AwaitingAudio (Asset_Instrument i) \<and>
     q_request (p_request p) = Request_Instrument ln nm layer \<and>
     layer < length (desired_inst (chans t (async_comms_channel (p_request p)))) \<and>
     desired_inst (chans t (async_comms_channel (p_request p))) ! layer = Some i \<and>
     audio_data_set (insts t i) \<noteq> [] \<and>
     length (audio_data_set (insts t i)) < 2 ^ 32 \<and>
     (\<forall>a\<in>set (audio_data_set (insts t i)). a_state (audio t a) = CompletedSucessfully) \<longrightarrow>
       check_for_errors x p t = Inr (p, t) \<and>
       check_still_needed x ps p t =
         Inr (p\<lparr>p_state := CompletedSuccessfully (RU_Instrument i)\<rparr>,
              store_percent (async_comms_channel (p_request p)) layer (- 1) t) \<and>
       terminal_result (CompletedSuccessfully (RU_Instrument i)) = Some (Success (RU_Instrument i))"
    using request_succeeds [of p i ln nm layer t x ps] by blast
  show "p_state p = AwaitingAudio (Asset_Instrument i) \<and>
     q_request (p_request p) = Request_Instrument ln nm layer \<and>
     layer < length (desired_inst (chans t (async_comms_channel (p_request p)))) \<and>
     desired_inst (chans t (async_comms_channel (p_request p))) ! layer \<noteq> Some i \<and>
     (\<forall>a\<in>set (audio_data_set (insts t i)). a_refs (audio t a) \<noteq> 0) \<longrightarrow>
       check_still_needed x ps p t =
         Inr (p\<lparr>p_state := State_Cancelled\<rparr>,
              if list_ex (\<lambda>other. list_ex (\<lambda>other_desired. other_desired = Some i)
                            (desired_inst (chans t (async_comms_channel (p_request other))))) ps
              then t
              else t\<lparr>audio := \<lambda>d. if d \<in> set (audio_data_set (insts t i)) \<and> a_refs (audio t d) = 1
                                       \<and> a_state (audio t d) = PendingLoad
                                    then (audio t d)\<lparr>a_state := PendingCancel\<rparr> else audio t d\<rparr>) \<and>
       (audio_data_set (insts t i) \<noteq> [] \<and>
        (\<forall>a\<in>set (audio_data_set (insts t i)). a_state (audio t a) \<noteq> CompletedWithError) \<longrightarrow>
          check_for_errors x p t = Inr (p, t)) \<and>
       ((\<forall>a\<in>set (audio_data_set (insts t i)). a_state (audio t a) = CompletedSucessfully) \<longrightarrow>
          check_still_needed x ps p t = Inr (p\<lparr>p_state := State_Cancelled\<rparr>, t)) \<and>
       terminal_result State_Cancelled = Some Cancelled"
    using request_cancelled(1) [of p i ln nm layer t x ps]
      request_cancelled(2) [of p i ln nm layer t x]
      request_cancelled(3) [of p i ln nm layer t x ps]
    by (simp add: terminal_result_def)
qed


lemma materialized_eq:
  "FetchOrCreateInstrument 2 inst_groups (store_percent 1 0 0 with_S) = Inr materialized"
  "fst materialized = Suc 0"
proof -
  have nf: "find (\<lambda>i. i_name (li_instrument (insts (store_percent 1 0 0 with_S) i)) = i_name inst_groups)
             (instruments (nodes (store_percent 1 0 0 with_S) 2)) = None"
    by (simp add: store_percent_def with_S_facts numeral_2_eq_2)
  have ne: "regions inst_groups \<noteq> []" by (simp add: inst_groups_def)
  from FetchOrCreateInstrument_new [OF nf ne] obtain new_inst s' where
    r: "FetchOrCreateInstrument 2 inst_groups (store_percent 1 0 0 with_S) = Inr (new_inst, s')"
    by blast
  then show e: "FetchOrCreateInstrument 2 inst_groups (store_percent 1 0 0 with_S) = Inr materialized"
    by (simp add: materialized_def)
  have "new_inst = Suc 0"
    using r nf ne
    by (auto simp: FetchOrCreateInstrument_def Let_def all_instruments_def fresh_def
          store_percent_def with_S_facts numeral_2_eq_2 split: prod.splits if_splits)
  then show "fst materialized = Suc 0" using r by (simp add: materialized_def)
qed

theorem instrument_materialized_witness:
  "(\<exists>new_inst s'. FetchOrCreateInstrument 2 inst_groups with_S = Inr (new_inst, s') \<and>
      length (li_audio_datas (insts s' new_inst)) = 4 \<and>
      length (audio_data_set (insts s' new_inst)) = 2 \<and>
      map (\<lambda>d. a_refs (audio s' d)) (audio_data_set (insts s' new_inst)) = [1, 1]) \<and>
   fill_in_library ext0 groups_pending with_S =
     Inr (groups_pending\<lparr>p_state := AwaitingAudio (Asset_Instrument 1)\<rparr>,
          store_desired 1 0 1 (snd materialized)) \<and>
   check_still_needed ext0 [fst after_groups] (fst after_groups) groups_decoded =
     Inr ((fst after_groups)\<lparr>p_state := CompletedSuccessfully (RU_Instrument 1)\<rparr>,
          store_percent 1 0 (- 1) groups_decoded) \<and>
   pending_results taken = [single_pending, groups_pending] \<and>
   fst same_pass =
     [single_pending\<lparr>p_state := AwaitingAudio (Asset_Instrument 1)\<rparr>,
      groups_pending\<lparr>p_state := AwaitingAudio (Asset_Instrument 2)\<rparr>] \<and>
   desired_inst (chans (snd same_pass) 1) = [Some 2, None, None] \<and>
   (\<exists>t'. check_still_needed ext0 (fst same_pass)
            (single_pending\<lparr>p_state := AwaitingAudio (Asset_Instrument 1)\<rparr>) (snd same_pass) =
          Inr (single_pending\<lparr>p_state := State_Cancelled\<rparr>, t') \<and>
        a_state (audio t' 1) = PendingCancel)"
proof -
  have nf: "find (\<lambda>i. i_name (li_instrument (insts with_S i)) = i_name inst_groups)
             (instruments (nodes with_S 2)) = None"
    by (simp add: with_S_facts numeral_2_eq_2)
  have ne: "regions inst_groups \<noteq> []" by (simp add: inst_groups_def)
  have "file_path ` set (regions inst_groups) = {''a.flac'', ''b.flac''}"
    by (auto simp: inst_groups_def)
  then have c: "card (file_path ` set (regions inst_groups)) = 2"
    by simp
  have h: "p_state (fst after_groups) = AwaitingAudio (Asset_Instrument 1)"
    "q_request (p_request (fst after_groups)) = Request_Instrument ''SharedFilesMdata'' ''Groups And Refs'' 0"
    "async_comms_channel (p_request (fst after_groups)) = 1"
    by (simp_all add: after_groups_facts groups_pending_facts)
  note th = instrument_materialized [OF nf ne,
      where p = "fst after_groups" and i = 1 and ln = "''SharedFilesMdata''"
        and nm = "''Groups And Refs''" and layer = 0 and t = groups_decoded and x = ext0
        and ps = "[fst after_groups]" and ?p0.0 = groups_pending and ?t0.0 = with_S and lb = 2
        and ?inst0.0 = inst_groups and ?t1.0 = "snd materialized"]
  from th obtain new_inst s' where
    r: "FetchOrCreateInstrument 2 inst_groups with_S = Inr (new_inst, s')"
    and l1: "length (li_audio_datas (insts s' new_inst)) = length (regions inst_groups)"
    and l2: "length (audio_data_set (insts s' new_inst)) = card (file_path ` set (regions inst_groups))"
    and rf: "\<forall>d\<in>set (audio_data_set (insts s' new_inst)).
          a_refs (audio s' d) = (if d \<in> set (audio_datas with_S) then a_refs (audio with_S d) else 0) + 1"
    by blast
  have rf1: "\<forall>d\<in>set (audio_data_set (insts s' new_inst)). a_refs (audio s' d) = 1"
    using rf by (simp add: with_S_facts)
  obtain d1 d2 where ds: "audio_data_set (insts s' new_inst) = [d1, d2]"
    using l2 c by (auto simp: length_Suc_conv numeral_2_eq_2)
  have m: "map (\<lambda>d. a_refs (audio s' d)) (audio_data_set (insts s' new_inst)) = [1, 1]"
    using rf1 by (simp add: ds)
  have first: "\<exists>new_inst s'. FetchOrCreateInstrument 2 inst_groups with_S = Inr (new_inst, s') \<and>
      length (li_audio_datas (insts s' new_inst)) = 4 \<and>
      length (audio_data_set (insts s' new_inst)) = 2 \<and>
      map (\<lambda>d. a_refs (audio s' d)) (audio_data_set (insts s' new_inst)) = [1, 1]"
    using r l1 l2 c m by (auto simp: inst_groups_def)
  have me: "FetchOrCreateInstrument 2 inst_groups (store_percent 1 0 0 with_S)
              = Inr (1, snd materialized)"
    using materialized_eq by (simp add: prod_eq_iff)
  have lk: "map_of (libraries_by_name with_S) ''SharedFilesMdata'' = Some 2"
    "map_of (insts_by_name (lib (nodes with_S 2))) ''Groups And Refs'' = Some inst_groups"
    by (simp_all add: with_S_facts numeral_2_eq_2 lib_S_def)
  have resolved: "fill_in_library ext0 groups_pending with_S =
     Inr (groups_pending\<lparr>p_state := AwaitingAudio (Asset_Instrument 1)\<rparr>,
          store_desired 1 0 1 (snd materialized))"
    using th me lk by (simp add: groups_pending_facts with_S_facts)
  have second: "check_still_needed ext0 [fst after_groups] (fst after_groups) groups_decoded =
     Inr ((fst after_groups)\<lparr>p_state := CompletedSuccessfully (RU_Instrument 1)\<rparr>,
          store_percent 1 0 (- 1) groups_decoded)"
    using th h by (simp add: groups_decoded_facts after_groups_facts)
  let ?p = "single_pending\<lparr>p_state := AwaitingAudio (Asset_Instrument 1)\<rparr>"
  note tc = instrument_materialized [OF nf ne,
      where p = ?p and i = 1 and ln = "''SharedFilesMdata''"
        and nm = "''Single Sample''" and layer = 0 and t = "snd same_pass" and x = ext0
        and ps = "fst same_pass"]
  have nd: "\<not> list_ex (\<lambda>other. list_ex (\<lambda>other_desired. other_desired = Some 1)
                            (desired_inst (chans (snd same_pass) (async_comms_channel (p_request other)))))
               (fst same_pass)"
    by (simp add: same_pass_facts single_pending_facts groups_pending_facts)
  have cancelled: "check_still_needed ext0 (fst same_pass) ?p (snd same_pass) =
         Inr (single_pending\<lparr>p_state := State_Cancelled\<rparr>,
              (snd same_pass)\<lparr>audio := \<lambda>d. if d \<in> set (audio_data_set (insts (snd same_pass) 1))
                                       \<and> a_refs (audio (snd same_pass) d) = 1
                                       \<and> a_state (audio (snd same_pass) d) = PendingLoad
                                    then (audio (snd same_pass) d)\<lparr>a_state := PendingCancel\<rparr>
                                    else audio (snd same_pass) d\<rparr>)"
    using tc nd by (simp add: same_pass_facts single_pending_facts)
  have third: "\<exists>t'. check_still_needed ext0 (fst same_pass) ?p (snd same_pass) =
          Inr (single_pending\<lparr>p_state := State_Cancelled\<rparr>, t') \<and>
        a_state (audio t' 1) = PendingCancel"
    unfolding cancelled by (simp add: same_pass_facts)
  have des: "desired_inst (chans (snd same_pass) 1) = [Some 2, None, None]"
    by (simp add: same_pass_facts)
  from first resolved second third des taken_pending same_pass_facts(1) show ?thesis
    by (simp add: numeral_2_eq_2)
qed


end
